theory Spec2Isabelle
  imports Complex_Main "HOL-Library.Word"
begin

section \<open>Audio classification notebook: the M5 network, its loaders and its loops\<close>

text \<open>
  The development follows \<^verbatim>\<open>01-audio-classification.ipynb\<close> cell by cell.  The notebook
  is glue around three libraries (PyTorch, torchaudio, scikit-learn).  Of their
  operations the shapes, the exceptions and the effects on state are written out after
  their documented behaviour.  The numbers they compute in floating point (the entries
  of a convolution, of a normalisation, of a log-softmax, \<dots>) are not: every such
  result is given by a kernel that is a parameter, as are the roundings of the
  interpreter's own arithmetic, what the libraries draw at random, the loss and the
  optimiser step.  Progress bars, prints of statistics and device moves change no
  value and are left out, except where a print can raise.
\<close>

subsection \<open>Exceptions and programs with state\<close>

datatype error =
  RuntimeError | ValueError | ZeroDivisionError | NameError | IndexError | FileNotFoundError

text \<open>
  A program over a state \<open>'s\<close> returns its result, or the exception it raised, together
  with the state it leaves behind: what it changed before raising stays changed.
\<close>

type_synonym ('s, 'a) prog = "'s \<Rightarrow> (error + 'a) \<times> 's"

definition ret :: "'a \<Rightarrow> ('s, 'a) prog" where
  "ret v s = (Inr v, s)"

definition throw :: "error \<Rightarrow> ('s, 'a) prog" where
  "throw e s = (Inl e, s)"

definition lift :: "error + 'a \<Rightarrow> ('s, 'a) prog" where
  "lift r s = (r, s)"

definition bnd :: "('s, 'a) prog \<Rightarrow> ('a \<Rightarrow> ('s, 'b) prog) \<Rightarrow> ('s, 'b) prog" where
  "bnd p f s = (case p s of (Inl e, s') \<Rightarrow> (Inl e, s') | (Inr v, s') \<Rightarrow> f v s')"

subsection \<open>Floating-point numbers\<close>

text \<open>
  A float is a real number, an infinity or NaN; which real numbers a float of 32 or of
  64 bits can hold is not modelled.  The comparison is that of IEEE 754, which Python
  and torch follow: NaN is not below anything and nothing is below NaN.
\<close>

datatype float = Fin real | PosInf | NegInf | NaN

fun flt :: "float \<Rightarrow> float \<Rightarrow> bool" where
  "flt (Fin x) (Fin y) = (x < y)"
| "flt (Fin x) PosInf = True"
| "flt NegInf (Fin y) = True"
| "flt NegInf PosInf = True"
| "flt _ _ = False"

definition fle :: "float \<Rightarrow> float \<Rightarrow> bool" where
  "fle a b \<longleftrightarrow> flt a b \<or> (a = b \<and> a \<noteq> NaN)"

text \<open>
  The sum of two Python floats and the quotient of a Python float by a positive
  integer.  The result on two numbers is the exact result rounded to a double; the
  rounding \<open>rd\<close> (which gives an infinity beyond the largest double) is a parameter.
\<close>

fun fadd :: "(real \<Rightarrow> float) \<Rightarrow> float \<Rightarrow> float \<Rightarrow> float" where
  "fadd rd (Fin x) (Fin y) = rd (x + y)"
| "fadd rd NaN _ = NaN"
| "fadd rd _ NaN = NaN"
| "fadd rd PosInf NegInf = NaN"
| "fadd rd NegInf PosInf = NaN"
| "fadd rd PosInf _ = PosInf"
| "fadd rd _ PosInf = PosInf"
| "fadd rd NegInf _ = NegInf"
| "fadd rd _ NegInf = NegInf"

fun fdiv_nat :: "(real \<Rightarrow> float) \<Rightarrow> float \<Rightarrow> nat \<Rightarrow> float" where
  "fdiv_nat rd (Fin x) n = rd (x / real n)"
| "fdiv_nat rd v n = v"

subsection \<open>Tensors\<close>

text \<open>
  A tensor is its shape and its entries.  Rank 1 is a list; ranks 2 and 3 carry their
  dimensions and an index function, of which only the entries inside the shape matter.
\<close>

record 'a tensor2 =
  rows :: nat
  cols :: nat
  at2 :: "nat \<Rightarrow> nat \<Rightarrow> 'a"

record 'a tensor3 =
  dim0 :: nat
  dim1 :: nat
  dim2 :: nat
  at3 :: "nat \<Rightarrow> nat \<Rightarrow> nat \<Rightarrow> 'a"

subsection \<open>Layers of \<^verbatim>\<open>torch.nn\<close>\<close>

record Conv1d =
  c_weight :: "float tensor3"
  c_bias :: "float list"
  c_stride :: nat

record BatchNorm1d =
  bn_weight :: "float list"
  bn_bias :: "float list"
  running_mean :: "float list"
  running_var :: "float list"
  num_batches_tracked :: nat

record Linear =
  l_weight :: "float tensor2"
  l_bias :: "float list"

text \<open>
  The kernels of the libraries: the entry at an index of the result of a convolution,
  of a batch normalisation (in training or in evaluation mode), of ReLU, of the two
  poolings, of the linear layer, of the log-softmax over the last dimension and of the
  resampling; the running mean and variance of a channel after a batch seen in
  training mode; and the 64-bit integer that the conversion of a float gives when the
  float is outside the range of these integers, where the conversion is undefined.
\<close>

record kernels =
  k_conv1d :: "Conv1d \<Rightarrow> float tensor3 \<Rightarrow> nat \<Rightarrow> nat \<Rightarrow> nat \<Rightarrow> float"
  k_batch_norm :: "bool \<Rightarrow> BatchNorm1d \<Rightarrow> float tensor3 \<Rightarrow> nat \<Rightarrow> nat \<Rightarrow> nat \<Rightarrow> float"
  k_running_mean :: "BatchNorm1d \<Rightarrow> float tensor3 \<Rightarrow> nat \<Rightarrow> float"
  k_running_var :: "BatchNorm1d \<Rightarrow> float tensor3 \<Rightarrow> nat \<Rightarrow> float"
  k_relu :: "float \<Rightarrow> float"
  k_max_pool1d :: "nat \<Rightarrow> float tensor3 \<Rightarrow> nat \<Rightarrow> nat \<Rightarrow> nat \<Rightarrow> float"
  k_avg_pool1d :: "nat \<Rightarrow> float tensor3 \<Rightarrow> nat \<Rightarrow> nat \<Rightarrow> nat \<Rightarrow> float"
  k_linear :: "Linear \<Rightarrow> float tensor3 \<Rightarrow> nat \<Rightarrow> nat \<Rightarrow> nat \<Rightarrow> float"
  k_log_softmax :: "float tensor3 \<Rightarrow> nat \<Rightarrow> nat \<Rightarrow> nat \<Rightarrow> float"
  k_resample :: "nat \<Rightarrow> nat \<Rightarrow> float tensor2 \<Rightarrow> nat \<Rightarrow> nat \<Rightarrow> float"
  k_long_overflow :: "float \<Rightarrow> 64 word"

text \<open>
  \<^verbatim>\<open>nn.Conv1d(in, out, kernel_size, stride)\<close>: the weight has shape (out, in, kernel_size).
  The initial values are drawn at random by the library; \<open>rnd\<close> stands for the draw, by
  parameter name and index.
\<close>

definition Conv1d_init ::
  "(string \<Rightarrow> nat list \<Rightarrow> float) \<Rightarrow> string \<Rightarrow> nat \<Rightarrow> nat \<Rightarrow> nat \<Rightarrow> nat \<Rightarrow> Conv1d" where
  "Conv1d_init rnd name n_in n_out kernel_size stride =
     \<lparr>c_weight = \<lparr>dim0 = n_out, dim1 = n_in, dim2 = kernel_size,
                   at3 = (\<lambda>out i k. rnd (name @ ''.weight'') [out, i, k])\<rparr>,
      c_bias = map (\<lambda>out. rnd (name @ ''.bias'') [out]) [0..<n_out],
      c_stride = stride\<rparr>"

definition BatchNorm1d_init :: "nat \<Rightarrow> BatchNorm1d" where
  "BatchNorm1d_init num_features =
     \<lparr>bn_weight = replicate num_features (Fin 1), bn_bias = replicate num_features (Fin 0),
      running_mean = replicate num_features (Fin 0),
      running_var = replicate num_features (Fin 1),
      num_batches_tracked = 0\<rparr>"

definition Linear_init :: "(string \<Rightarrow> nat list \<Rightarrow> float) \<Rightarrow> string \<Rightarrow> nat \<Rightarrow> nat \<Rightarrow> Linear" where
  "Linear_init rnd name in_features out_features =
     \<lparr>l_weight = \<lparr>rows = out_features, cols = in_features,
                   at2 = (\<lambda>out i. rnd (name @ ''.weight'') [out, i])\<rparr>,
      l_bias = map (\<lambda>out. rnd (name @ ''.bias'') [out]) [0..<out_features]\<rparr>"

text \<open>
  The convolution (no padding, dilation 1).  It raises when the channels of the input
  differ from those of the weight and when the input is shorter than the kernel.
\<close>

definition conv1d :: "kernels \<Rightarrow> Conv1d \<Rightarrow> float tensor3 \<Rightarrow> error + float tensor3" where
  "conv1d K c x =
     (let w = c_weight c in
      if dim1 x \<noteq> dim1 w \<or> c_stride c = 0 \<or> dim2 w = 0 \<or> dim2 x < dim2 w
      then Inl RuntimeError
      else Inr \<lparr>dim0 = dim0 x, dim1 = dim0 w,
                dim2 = (dim2 x - dim2 w) div c_stride c + 1,
                at3 = k_conv1d K c x\<rparr>)"

text \<open>
  \<^verbatim>\<open>nn.BatchNorm1d.forward\<close>.  In training mode the layer counts the batch, normalises
  with the statistics of the batch and moves its running statistics towards them; it
  raises on a batch with a single value per channel.  In evaluation mode it normalises
  with the running statistics and changes nothing.  A batch without any entry is never
  built by the loaders and is not modelled.
\<close>

definition BatchNorm1d_forward ::
  "kernels \<Rightarrow> bool \<Rightarrow> float tensor3 \<Rightarrow> (BatchNorm1d, float tensor3) prog" where
  "BatchNorm1d_forward K training x b =
     (if training then
        (let b1 = b\<lparr>num_batches_tracked := num_batches_tracked b + 1\<rparr>;
             n = dim0 x * dim2 x in
         if n = 1 then (Inl ValueError, b1)
         else if dim1 x \<noteq> length (running_mean b) then (Inl RuntimeError, b1)
         else (Inr (x\<lparr>at3 := k_batch_norm K True b x\<rparr>),
               b1\<lparr>running_mean := map (k_running_mean K b x) [0..<dim1 x],
                  running_var := map (k_running_var K b x) [0..<dim1 x]\<rparr>))
      else if dim1 x \<noteq> length (running_mean b) then (Inl RuntimeError, b)
      else (Inr (x\<lparr>at3 := k_batch_norm K False b x\<rparr>), b))"

definition relu :: "kernels \<Rightarrow> float tensor3 \<Rightarrow> float tensor3" where
  "relu K x = x\<lparr>at3 := (\<lambda>n c t. k_relu K (at3 x n c t))\<rparr>"

text \<open>
  \<^verbatim>\<open>nn.MaxPool1d(k)\<close>: windows of \<open>k\<close> entries, stride \<open>k\<close>, no padding, the last
  incomplete window dropped.  It raises when no window fits.
\<close>

definition max_pool1d :: "kernels \<Rightarrow> nat \<Rightarrow> float tensor3 \<Rightarrow> error + float tensor3" where
  "max_pool1d K k x =
     (if k = 0 \<or> dim2 x < k then Inl RuntimeError
      else Inr (x\<lparr>dim2 := (dim2 x - k) div k + 1, at3 := k_max_pool1d K k x\<rparr>))"

definition avg_pool1d :: "kernels \<Rightarrow> float tensor3 \<Rightarrow> nat \<Rightarrow> error + float tensor3" where
  "avg_pool1d K x k =
     (if k = 0 \<or> dim2 x < k then Inl RuntimeError
      else Inr (x\<lparr>dim2 := (dim2 x - k) div k + 1, at3 := k_avg_pool1d K k x\<rparr>))"

definition permute_0_2_1 :: "'a tensor3 \<Rightarrow> 'a tensor3" where
  "permute_0_2_1 x =
     \<lparr>dim0 = dim0 x, dim1 = dim2 x, dim2 = dim1 x, at3 = (\<lambda>n a b. at3 x n b a)\<rparr>"

definition linear :: "kernels \<Rightarrow> Linear \<Rightarrow> float tensor3 \<Rightarrow> error + float tensor3" where
  "linear K l x =
     (let w = l_weight l in
      if dim2 x \<noteq> cols w then Inl RuntimeError
      else Inr (x\<lparr>dim2 := rows w, at3 := k_linear K l x\<rparr>))"

definition log_softmax :: "kernels \<Rightarrow> float tensor3 \<Rightarrow> float tensor3" where
  "log_softmax K x = x\<lparr>at3 := k_log_softmax K x\<rparr>"

subsection \<open>The model: class \<^verbatim>\<open>M5\<close>\<close>

record M5 =
  conv1 :: Conv1d
  bn1 :: BatchNorm1d
  pool1 :: nat
  conv2 :: Conv1d
  bn2 :: BatchNorm1d
  pool2 :: nat
  conv3 :: Conv1d
  bn3 :: BatchNorm1d
  pool3 :: nat
  conv4 :: Conv1d
  bn4 :: BatchNorm1d
  pool4 :: nat
  fc1 :: Linear
  training :: bool

definition M5_init :: "(string \<Rightarrow> nat list \<Rightarrow> float) \<Rightarrow> nat \<Rightarrow> nat \<Rightarrow> nat \<Rightarrow> nat \<Rightarrow> M5" where
  "M5_init rnd n_input n_output stride n_channel =
     \<lparr>conv1 = Conv1d_init rnd ''conv1'' n_input n_channel 80 stride,
      bn1 = BatchNorm1d_init n_channel,
      pool1 = 4,
      conv2 = Conv1d_init rnd ''conv2'' n_channel n_channel 3 1,
      bn2 = BatchNorm1d_init n_channel,
      pool2 = 4,
      conv3 = Conv1d_init rnd ''conv3'' n_channel (2 * n_channel) 3 1,
      bn3 = BatchNorm1d_init (2 * n_channel),
      pool3 = 4,
      conv4 = Conv1d_init rnd ''conv4'' (2 * n_channel) (2 * n_channel) 3 1,
      bn4 = BatchNorm1d_init (2 * n_channel),
      pool4 = 4,
      fc1 = Linear_init rnd ''fc1'' (2 * n_channel) n_output,
      training = True\<rparr>"

text \<open>Calls of the sub-modules \<^verbatim>\<open>self.conv\<close>, \<^verbatim>\<open>self.bn\<close>, \<^verbatim>\<open>self.pool\<close>, \<^verbatim>\<open>self.fc1\<close>.\<close>

definition self_conv :: "kernels \<Rightarrow> (M5 \<Rightarrow> Conv1d) \<Rightarrow> float tensor3 \<Rightarrow> (M5, float tensor3) prog" where
  "self_conv K layer x m = (conv1d K (layer m) x, m)"

definition self_bn ::
  "kernels \<Rightarrow> (M5 \<Rightarrow> BatchNorm1d) \<Rightarrow> ((BatchNorm1d \<Rightarrow> BatchNorm1d) \<Rightarrow> M5 \<Rightarrow> M5) \<Rightarrow> float tensor3
     \<Rightarrow> (M5, float tensor3) prog" where
  "self_bn K layer layer_update x m =
     (case BatchNorm1d_forward K (training m) x (layer m) of
        (r, b) \<Rightarrow> (r, layer_update (\<lambda>_. b) m))"

definition self_pool :: "kernels \<Rightarrow> (M5 \<Rightarrow> nat) \<Rightarrow> float tensor3 \<Rightarrow> (M5, float tensor3) prog" where
  "self_pool K layer x m = (max_pool1d K (layer m) x, m)"

definition self_fc1 :: "kernels \<Rightarrow> float tensor3 \<Rightarrow> (M5, float tensor3) prog" where
  "self_fc1 K x m = (linear K (fc1 m) x, m)"

definition forward :: "kernels \<Rightarrow> float tensor3 \<Rightarrow> (M5, float tensor3) prog" where
  "forward K x =
     bnd (self_conv K conv1 x) (\<lambda>x.
     bnd (self_bn K bn1 bn1_update x) (\<lambda>x.
     bnd (self_pool K pool1 (relu K x)) (\<lambda>x.
     bnd (self_conv K conv2 x) (\<lambda>x.
     bnd (self_bn K bn2 bn2_update x) (\<lambda>x.
     bnd (self_pool K pool2 (relu K x)) (\<lambda>x.
     bnd (self_conv K conv3 x) (\<lambda>x.
     bnd (self_bn K bn3 bn3_update x) (\<lambda>x.
     bnd (self_pool K pool3 (relu K x)) (\<lambda>x.
     bnd (self_conv K conv4 x) (\<lambda>x.
     bnd (self_bn K bn4 bn4_update x) (\<lambda>x.
     bnd (self_pool K pool4 (relu K x)) (\<lambda>x.
     bnd (lift (avg_pool1d K x (dim2 x))) (\<lambda>x.
     bnd (self_fc1 K (permute_0_2_1 x)) (\<lambda>x.
     ret (log_softmax K x)))))))))))))))"

subsection \<open>Batching: \<^verbatim>\<open>pad_sequence\<close> and \<^verbatim>\<open>collate_fn\<close>\<close>

definition tensor_t :: "'a tensor2 \<Rightarrow> 'a tensor2" where
  "tensor_t x = \<lparr>rows = cols x, cols = rows x, at2 = (\<lambda>i j. at2 x j i)\<rparr>"

text \<open>
  \<^verbatim>\<open>torch.nn.utils.rnn.pad_sequence(sequences, batch_first=True, padding_value)\<close>: the
  sequences have shape (length, channels); the result has shape (batch, longest length,
  channels of the first sequence).  Each sequence is copied to the front of its slot,
  a single channel being broadcast; a sequence with another number of channels raises,
  as does an empty list.
\<close>

definition rnn_pad_sequence :: "float tensor2 list \<Rightarrow> float \<Rightarrow> error + float tensor3" where
  "rnn_pad_sequence sequences padding_value =
     (case sequences of
        [] \<Rightarrow> Inl RuntimeError
      | s0 # _ \<Rightarrow>
          if list_ex (\<lambda>s. cols s \<noteq> cols s0 \<and> cols s \<noteq> 1) sequences then Inl RuntimeError
          else Inr \<lparr>dim0 = length sequences,
                    dim1 = foldr max (map rows sequences) 0,
                    dim2 = cols s0,
                    at3 = (\<lambda>i t c. let s = sequences ! i in
                             if t < rows s then at2 s t (if cols s = 1 then 0 else c)
                             else padding_value)\<rparr>)"

definition pad_sequence :: "float tensor2 list \<Rightarrow> error + float tensor3" where
  "pad_sequence batch =
     (let batch = map tensor_t batch in
      case rnn_pad_sequence batch (Fin 0) of
        Inl e \<Rightarrow> Inl e
      | Inr batch \<Rightarrow> Inr (permute_0_2_1 batch))"

definition np_stack :: "'a list \<Rightarrow> error + 'a list" where
  "np_stack arrays = (if arrays = [] then Inl ValueError else Inr arrays)"

text \<open>
  The labels are 64-bit integers.  \<^verbatim>\<open>torch.Tensor(targets)\<close> stores them as 32-bit
  floats: an integer is rounded to 24 significant bits, ties to even.
  \<^verbatim>\<open>.to(torch.long)\<close> converts the floats back, towards zero; for a float outside the
  range of the 64-bit integers (as is the float nearest to \<open>2\<^sup>6\<^sup>3 - 1\<close>) the result is
  that of the kernel.
\<close>

fun excess_bits :: "nat \<Rightarrow> nat" where
  "excess_bits a = (if a < 2 ^ 24 then 0 else Suc (excess_bits (a div 2)))"

definition float32_of_int :: "int \<Rightarrow> int" where
  "float32_of_int n =
     (let a = nat \<bar>n\<bar>; e = excess_bits a; q = a div 2 ^ e; r = a mod 2 ^ e;
          q' = (if 2 ^ e < 2 * r \<or> (2 * r = 2 ^ e \<and> odd q) then q + 1 else q)
      in sgn n * int (q' * 2 ^ e))"

definition torch_Tensor :: "64 word list \<Rightarrow> float list" where
  "torch_Tensor targets = map (\<lambda>l. Fin (real_of_int (float32_of_int (sint l)))) targets"

definition to_long :: "kernels \<Rightarrow> float \<Rightarrow> 64 word" where
  "to_long K v =
     (case v of
        Fin r \<Rightarrow>
          (let i = (if 0 \<le> r then \<lfloor>r\<rfloor> else \<lceil>r\<rceil>) in
           if - (2 ^ 63) \<le> i \<and> i < 2 ^ 63 then word_of_int i else k_long_overflow K v)
      | _ \<Rightarrow> k_long_overflow K v)"

type_synonym clip = "float tensor2 \<times> 64 word"

type_synonym batch = "float tensor3 \<times> 64 word list"

definition collate_fn :: "kernels \<Rightarrow> clip list \<Rightarrow> error + batch" where
  "collate_fn K batch =
     (let tensors = map fst batch; targets = map snd batch in
      case pad_sequence tensors of
        Inl e \<Rightarrow> Inl e
      | Inr tensors \<Rightarrow>
          (case np_stack targets of
             Inl e \<Rightarrow> Inl e
           | Inr targets \<Rightarrow> Inr (tensors, map (to_long K) (torch_Tensor targets))))"

subsection \<open>The split and the loaders\<close>

text \<open>
  The generator of numpy is a parameter: \<open>seeded\<close> makes one from a seed and
  \<open>rk_interval max\<close> draws a number from 0 to \<open>max\<close>; the draw is taken modulo
  \<open>max + 1\<close>, so that any function can stand for it.  \<^verbatim>\<open>permutation(n)\<close> shuffles
  \<open>0, \<dots>, n - 1\<close>: for \<open>i\<close> from \<open>n - 1\<close> down to 1 the entry at \<open>i\<close> changes places with the
  entry at an index drawn from 0 to \<open>i\<close>.
\<close>

record 'g numpy_random =
  seeded :: "nat \<Rightarrow> 'g"
  rk_interval :: "nat \<Rightarrow> 'g \<Rightarrow> nat \<times> 'g"

fun shuffle :: "'g numpy_random \<Rightarrow> nat \<Rightarrow> 'a list \<Rightarrow> 'g \<Rightarrow> 'a list \<times> 'g" where
  "shuffle np 0 x g = (x, g)"
| "shuffle np (Suc i) x g =
     (case rk_interval np (Suc i) g of
        (r, g') \<Rightarrow>
          (let j = r mod Suc (Suc i) in
           shuffle np i (x[Suc i := x ! j, j := x ! Suc i]) g'))"

definition permutation :: "'g numpy_random \<Rightarrow> 'g \<Rightarrow> nat \<Rightarrow> nat list \<times> 'g" where
  "permutation np g n = shuffle np (n - 1) [0..<n] g"

text \<open>
  \<^verbatim>\<open>sklearn.model_selection.train_test_split(arr, test_size, random_state)\<close> with a
  fractional test size: the test part gets \<open>\<lceil>test_size \<sdot> n\<rceil>\<close> elements and the training
  part the rest; an empty training part raises.  (The ceiling is taken of the exact
  product; the library takes it of the product in double precision, which for the test
  size 0.3 gives the same number for every size a dataset can have.)  The elements are
  taken along a permutation drawn from a generator: a fresh one made from the seed when
  \<open>random_state\<close> is given, the process-wide one (whose state is \<open>g\<close>) otherwise.
\<close>

definition train_test_split ::
  "'g numpy_random \<Rightarrow> 'a list \<Rightarrow> real \<Rightarrow> nat option \<Rightarrow> ('g, 'a list \<times> 'a list) prog" where
  "train_test_split np arr test_size random_state g =
     (let n_samples = length arr;
          n_test = nat \<lceil>test_size * real n_samples\<rceil>;
          n_train = n_samples - n_test in
      if test_size \<le> 0 \<or> 1 \<le> test_size \<or> n_train = 0 then (Inl ValueError, g)
      else
        (let (p, g') = (case random_state of
                          None \<Rightarrow> permutation np g n_samples
                        | Some seed \<Rightarrow> (fst (permutation np (seeded np seed) n_samples), g));
             ind_test = take n_test p;
             ind_train = take n_train (drop n_test p)
         in (Inr (map (\<lambda>i. arr ! i) ind_train, map (\<lambda>i. arr ! i) ind_test), g')))"

record 'a Subset =
  sub_dataset :: "'a list"
  sub_indices :: "nat list"

definition subset_getitem :: "'a Subset \<Rightarrow> nat \<Rightarrow> error + 'a" where
  "subset_getitem s i =
     (if i < length (sub_indices s) \<and> sub_indices s ! i < length (sub_dataset s)
      then Inr (sub_dataset s ! (sub_indices s ! i)) else Inl IndexError)"

definition subset_len :: "'a Subset \<Rightarrow> nat" where
  "subset_len s = length (sub_indices s)"

text \<open>
  \<^verbatim>\<open>DataLoader(dataset, batch_size, collate_fn, shuffle)\<close>; its length is the number of
  batches, the last one possibly shorter.  The library refuses to build a loader with
  batch size zero, and the notebook builds its loaders with 256.
\<close>

record ('a, 'b) DataLoader =
  ld_dataset :: "'a Subset"
  ld_batch_size :: nat
  ld_collate_fn :: "'a list \<Rightarrow> error + 'b"
  ld_shuffle :: bool

definition loader_len :: "('a, 'b) DataLoader \<Rightarrow> nat" where
  "loader_len l = (subset_len (ld_dataset l) + ld_batch_size l - 1) div ld_batch_size l"

fun batched :: "nat \<Rightarrow> 'a list \<Rightarrow> 'a list list" where
  "batched 0 xs = []"
| "batched (Suc k) [] = []"
| "batched (Suc k) (x # xs) = take (Suc k) (x # xs) # batched (Suc k) (drop k xs)"

text \<open>
  The process-wide generator of torch is a parameter: \<open>draw_seed\<close> draws a number from
  it, and \<open>randperm seed n\<close> is the permutation of \<open>0, \<dots>, n - 1\<close> that a generator made
  from \<open>seed\<close> gives.  Starting an iteration over a loader draws the base seed of the
  iterator from the process-wide generator.  A loader that shuffles then draws a second
  number, makes a generator of its own from it and follows its permutation; a loader
  that does not shuffle follows \<open>0, 1, 2, \<dots>\<close>.  The indices are cut into batches; a
  batch is fetched and collated only when the loop reaches it.
\<close>

record 'g torch_random =
  draw_seed :: "'g \<Rightarrow> int \<times> 'g"
  randperm :: "int \<Rightarrow> nat \<Rightarrow> nat list"

definition loader_iter ::
  "'g torch_random \<Rightarrow> ('a, 'b) DataLoader \<Rightarrow> 'g \<Rightarrow> nat list list \<times> 'g" where
  "loader_iter R l g =
     (let n = subset_len (ld_dataset l) in
      case draw_seed R g of
        (base_seed, g1) \<Rightarrow>
          if ld_shuffle l
          then (case draw_seed R g1 of
                  (seed, g2) \<Rightarrow> (batched (ld_batch_size l) (randperm R seed n), g2))
          else (batched (ld_batch_size l) [0..<n], g1))"

fun collect :: "(error + 'a) list \<Rightarrow> error + 'a list" where
  "collect [] = Inr []"
| "collect (r # rs) =
     (case r of
        Inl e \<Rightarrow> Inl e
      | Inr v \<Rightarrow> (case collect rs of Inl e \<Rightarrow> Inl e | Inr vs \<Rightarrow> Inr (v # vs)))"

definition loader_fetch :: "('a, 'b) DataLoader \<Rightarrow> nat list \<Rightarrow> error + 'b" where
  "loader_fetch l batch_indices =
     (case collect (map (subset_getitem (ld_dataset l)) batch_indices) of
        Inl e \<Rightarrow> Inl e
      | Inr items \<Rightarrow> ld_collate_fn l items)"

text \<open>The hyperparameters of the notebook.\<close>

definition new_sample_rate :: nat where
  "new_sample_rate = 8000"

definition batch_size :: nat where
  "batch_size = 256"

definition val_size :: real where
  "val_size = 3 / 10"

text \<open>
  The cell that splits the indices \<open>0, \<dots>, len(dataset) - 1\<close> with \<^verbatim>\<open>random_state=42\<close>
  and builds the two loaders.
\<close>

definition make_loaders ::
  "'g numpy_random \<Rightarrow> kernels \<Rightarrow> clip list
     \<Rightarrow> ('g, (clip, batch) DataLoader \<times> (clip, batch) DataLoader) prog" where
  "make_loaders np K dataset =
     (let dataset_size = length dataset; idx = [0..<dataset_size] in
      bnd (train_test_split np idx val_size (Some 42)) (\<lambda>(train_indices, val_indices).
      let train_dataset = \<lparr>sub_dataset = dataset, sub_indices = train_indices\<rparr>;
          val_dataset = \<lparr>sub_dataset = dataset, sub_indices = val_indices\<rparr>
      in ret (\<lparr>ld_dataset = train_dataset, ld_batch_size = batch_size,
               ld_collate_fn = collate_fn K, ld_shuffle = True\<rparr>,
              \<lparr>ld_dataset = val_dataset, ld_batch_size = batch_size,
               ld_collate_fn = collate_fn K, ld_shuffle = False\<rparr>)))"

subsection \<open>Evaluation functions\<close>

text \<open>
  \<^verbatim>\<open>tensor.argmax(dim=-1)\<close>: for each row of the last dimension the index of its first
  maximal entry, a NaN counting as larger than every number; it raises on an empty
  last dimension.  An entry replaces the best one so far when it is above it, or is
  the first NaN.
\<close>

definition beats :: "float \<Rightarrow> float \<Rightarrow> bool" where
  "beats a b \<longleftrightarrow> (a = NaN \<and> b \<noteq> NaN) \<or> flt b a"

primrec argmax_upto :: "(nat \<Rightarrow> float) \<Rightarrow> nat \<Rightarrow> nat" where
  "argmax_upto f 0 = 0"
| "argmax_upto f (Suc j) =
     (let b = argmax_upto f j in if beats (f (Suc j)) (f b) then Suc j else b)"

definition tensor_argmax :: "float tensor3 \<Rightarrow> error + nat tensor2" where
  "tensor_argmax x =
     (if dim2 x = 0 then Inl IndexError
      else Inr \<lparr>rows = dim0 x, cols = dim1 x,
                at2 = (\<lambda>n s. argmax_upto (at3 x n s) (dim2 x - 1))\<rparr>)"

definition get_likely_index :: "float tensor3 \<Rightarrow> error + nat tensor2" where
  "get_likely_index tensor = tensor_argmax tensor"

definition count_where :: "nat \<Rightarrow> (nat \<Rightarrow> bool) \<Rightarrow> nat" where
  "count_where n P = length (filter P [0..<n])"

text \<open>
  \<^verbatim>\<open>pred.squeeze().eq(target).sum().item()\<close>.  \<^verbatim>\<open>squeeze\<close> drops the dimensions of size
  one, \<^verbatim>\<open>eq\<close> compares entry by entry after broadcasting the target along the last
  dimension left (and raises when the sizes do not fit), \<^verbatim>\<open>sum\<close> counts the equal pairs.
\<close>

definition number_of_correct :: "nat tensor2 \<Rightarrow> 64 word list \<Rightarrow> error + nat" where
  "number_of_correct pred target =
     (let r = rows pred; c = cols pred; b = length target;
          tgt = (\<lambda>i. if b = 1 then sint (target ! 0) else sint (target ! i)) in
      if r = 1 \<and> c = 1 then Inr (count_where b (\<lambda>i. int (at2 pred 0 0) = sint (target ! i)))
      else if c = 1 then
        (if b = r \<or> b = 1 then Inr (count_where r (\<lambda>i. int (at2 pred i 0) = tgt i))
         else Inl RuntimeError)
      else if b = c \<or> b = 1 then
        Inr (sum_list (map (\<lambda>i. count_where c (\<lambda>j. int (at2 pred i j) = tgt j)) [0..<r]))
      else Inl RuntimeError)"

subsection \<open>The state of the notebook, \<^verbatim>\<open>train\<close> and \<^verbatim>\<open>val\<close>\<close>

text \<open>
  \<^verbatim>\<open>train\<close> and \<^verbatim>\<open>val\<close> receive the model as an argument and use only its methods
  \<^verbatim>\<open>train()\<close>, \<^verbatim>\<open>eval()\<close>, \<^verbatim>\<open>__call__\<close> and \<^verbatim>\<open>state_dict()\<close>; a module is the record of
  these methods over a model state \<open>'m\<close>, with checkpoints \<open>'c\<close>.
\<close>

record ('m, 'c) module =
  m_train :: "'m \<Rightarrow> 'm"
  m_eval :: "'m \<Rightarrow> 'm"
  m_call :: "float tensor3 \<Rightarrow> ('m, float tensor3) prog"
  m_state_dict :: "'m \<Rightarrow> 'c"

text \<open>
  What the cells before the training loop bind and never change: the module, the two
  loaders, \<^verbatim>\<open>criterion\<close> applied to the squeezed output and followed by \<^verbatim>\<open>.item()\<close> (the
  loss of a batch as a Python float, or the exception raised on shapes that do not
  fit), the step \<^verbatim>\<open>optimizer.zero_grad(); loss.backward(); optimizer.step()\<close> on the
  model and the optimiser's own state \<open>'o\<close>; with them the generator of torch, over
  states \<open>'g\<close>, and the rounding of the interpreter's float arithmetic.
\<close>

record ('m, 'c, 'o, 'g) globals =
  nn_module :: "('m, 'c) module"
  train_loader :: "(clip, batch) DataLoader"
  val_loader :: "(clip, batch) DataLoader"
  criterion :: "float tensor3 \<Rightarrow> 64 word list \<Rightarrow> error + float"
  backward_step :: "float tensor3 \<Rightarrow> 64 word list \<Rightarrow> 'm \<times> 'o \<Rightarrow> 'm \<times> 'o"
  torch_generator :: "'g torch_random"
  py_round :: "real \<Rightarrow> float"

text \<open>
  What the loops change: the model, the optimiser, the generator, the two lists of
  losses, \<^verbatim>\<open>best_loss\<close>, and the file at \<^verbatim>\<open>save_path\<close>, kept as the list of the
  checkpoints written to it, the latest first.  (\<^verbatim>\<open>torch.save\<close> is taken to succeed:
  the directory of \<^verbatim>\<open>save_path\<close> exists.)
\<close>

record ('m, 'c, 'o, 'g) world =
  model :: 'm
  optimizer :: 'o
  torch_rng :: 'g
  train_losses :: "float list"
  val_losses :: "float list"
  best_loss :: float
  saved :: "'c list"

datatype losses_ref = TrainLosses | ValLosses

fun losses_append :: "losses_ref \<Rightarrow> float \<Rightarrow> ('m, 'c, 'o, 'g) world \<Rightarrow> ('m, 'c, 'o, 'g) world" where
  "losses_append TrainLosses v w = w\<lparr>train_losses := train_losses w @ [v]\<rparr>"
| "losses_append ValLosses v w = w\<lparr>val_losses := val_losses w @ [v]\<rparr>"

definition modify :: "('s \<Rightarrow> 's) \<Rightarrow> ('s, unit) prog" where
  "modify f s = (Inr (), f s)"

definition call_model ::
  "('m, 'c, 'o, 'g) globals \<Rightarrow> float tensor3 \<Rightarrow> (('m, 'c, 'o, 'g) world, float tensor3) prog" where
  "call_model G data w =
     (case m_call (nn_module G) data (model w) of (r, m') \<Rightarrow> (r, w\<lparr>model := m'\<rparr>))"

definition optimizer_step ::
  "('m, 'c, 'o, 'g) globals \<Rightarrow> float tensor3 \<Rightarrow> 64 word list
     \<Rightarrow> (('m, 'c, 'o, 'g) world, unit) prog" where
  "optimizer_step G data target w =
     (case backward_step G data target (model w, optimizer w) of
        (m', o') \<Rightarrow> (Inr (), w\<lparr>model := m', optimizer := o'\<rparr>))"

definition start_iter ::
  "('m, 'c, 'o, 'g) globals \<Rightarrow> (clip, batch) DataLoader
     \<Rightarrow> (('m, 'c, 'o, 'g) world, nat list list) prog" where
  "start_iter G l w =
     (case loader_iter (torch_generator G) l (torch_rng w) of
        (batches, g') \<Rightarrow> (Inr batches, w\<lparr>torch_rng := g'\<rparr>))"

text \<open>
  The body of the loop of \<^verbatim>\<open>train\<close>, over the batches still to come.  The statistics
  are printed every \<^verbatim>\<open>log_interval\<close> batches: \<^verbatim>\<open>batch_idx % log_interval\<close> raises when
  the interval is zero.
\<close>

fun train_batches ::
  "('m, 'c, 'o, 'g) globals \<Rightarrow> nat \<Rightarrow> nat list list \<Rightarrow> float
     \<Rightarrow> (('m, 'c, 'o, 'g) world, float) prog" where
  "train_batches G log_interval [] train_loss = ret train_loss"
| "train_batches G log_interval (b # bs) train_loss =
     bnd (lift (loader_fetch (train_loader G) b)) (\<lambda>(data, target).
     bnd (call_model G data) (\<lambda>output.
     bnd (lift (criterion G output target)) (\<lambda>loss.
     bnd (optimizer_step G data target) (\<lambda>_.
     bnd (if log_interval = 0 then throw ZeroDivisionError else ret ()) (\<lambda>_.
     train_batches G log_interval bs (fadd (py_round G) train_loss loss))))))"

definition train ::
  "('m, 'c, 'o, 'g) globals \<Rightarrow> nat \<Rightarrow> nat \<Rightarrow> losses_ref \<Rightarrow> (('m, 'c, 'o, 'g) world, unit) prog" where
  "train G epoch log_interval losses =
     bnd (modify (\<lambda>w. w\<lparr>model := m_train (nn_module G) (model w)\<rparr>)) (\<lambda>_.
     bnd (start_iter G (train_loader G)) (\<lambda>batches.
     bnd (train_batches G log_interval batches (Fin 0)) (\<lambda>train_loss.
     if loader_len (train_loader G) = 0 then throw ZeroDivisionError
     else modify (losses_append losses
            (fdiv_nat (py_round G) train_loss (loader_len (train_loader G)))))))"

fun val_batches ::
  "('m, 'c, 'o, 'g) globals \<Rightarrow> nat list list \<Rightarrow> float \<times> nat
     \<Rightarrow> (('m, 'c, 'o, 'g) world, float \<times> nat) prog" where
  "val_batches G [] acc = ret acc"
| "val_batches G (b # bs) acc =
     bnd (lift (loader_fetch (val_loader G) b)) (\<lambda>(data, target).
     bnd (call_model G data) (\<lambda>output.
     bnd (lift (criterion G output target)) (\<lambda>loss.
     bnd (lift (get_likely_index output)) (\<lambda>pred.
     bnd (lift (number_of_correct pred target)) (\<lambda>k.
     val_batches G bs (fadd (py_round G) (fst acc) loss, snd acc + k))))))"

text \<open>
  \<^verbatim>\<open>val\<close> returns nothing; the model gives it as result the number \<^verbatim>\<open>correct\<close> that it
  prints.  The print divides by the size of the validation set.
\<close>

definition val ::
  "('m, 'c, 'o, 'g) globals \<Rightarrow> nat \<Rightarrow> losses_ref \<Rightarrow> (('m, 'c, 'o, 'g) world, nat) prog" where
  "val G epoch losses =
     bnd (modify (\<lambda>w. w\<lparr>model := m_eval (nn_module G) (model w)\<rparr>)) (\<lambda>_.
     bnd (start_iter G (val_loader G)) (\<lambda>batches.
     bnd (val_batches G batches (Fin 0, 0)) (\<lambda>(val_loss, correct).
     bnd (if loader_len (train_loader G) = 0 then throw ZeroDivisionError
          else modify (losses_append losses
                 (fdiv_nat (py_round G) val_loss (loader_len (train_loader G))))) (\<lambda>_.
     if subset_len (ld_dataset (val_loader G)) = 0 then throw ZeroDivisionError
     else ret correct))))"

subsection \<open>The training loop\<close>

definition save_if_better :: "('m, 'c, 'o, 'g) globals \<Rightarrow> (('m, 'c, 'o, 'g) world, unit) prog" where
  "save_if_better G w =
     (if val_losses w = [] then (Inl IndexError, w)
      else if flt (last (val_losses w)) (best_loss w)
      then (Inr (), w\<lparr>best_loss := last (val_losses w),
                      saved := m_state_dict (nn_module G) (model w) # saved w\<rparr>)
      else (Inr (), w))"

definition epoch_body ::
  "('m, 'c, 'o, 'g) globals \<Rightarrow> nat \<Rightarrow> nat \<Rightarrow> (('m, 'c, 'o, 'g) world, unit) prog" where
  "epoch_body G log_interval epoch =
     bnd (train G epoch log_interval TrainLosses) (\<lambda>_.
     bnd (val G epoch ValLosses) (\<lambda>_.
     save_if_better G))"

fun epochs_loop ::
  "('m, 'c, 'o, 'g) globals \<Rightarrow> nat \<Rightarrow> nat list \<Rightarrow> (('m, 'c, 'o, 'g) world, unit) prog" where
  "epochs_loop G log_interval [] = ret ()"
| "epochs_loop G log_interval (epoch # epochs) =
     bnd (epoch_body G log_interval epoch) (\<lambda>_. epochs_loop G log_interval epochs)"

definition training_loop ::
  "('m, 'c, 'o, 'g) globals \<Rightarrow> nat \<Rightarrow> (('m, 'c, 'o, 'g) world, unit) prog" where
  "training_loop G num_epochs =
     (let log_interval = 20 in
      if loader_len (train_loader G) + loader_len (val_loader G) = 0 then throw ZeroDivisionError
      else
        bnd (modify (\<lambda>w. w\<lparr>train_losses := [], val_losses := [], best_loss := Fin 10000\<rparr>)) (\<lambda>_.
        epochs_loop G log_interval [1..<Suc num_epochs]))"

subsection \<open>Checkpoints of M5\<close>

text \<open>
  \<^verbatim>\<open>state_dict()\<close> holds the tensors of the model: weight and bias of each convolution
  and of the classifier, and the five tensors of each batch normalisation.
  \<^verbatim>\<open>load_state_dict\<close> copies them into a model whose tensors have the same shapes and
  raises otherwise (what it has copied before raising is not modelled).
\<close>

record M5_state_dict =
  sd_conv1 :: "float tensor3 \<times> float list"
  sd_bn1 :: BatchNorm1d
  sd_conv2 :: "float tensor3 \<times> float list"
  sd_bn2 :: BatchNorm1d
  sd_conv3 :: "float tensor3 \<times> float list"
  sd_bn3 :: BatchNorm1d
  sd_conv4 :: "float tensor3 \<times> float list"
  sd_bn4 :: BatchNorm1d
  sd_fc1 :: Linear

definition state_dict :: "M5 \<Rightarrow> M5_state_dict" where
  "state_dict m =
     \<lparr>sd_conv1 = (c_weight (conv1 m), c_bias (conv1 m)), sd_bn1 = bn1 m,
      sd_conv2 = (c_weight (conv2 m), c_bias (conv2 m)), sd_bn2 = bn2 m,
      sd_conv3 = (c_weight (conv3 m), c_bias (conv3 m)), sd_bn3 = bn3 m,
      sd_conv4 = (c_weight (conv4 m), c_bias (conv4 m)), sd_bn4 = bn4 m,
      sd_fc1 = fc1 m\<rparr>"

definition conv_fits :: "float tensor3 \<times> float list \<Rightarrow> Conv1d \<Rightarrow> bool" where
  "conv_fits p c \<longleftrightarrow>
     dim0 (fst p) = dim0 (c_weight c) \<and> dim1 (fst p) = dim1 (c_weight c) \<and>
     dim2 (fst p) = dim2 (c_weight c) \<and> length (snd p) = length (c_bias c)"

definition bn_fits :: "BatchNorm1d \<Rightarrow> BatchNorm1d \<Rightarrow> bool" where
  "bn_fits p b \<longleftrightarrow>
     length (bn_weight p) = length (bn_weight b) \<and> length (bn_bias p) = length (bn_bias b) \<and>
     length (running_mean p) = length (running_mean b) \<and>
     length (running_var p) = length (running_var b)"

definition linear_fits :: "Linear \<Rightarrow> Linear \<Rightarrow> bool" where
  "linear_fits p l \<longleftrightarrow>
     rows (l_weight p) = rows (l_weight l) \<and> cols (l_weight p) = cols (l_weight l) \<and>
     length (l_bias p) = length (l_bias l)"

definition load_conv :: "float tensor3 \<times> float list \<Rightarrow> Conv1d \<Rightarrow> Conv1d" where
  "load_conv p c = c\<lparr>c_weight := fst p, c_bias := snd p\<rparr>"

definition load_state_dict :: "M5_state_dict \<Rightarrow> M5 \<Rightarrow> error + M5" where
  "load_state_dict sd m =
     (if conv_fits (sd_conv1 sd) (conv1 m) \<and> bn_fits (sd_bn1 sd) (bn1 m) \<and>
         conv_fits (sd_conv2 sd) (conv2 m) \<and> bn_fits (sd_bn2 sd) (bn2 m) \<and>
         conv_fits (sd_conv3 sd) (conv3 m) \<and> bn_fits (sd_bn3 sd) (bn3 m) \<and>
         conv_fits (sd_conv4 sd) (conv4 m) \<and> bn_fits (sd_bn4 sd) (bn4 m) \<and>
         linear_fits (sd_fc1 sd) (fc1 m)
      then Inr (m\<lparr>conv1 := load_conv (sd_conv1 sd) (conv1 m), bn1 := sd_bn1 sd,
                  conv2 := load_conv (sd_conv2 sd) (conv2 m), bn2 := sd_bn2 sd,
                  conv3 := load_conv (sd_conv3 sd) (conv3 m), bn3 := sd_bn3 sd,
                  conv4 := load_conv (sd_conv4 sd) (conv4 m), bn4 := sd_bn4 sd,
                  fc1 := sd_fc1 sd\<rparr>)
      else Inl RuntimeError)"

definition M5_module :: "kernels \<Rightarrow> (M5, M5_state_dict) module" where
  "M5_module K =
     \<lparr>m_train = (\<lambda>m. m\<lparr>training := True\<rparr>),
      m_eval = (\<lambda>m. m\<lparr>training := False\<rparr>),
      m_call = forward K,
      m_state_dict = state_dict\<rparr>"

subsection \<open>Inference\<close>

text \<open>
  The three cells of the inference path, run one after the other; the run stops at the
  first cell that raises.  Their state is the variable \<^verbatim>\<open>model\<close>, the variable
  \<^verbatim>\<open>input_data\<close> (unbound until the second cell binds it, and bound to the clip of an
  earlier run when the cells are run again), and the trace of what was printed and of
  the calls of the resampler and of the model.  A file at the path of the clip is
  audio, with its waveform (channels by samples) and sample rate, or something that
  \<^verbatim>\<open>torchaudio.load\<close> refuses.
\<close>

datatype event = Printed string | Resampled nat nat | Forwarded

datatype audio_file = Audio "float tensor2" nat | Other

record infer_state =
  i_model :: M5
  input_data :: "float tensor3 option"
  events :: "event list"

definition emit :: "event \<Rightarrow> (infer_state, unit) prog" where
  "emit e s = (Inr (), s\<lparr>events := events s @ [e]\<rparr>)"

text \<open>
  \<^verbatim>\<open>torchaudio.transforms.Resample(orig_freq, new_freq)\<close>: the identity when the rates
  agree; otherwise \<open>\<lceil>new_freq \<sdot> length / orig_freq\<rceil>\<close> samples per channel.
\<close>

definition Resample :: "kernels \<Rightarrow> nat \<Rightarrow> nat \<Rightarrow> float tensor2 \<Rightarrow> float tensor2" where
  "Resample K orig_freq new_freq waveform =
     (if orig_freq = new_freq then waveform
      else \<lparr>rows = rows waveform,
            cols = (new_freq * cols waveform + orig_freq - 1) div orig_freq,
            at2 = k_resample K orig_freq new_freq waveform\<rparr>)"

definition unsqueeze_0 :: "'a tensor2 \<Rightarrow> 'a tensor3" where
  "unsqueeze_0 x = \<lparr>dim0 = 1, dim1 = rows x, dim2 = cols x, at3 = (\<lambda>_. at2 x)\<rparr>"

definition item :: "'a tensor2 \<Rightarrow> error + 'a" where
  "item x = (if rows x * cols x = 1 then Inr (at2 x 0 0) else Inl RuntimeError)"

definition getitem :: "'a list \<Rightarrow> nat \<Rightarrow> error + 'a" where
  "getitem xs i = (if i < length xs then Inr (xs ! i) else Inl IndexError)"


text \<open>The cell that checks and prepares the clip; \<open>fs\<close> maps a path to the file there.\<close>

definition prepare_cell ::
  "kernels \<Rightarrow> (string \<Rightarrow> audio_file option) \<Rightarrow> string \<Rightarrow> (infer_state, unit) prog" where
  "prepare_cell K fs test_wav =
     (case fs test_wav of
        None \<Rightarrow> emit (Printed ''Error: Audio file does not exist.'')
      | Some Other \<Rightarrow> throw RuntimeError
      | Some (Audio waveform sample_rate) \<Rightarrow>
          (let min_duration = 1 in
           if sample_rate = 0 then throw ZeroDivisionError
           else if real (cols waveform) / real sample_rate < min_duration
           then emit (Printed ''Error: Audio duration is too short.'')
           else
             bnd (emit (Resampled sample_rate new_sample_rate)) (\<lambda>_.
             let transformed = Resample K sample_rate new_sample_rate waveform in
             modify (\<lambda>s. s\<lparr>input_data := Some (unsqueeze_0 transformed)\<rparr>))))"

definition call_i_model :: "kernels \<Rightarrow> float tensor3 \<Rightarrow> (infer_state, float tensor3) prog" where
  "call_i_model K x =
     bnd (emit Forwarded) (\<lambda>_ s.
     case forward K x (i_model s) of (r, m') \<Rightarrow> (r, s\<lparr>i_model := m'\<rparr>))"

text \<open>The cell that performs the inference; its result is the label it prints.\<close>

definition predict_cell :: "kernels \<Rightarrow> string list \<Rightarrow> (infer_state, string) prog" where
  "predict_cell K classes =
     bnd (\<lambda>s. (case input_data s of None \<Rightarrow> Inl NameError | Some x \<Rightarrow> Inr x, s)) (\<lambda>x.
     bnd (call_i_model K x) (\<lambda>output.
     bnd (lift (tensor_argmax output)) (\<lambda>pred.
     bnd (lift (item pred)) (\<lambda>i.
     bnd (lift (getitem classes i)) (\<lambda>pred_label.
     bnd (emit (Printed (''Predicted label: '' @ pred_label))) (\<lambda>_.
     ret pred_label))))))"


subsection \<open>Auxiliary notions for the proofs\<close>

text \<open>
  The shapes that \<^verbatim>\<open>M5.__init__\<close> gives to the tensors of the model; every model of
  the notebook keeps them.
\<close>

definition conv_shape :: "Conv1d \<Rightarrow> nat \<times> nat \<times> nat \<times> nat" where
  "conv_shape c = (dim0 (c_weight c), dim1 (c_weight c), dim2 (c_weight c), c_stride c)"

definition has_arch :: "M5 \<Rightarrow> nat \<Rightarrow> nat \<Rightarrow> nat \<Rightarrow> nat \<Rightarrow> bool" where
  "has_arch m n_input n_output stride n_channel \<longleftrightarrow>
     conv_shape (conv1 m) = (n_channel, n_input, 80, stride) \<and>
     length (running_mean (bn1 m)) = n_channel \<and> pool1 m = 4 \<and>
     conv_shape (conv2 m) = (n_channel, n_channel, 3, 1) \<and>
     length (running_mean (bn2 m)) = n_channel \<and> pool2 m = 4 \<and>
     conv_shape (conv3 m) = (2 * n_channel, n_channel, 3, 1) \<and>
     length (running_mean (bn3 m)) = 2 * n_channel \<and> pool3 m = 4 \<and>
     conv_shape (conv4 m) = (2 * n_channel, 2 * n_channel, 3, 1) \<and>
     length (running_mean (bn4 m)) = 2 * n_channel \<and> pool4 m = 4 \<and>
     rows (l_weight (fc1 m)) = n_output \<and> cols (l_weight (fc1 m)) = 2 * n_channel"

text \<open>The rest of the forward pass after the first, second, third and fourth stage.\<close>

definition head :: "kernels \<Rightarrow> float tensor3 \<Rightarrow> (M5, float tensor3) prog" where
  "head K x =
     bnd (lift (avg_pool1d K x (dim2 x))) (\<lambda>x.
     bnd (self_fc1 K (permute_0_2_1 x)) (\<lambda>x.
     ret (log_softmax K x)))"

definition from_stage4 :: "kernels \<Rightarrow> float tensor3 \<Rightarrow> (M5, float tensor3) prog" where
  "from_stage4 K x =
     bnd (self_conv K conv4 x) (\<lambda>x.
     bnd (self_bn K bn4 bn4_update x) (\<lambda>x.
     bnd (self_pool K pool4 (relu K x)) (head K)))"

definition from_stage3 :: "kernels \<Rightarrow> float tensor3 \<Rightarrow> (M5, float tensor3) prog" where
  "from_stage3 K x =
     bnd (self_conv K conv3 x) (\<lambda>x.
     bnd (self_bn K bn3 bn3_update x) (\<lambda>x.
     bnd (self_pool K pool3 (relu K x)) (from_stage4 K)))"

definition from_stage2 :: "kernels \<Rightarrow> float tensor3 \<Rightarrow> (M5, float tensor3) prog" where
  "from_stage2 K x =
     bnd (self_conv K conv2 x) (\<lambda>x.
     bnd (self_bn K bn2 bn2_update x) (\<lambda>x.
     bnd (self_pool K pool2 (relu K x)) (from_stage3 K)))"

text \<open>A program preserves a property of the state, whatever it returns or raises.\<close>

definition preserves :: "('s \<Rightarrow> bool) \<Rightarrow> ('s, 'a) prog \<Rightarrow> bool" where
  "preserves I p \<longleftrightarrow> (\<forall>s. I s \<longrightarrow> I (snd (p s)))"

text \<open>
  The least of 10000 and the numbers among the losses, found by the comparison of the
  loop.
\<close>

definition least_loss :: "float list \<Rightarrow> float" where
  "least_loss ls = foldl (\<lambda>b l. if flt l b then l else b) (Fin 10000) ls"

subsection \<open>Concrete instances\<close>

text \<open>
  Kernels for concrete runs, chosen to be easy to follow and not to be those of the
  libraries: the convolution gives its bias, normalisation, ReLU and log-softmax their
  input, a pooling the first entry of each window, the linear layer its bias, the
  resampling zero, and the conversion of a float out of range the smallest integer.
\<close>

definition demo_kernels :: kernels where
  "demo_kernels =
     \<lparr>k_conv1d = (\<lambda>c x n out t. c_bias c ! out),
      k_batch_norm = (\<lambda>tr b x. at3 x),
      k_running_mean = (\<lambda>b x c. running_mean b ! c),
      k_running_var = (\<lambda>b x c. running_var b ! c),
      k_relu = (\<lambda>v. v),
      k_max_pool1d = (\<lambda>k x n c t. at3 x n c (t * k)),
      k_avg_pool1d = (\<lambda>k x n c t. at3 x n c (t * k)),
      k_linear = (\<lambda>l x n s out. l_bias l ! out),
      k_log_softmax = (\<lambda>x. at3 x),
      k_resample = (\<lambda>orig new w c t. Fin 0),
      k_long_overflow = (\<lambda>v. - (2 ^ 63))\<rparr>"

text \<open>A model and clips whose entries are all zero.\<close>

definition zero_model :: "nat \<Rightarrow> M5" where
  "zero_model n_output = M5_init (\<lambda>_ _. Fin 0) 1 n_output 16 32"

definition zero_clip :: "nat \<Rightarrow> nat \<Rightarrow> float tensor3" where
  "zero_clip channels n = \<lparr>dim0 = 1, dim1 = channels, dim2 = n, at3 = (\<lambda>_ _ _. Fin 0)\<rparr>"

definition zero_wave :: "nat \<Rightarrow> nat \<Rightarrow> float tensor2" where
  "zero_wave channels n = \<lparr>rows = channels, cols = n, at2 = (\<lambda>_ _. Fin 0)\<rparr>"

text \<open>
  A small instance of the notebook: one clip of one sample with label 0; a training
  loader of \<open>k\<close> batches of one clip and a validation loader of one batch; a model that
  is the number of optimiser steps made so far and returns it in every entry of its
  output; a loss that is \<open>cs i\<close> on every batch seen after \<open>i\<close> steps; a generator that
  counts its draws; exact arithmetic.  With \<open>k = 1\<close>, epoch \<open>e\<close> has the training loss
  \<open>cs (e - 1)\<close> and the validation loss \<open>cs e\<close>.
\<close>

definition demo_clip :: clip where
  "demo_clip = (zero_wave 1 1, 0)"

definition steps_of :: "float tensor3 \<Rightarrow> nat" where
  "steps_of output = (case at3 output 0 0 0 of Fin r \<Rightarrow> nat \<lfloor>r\<rfloor> | _ \<Rightarrow> 0)"

definition demo_globals :: "(nat \<Rightarrow> float) \<Rightarrow> nat \<Rightarrow> (nat, nat, unit, nat) globals" where
  "demo_globals cs k =
     \<lparr>nn_module = \<lparr>m_train = (\<lambda>m. m), m_eval = (\<lambda>m. m),
                   m_call = (\<lambda>x m. (Inr (x\<lparr>at3 := (\<lambda>_ _ _. Fin (real m))\<rparr>), m)),
                   m_state_dict = (\<lambda>m. m)\<rparr>,
      train_loader = \<lparr>ld_dataset = \<lparr>sub_dataset = [demo_clip], sub_indices = replicate k 0\<rparr>,
                      ld_batch_size = 1, ld_collate_fn = collate_fn demo_kernels,
                      ld_shuffle = True\<rparr>,
      val_loader = \<lparr>ld_dataset = \<lparr>sub_dataset = [demo_clip], sub_indices = [0]\<rparr>,
                    ld_batch_size = 1, ld_collate_fn = collate_fn demo_kernels,
                    ld_shuffle = False\<rparr>,
      criterion = (\<lambda>output _. Inr (cs (steps_of output))),
      backward_step = (\<lambda>_ _ (m, opt). (Suc m, opt)),
      torch_generator = \<lparr>draw_seed = (\<lambda>g. (int g, Suc g)), randperm = (\<lambda>seed n. [0..<n])\<rparr>,
      py_round = Fin\<rparr>"

definition demo_world :: "(nat, nat, unit, nat) world" where
  "demo_world =
     \<lparr>model = 0, optimizer = (), torch_rng = 0, train_losses = [], val_losses = [],
      best_loss = Fin 0, saved = []\<rparr>"

text \<open>
  Losses for the small instance: 9 on the first training batch, then the validation
  losses 5, 7, NaN and 3.
\<close>

definition demo_losses :: "nat \<Rightarrow> float" where
  "demo_losses i = [Fin 9, Fin 5, Fin 7, NaN, Fin 3] ! i"

text \<open>A generator of numpy for concrete runs: its state is a number, which it draws.\<close>

definition demo_random :: "nat numpy_random" where
  "demo_random = \<lparr>seeded = (\<lambda>seed. seed), rk_interval = (\<lambda>max g. (g, Suc g))\<rparr>"


text \<open>
  The state in which the inference cells are run again: an earlier run has bound
  \<^verbatim>\<open>input_data\<close> to the clip \<open>x\<close>.
\<close>

definition stale_state :: "M5 \<Rightarrow> float tensor3 \<Rightarrow> infer_state" where
  "stale_state m x = \<lparr>i_model = m, input_data = Some x, events = []\<rparr>"


section \<open>Proofs\<close>


subsection \<open>Programs\<close>

lemma bnd_Inr:
  "bnd p f s = (Inr y, s'') \<longleftrightarrow> (\<exists>v s'. p s = (Inr v, s') \<and> f v s' = (Inr y, s''))"
  by (auto simp: bnd_def split: prod.splits sum.splits)

lemma lift_Inr: "lift r s = (Inr y, s') \<longleftrightarrow> s' = s \<and> r = Inr y"
  by (auto simp: lift_def)

lemma ret_Inr: "ret v s = (Inr y, s') \<longleftrightarrow> s' = s \<and> y = v"
  by (auto simp: ret_def)

lemma bnd_unchanged:
  assumes "snd (p s) = s" and "\<And>v. snd (f v s) = s"
  shows "snd (bnd p f s) = s"
  using assms by (cases "p s") (auto simp: bnd_def split: sum.splits)

subsection \<open>Shapes through the layers\<close>

lemma conv1d_Inr:
  "conv1d K c x = Inr y \<Longrightarrow>
     dim1 x = dim1 (c_weight c) \<and> 0 < c_stride c \<and> 0 < dim2 (c_weight c) \<and>
     dim2 (c_weight c) \<le> dim2 x \<and> dim0 y = dim0 x \<and> dim1 y = dim0 (c_weight c) \<and>
     dim2 y = (dim2 x - dim2 (c_weight c)) div c_stride c + 1"
  by (auto simp: conv1d_def Let_def split: if_splits)

lemma conv1d_defined:
  "dim1 x = dim1 (c_weight c) \<Longrightarrow> 0 < c_stride c \<Longrightarrow> 0 < dim2 (c_weight c) \<Longrightarrow>
   dim2 (c_weight c) \<le> dim2 x \<Longrightarrow> \<exists>y. conv1d K c x = Inr y"
  by (simp add: conv1d_def Let_def)

lemma window_count: "0 < k \<Longrightarrow> k \<le> n \<Longrightarrow> Suc ((n - k) div k) = n div (k::nat)"
  using div_add_self2[of k "n - k"] by simp

lemma max_pool1d_Inr:
  "max_pool1d K k x = Inr y \<Longrightarrow>
     0 < k \<and> k \<le> dim2 x \<and> dim0 y = dim0 x \<and> dim1 y = dim1 x \<and> dim2 y = dim2 x div k"
  by (auto simp: max_pool1d_def window_count split: if_splits)

lemma max_pool1d_defined: "0 < k \<Longrightarrow> k \<le> dim2 x \<Longrightarrow> \<exists>y. max_pool1d K k x = Inr y"
  by (simp add: max_pool1d_def)

lemma avg_pool1d_Inr:
  "avg_pool1d K x k = Inr y \<Longrightarrow>
     0 < k \<and> k \<le> dim2 x \<and> dim0 y = dim0 x \<and> dim1 y = dim1 x \<and> dim2 y = dim2 x div k"
  by (auto simp: avg_pool1d_def window_count split: if_splits)

lemma avg_pool1d_defined: "0 < k \<Longrightarrow> k \<le> dim2 x \<Longrightarrow> \<exists>y. avg_pool1d K x k = Inr y"
  by (simp add: avg_pool1d_def)

lemma BatchNorm1d_forward_Inr:
  "BatchNorm1d_forward K tr x b = (Inr y, b') \<Longrightarrow>
     dim1 x = length (running_mean b) \<and> dim0 y = dim0 x \<and> dim1 y = dim1 x \<and> dim2 y = dim2 x \<and>
     length (running_mean b') = length (running_mean b) \<and> (\<not> tr \<longrightarrow> b' = b)"
  by (auto simp: BatchNorm1d_forward_def Let_def normalize_def split: if_splits)

lemma BatchNorm1d_forward_defined:
  "dim1 x = length (running_mean b) \<Longrightarrow> dim0 x * dim2 x \<noteq> 1 \<Longrightarrow>
   \<exists>y b'. BatchNorm1d_forward K tr x b = (Inr y, b')"
  by (auto simp: BatchNorm1d_forward_def Let_def)

lemma BatchNorm1d_forward_eval: "snd (BatchNorm1d_forward K False x b) = b"
  by (simp add: BatchNorm1d_forward_def)

lemma linear_Inr:
  "linear K l x = Inr y \<Longrightarrow>
     dim2 x = cols (l_weight l) \<and> dim0 y = dim0 x \<and> dim1 y = dim1 x \<and> dim2 y = rows (l_weight l)"
  by (auto simp: linear_def Let_def split: if_splits)

lemma linear_defined: "dim2 x = cols (l_weight l) \<Longrightarrow> \<exists>y. linear K l x = Inr y"
  by (simp add: linear_def Let_def)

lemma relu_dims [simp]: "dim0 (relu K x) = dim0 x" "dim1 (relu K x) = dim1 x" "dim2 (relu K x) = dim2 x"
  by (simp_all add: relu_def)

lemma permute_dims [simp]:
  "dim0 (permute_0_2_1 x) = dim0 x" "dim1 (permute_0_2_1 x) = dim2 x"
  "dim2 (permute_0_2_1 x) = dim1 x"
  by (simp_all add: permute_0_2_1_def)

lemma log_softmax_dims [simp]:
  "dim0 (log_softmax K x) = dim0 x" "dim1 (log_softmax K x) = dim1 x" "dim2 (log_softmax K x) = dim2 x"
  by (simp_all add: log_softmax_def)

subsection \<open>The forward pass, stage by stage\<close>

lemma forward_stages:
  "forward K x =
     bnd (self_conv K conv1 x) (\<lambda>x.
     bnd (self_bn K bn1 bn1_update x) (\<lambda>x.
     bnd (self_pool K pool1 (relu K x)) (from_stage2 K)))"
  unfolding forward_def from_stage2_def from_stage3_def from_stage4_def head_def ..

lemma stage_Inr:
  assumes run: "bnd (self_conv K cl x) (\<lambda>x. bnd (self_bn K bl upd x) (\<lambda>x.
                  bnd (self_pool K pl (relu K x)) cont)) m = (Inr y, m')"
    and frame: "\<And>b. pl (upd (\<lambda>_. b) m) = pl m"
  shows "\<exists>x1 x2 b z. conv1d K (cl m) x = Inr x1 \<and>
           BatchNorm1d_forward K (training m) x1 (bl m) = (Inr x2, b) \<and>
           max_pool1d K (pl m) (relu K x2) = Inr z \<and> cont z (upd (\<lambda>_. b) m) = (Inr y, m')"
proof -
  from run obtain x1 where c: "conv1d K (cl m) x = Inr x1"
    and r1: "bnd (self_bn K bl upd x1) (\<lambda>x. bnd (self_pool K pl (relu K x)) cont) m = (Inr y, m')"
    by (auto simp: bnd_Inr self_conv_def)
  from r1 obtain x2 b where b: "BatchNorm1d_forward K (training m) x1 (bl m) = (Inr x2, b)"
    and r2: "bnd (self_pool K pl (relu K x2)) cont (upd (\<lambda>_. b) m) = (Inr y, m')"
    by (auto simp: bnd_Inr self_bn_def split: prod.splits)
  from r2 frame obtain z where p: "max_pool1d K (pl m) (relu K x2) = Inr z"
    and r3: "cont z (upd (\<lambda>_. b) m) = (Inr y, m')"
    by (auto simp: bnd_Inr self_pool_def)
  from c b p r3 show ?thesis by blast
qed

lemma head_Inr:
  assumes "head K x m = (Inr y, m')"
  shows "\<exists>a l. avg_pool1d K x (dim2 x) = Inr a \<and> linear K (fc1 m) (permute_0_2_1 a) = Inr l \<and>
           y = log_softmax K l \<and> m' = m"
  using assms by (auto simp: head_def bnd_Inr lift_Inr self_fc1_def ret_Inr)

text \<open>
  A forward pass that returns has gone through the layers in the order of the source,
  each layer applied to the result of the one before it.
\<close>

lemma forward_chain:
  assumes run: "forward K x m = (Inr y, m')"
  shows "\<exists>c1 n1 b1 p1 c2 n2 b2 p2 c3 n3 b3 p3 c4 n4 b4 p4 a l.
     conv1d K (conv1 m) x = Inr c1 \<and>
     BatchNorm1d_forward K (training m) c1 (bn1 m) = (Inr n1, b1) \<and>
     max_pool1d K (pool1 m) (relu K n1) = Inr p1 \<and>
     conv1d K (conv2 m) p1 = Inr c2 \<and>
     BatchNorm1d_forward K (training m) c2 (bn2 m) = (Inr n2, b2) \<and>
     max_pool1d K (pool2 m) (relu K n2) = Inr p2 \<and>
     conv1d K (conv3 m) p2 = Inr c3 \<and>
     BatchNorm1d_forward K (training m) c3 (bn3 m) = (Inr n3, b3) \<and>
     max_pool1d K (pool3 m) (relu K n3) = Inr p3 \<and>
     conv1d K (conv4 m) p3 = Inr c4 \<and>
     BatchNorm1d_forward K (training m) c4 (bn4 m) = (Inr n4, b4) \<and>
     max_pool1d K (pool4 m) (relu K n4) = Inr p4 \<and>
     avg_pool1d K p4 (dim2 p4) = Inr a \<and>
     linear K (fc1 m) (permute_0_2_1 a) = Inr l \<and>
     y = log_softmax K l \<and>
     m' = m\<lparr>bn1 := b1, bn2 := b2, bn3 := b3, bn4 := b4\<rparr>"
proof -
  have "\<exists>x1 x2 b z. conv1d K (conv1 m) x = Inr x1 \<and>
           BatchNorm1d_forward K (training m) x1 (bn1 m) = (Inr x2, b) \<and>
           max_pool1d K (pool1 m) (relu K x2) = Inr z \<and>
           from_stage2 K z (bn1_update (\<lambda>_. b) m) = (Inr y, m')"
    by (rule stage_Inr[OF run[unfolded forward_stages]]) simp
  then obtain c1 n1 b1 p1 where s1: "conv1d K (conv1 m) x = Inr c1"
    "BatchNorm1d_forward K (training m) c1 (bn1 m) = (Inr n1, b1)"
    "max_pool1d K (pool1 m) (relu K n1) = Inr p1"
    and r1: "from_stage2 K p1 (m\<lparr>bn1 := b1\<rparr>) = (Inr y, m')"
    by blast
  define m1 where "m1 = m\<lparr>bn1 := b1\<rparr>"
  have "\<exists>x1 x2 b z. conv1d K (conv2 m1) p1 = Inr x1 \<and>
           BatchNorm1d_forward K (training m1) x1 (bn2 m1) = (Inr x2, b) \<and>
           max_pool1d K (pool2 m1) (relu K x2) = Inr z \<and>
           from_stage3 K z (bn2_update (\<lambda>_. b) m1) = (Inr y, m')"
    by (rule stage_Inr[OF r1[folded m1_def, unfolded from_stage2_def]]) simp
  then obtain c2 n2 b2 p2 where s2: "conv1d K (conv2 m) p1 = Inr c2"
    "BatchNorm1d_forward K (training m) c2 (bn2 m) = (Inr n2, b2)"
    "max_pool1d K (pool2 m) (relu K n2) = Inr p2"
    and r2: "from_stage3 K p2 (m1\<lparr>bn2 := b2\<rparr>) = (Inr y, m')"
    by (auto simp: m1_def)
  define m2 where "m2 = m1\<lparr>bn2 := b2\<rparr>"
  have "\<exists>x1 x2 b z. conv1d K (conv3 m2) p2 = Inr x1 \<and>
           BatchNorm1d_forward K (training m2) x1 (bn3 m2) = (Inr x2, b) \<and>
           max_pool1d K (pool3 m2) (relu K x2) = Inr z \<and>
           from_stage4 K z (bn3_update (\<lambda>_. b) m2) = (Inr y, m')"
    by (rule stage_Inr[OF r2[folded m2_def, unfolded from_stage3_def]]) simp
  then obtain c3 n3 b3 p3 where s3: "conv1d K (conv3 m) p2 = Inr c3"
    "BatchNorm1d_forward K (training m) c3 (bn3 m) = (Inr n3, b3)"
    "max_pool1d K (pool3 m) (relu K n3) = Inr p3"
    and r3: "from_stage4 K p3 (m2\<lparr>bn3 := b3\<rparr>) = (Inr y, m')"
    by (auto simp: m1_def m2_def)
  define m3 where "m3 = m2\<lparr>bn3 := b3\<rparr>"
  have "\<exists>x1 x2 b z. conv1d K (conv4 m3) p3 = Inr x1 \<and>
           BatchNorm1d_forward K (training m3) x1 (bn4 m3) = (Inr x2, b) \<and>
           max_pool1d K (pool4 m3) (relu K x2) = Inr z \<and>
           head K z (bn4_update (\<lambda>_. b) m3) = (Inr y, m')"
    by (rule stage_Inr[OF r3[folded m3_def, unfolded from_stage4_def]]) simp
  then obtain c4 n4 b4 p4 where s4: "conv1d K (conv4 m) p3 = Inr c4"
    "BatchNorm1d_forward K (training m) c4 (bn4 m) = (Inr n4, b4)"
    "max_pool1d K (pool4 m) (relu K n4) = Inr p4"
    and r4: "head K p4 (m3\<lparr>bn4 := b4\<rparr>) = (Inr y, m')"
    by (auto simp: m1_def m2_def m3_def)
  from head_Inr[OF r4] obtain a l where t: "avg_pool1d K p4 (dim2 p4) = Inr a"
    "linear K (fc1 m) (permute_0_2_1 a) = Inr l" "y = log_softmax K l"
    "m' = m\<lparr>bn1 := b1, bn2 := b2, bn3 := b3, bn4 := b4\<rparr>"
    by (auto simp: m1_def m2_def m3_def)
  from s1 s2 s3 s4 t show ?thesis by blast
qed


lemma has_arch_bn_update:
  assumes "has_arch m i out s c"
    and "length (running_mean b1) = length (running_mean (bn1 m))"
    and "length (running_mean b2) = length (running_mean (bn2 m))"
    and "length (running_mean b3) = length (running_mean (bn3 m))"
    and "length (running_mean b4) = length (running_mean (bn4 m))"
  shows "has_arch (m\<lparr>bn1 := b1, bn2 := b2, bn3 := b3, bn4 := b4\<rparr>) i out s c"
  using assms by (simp add: has_arch_def)

lemma has_arch_training [simp]: "has_arch (m\<lparr>training := t\<rparr>) i out s c = has_arch m i out s c"
  by (simp add: has_arch_def)

lemma has_arch_M5_init: "has_arch (M5_init rnd i out s c) i out s c"
  by (simp add: has_arch_def M5_init_def conv_shape_def Conv1d_init_def BatchNorm1d_init_def
      Linear_init_def)

lemma forward_Inr_lengths:
  assumes run: "forward K x m = (Inr y, m')" and arch: "has_arch m n_in n_out s n_ch"
  shows "80 + 423 * s \<le> dim2 x \<and> dim1 x = n_in \<and> dim0 y = dim0 x \<and> dim1 y = 1 \<and>
         dim2 y = n_out \<and> has_arch m' n_in n_out s n_ch \<and> training m' = training m \<and>
         (\<not> training m \<longrightarrow> m' = m)"
proof -
  from forward_chain[OF run] obtain c1 n1 b1 p1 c2 n2 b2 p2 c3 n3 b3 p3 c4 n4 b4 p4 a l where
    c1: "conv1d K (conv1 m) x = Inr c1" and
    n1: "BatchNorm1d_forward K (training m) c1 (bn1 m) = (Inr n1, b1)" and
    p1: "max_pool1d K (pool1 m) (relu K n1) = Inr p1" and
    c2: "conv1d K (conv2 m) p1 = Inr c2" and
    n2: "BatchNorm1d_forward K (training m) c2 (bn2 m) = (Inr n2, b2)" and
    p2: "max_pool1d K (pool2 m) (relu K n2) = Inr p2" and
    c3: "conv1d K (conv3 m) p2 = Inr c3" and
    n3: "BatchNorm1d_forward K (training m) c3 (bn3 m) = (Inr n3, b3)" and
    p3: "max_pool1d K (pool3 m) (relu K n3) = Inr p3" and
    c4: "conv1d K (conv4 m) p3 = Inr c4" and
    n4: "BatchNorm1d_forward K (training m) c4 (bn4 m) = (Inr n4, b4)" and
    p4: "max_pool1d K (pool4 m) (relu K n4) = Inr p4" and
    a: "avg_pool1d K p4 (dim2 p4) = Inr a" and
    l: "linear K (fc1 m) (permute_0_2_1 a) = Inr l" and
    y: "y = log_softmax K l" and
    m': "m' = m\<lparr>bn1 := b1, bn2 := b2, bn3 := b3, bn4 := b4\<rparr>"
    by blast
  from arch have sh: "dim2 (c_weight (conv1 m)) = 80" "c_stride (conv1 m) = s"
    "dim1 (c_weight (conv1 m)) = n_in" "pool1 m = 4"
    "dim2 (c_weight (conv2 m)) = 3" "c_stride (conv2 m) = 1" "pool2 m = 4"
    "dim2 (c_weight (conv3 m)) = 3" "c_stride (conv3 m) = 1" "pool3 m = 4"
    "dim2 (c_weight (conv4 m)) = 3" "c_stride (conv4 m) = 1" "pool4 m = 4"
    "rows (l_weight (fc1 m)) = n_out"
    by (simp_all add: has_arch_def conv_shape_def)
  have "4 \<le> dim2 n4" using max_pool1d_Inr[OF p4] sh by simp
  then have "4 \<le> dim2 c4" using BatchNorm1d_forward_Inr[OF n4] by simp
  then have "6 \<le> dim2 p3" using conv1d_Inr[OF c4] sh by simp
  then have "24 \<le> dim2 n3" using max_pool1d_Inr[OF p3] sh by simp
  then have "24 \<le> dim2 c3" using BatchNorm1d_forward_Inr[OF n3] by simp
  then have "26 \<le> dim2 p2" using conv1d_Inr[OF c3] sh by simp
  then have "104 \<le> dim2 n2" using max_pool1d_Inr[OF p2] sh by simp
  then have "104 \<le> dim2 c2" using BatchNorm1d_forward_Inr[OF n2] by simp
  then have "106 \<le> dim2 p1" using conv1d_Inr[OF c2] sh by simp
  then have "424 \<le> dim2 n1" using max_pool1d_Inr[OF p1] sh by simp
  then have "424 \<le> dim2 c1" using BatchNorm1d_forward_Inr[OF n1] by simp
  then have q: "423 \<le> (dim2 x - 80) div s" and x80: "80 \<le> dim2 x"
    using conv1d_Inr[OF c1] sh by simp_all
  from q have "0 < s" by (rule_tac ccontr) simp
  with q have "423 * s \<le> dim2 x - 80" by (simp add: less_eq_div_iff_mult_less_eq)
  with x80 have len: "80 + 423 * s \<le> dim2 x" by simp
  have "dim0 p1 = dim0 x"
    using conv1d_Inr[OF c1] BatchNorm1d_forward_Inr[OF n1] max_pool1d_Inr[OF p1] by simp
  moreover have "dim0 p2 = dim0 p1"
    using conv1d_Inr[OF c2] BatchNorm1d_forward_Inr[OF n2] max_pool1d_Inr[OF p2] by simp
  moreover have "dim0 p3 = dim0 p2"
    using conv1d_Inr[OF c3] BatchNorm1d_forward_Inr[OF n3] max_pool1d_Inr[OF p3] by simp
  moreover have "dim0 p4 = dim0 p3"
    using conv1d_Inr[OF c4] BatchNorm1d_forward_Inr[OF n4] max_pool1d_Inr[OF p4] by simp
  moreover have "dim0 y = dim0 p4"
    using avg_pool1d_Inr[OF a] linear_Inr[OF l] y by simp
  ultimately have d0: "dim0 y = dim0 x" by simp
  have d1: "dim1 y = 1"
  proof -
    have "dim2 a = 1" using avg_pool1d_Inr[OF a] by simp
    then show ?thesis using linear_Inr[OF l] y by simp
  qed
  have d2: "dim2 y = n_out" using linear_Inr[OF l] y sh by simp
  have ar: "has_arch m' n_in n_out s n_ch"
    unfolding m' using arch BatchNorm1d_forward_Inr[OF n1] BatchNorm1d_forward_Inr[OF n2]
      BatchNorm1d_forward_Inr[OF n3] BatchNorm1d_forward_Inr[OF n4]
    by (intro has_arch_bn_update) simp_all
  have tr: "training m' = training m" by (simp add: m')
  have ev: "\<not> training m \<longrightarrow> m' = m"
    using BatchNorm1d_forward_Inr[OF n1] BatchNorm1d_forward_Inr[OF n2]
      BatchNorm1d_forward_Inr[OF n3] BatchNorm1d_forward_Inr[OF n4]
    by (simp add: m')
  from len conv1d_Inr[OF c1] sh(3) d0 d1 d2 ar tr ev show ?thesis by simp
qed


text \<open>What every stage of a forward pass that returns has received.\<close>

lemma forward_stage_inputs:
  assumes run: "forward K x m = (Inr y, m')" and arch: "has_arch m n_in n_out s n_ch"
  shows "\<exists>c1 n1 b1 p1 c2 n2 b2 p2 c3 n3 b3 p3 c4 n4 b4 p4 a.
     conv1d K (conv1 m) x = Inr c1 \<and>
     BatchNorm1d_forward K (training m) c1 (bn1 m) = (Inr n1, b1) \<and>
     max_pool1d K (pool1 m) (relu K n1) = Inr p1 \<and>
     conv1d K (conv2 m) p1 = Inr c2 \<and>
     BatchNorm1d_forward K (training m) c2 (bn2 m) = (Inr n2, b2) \<and>
     max_pool1d K (pool2 m) (relu K n2) = Inr p2 \<and>
     conv1d K (conv3 m) p2 = Inr c3 \<and>
     BatchNorm1d_forward K (training m) c3 (bn3 m) = (Inr n3, b3) \<and>
     max_pool1d K (pool3 m) (relu K n3) = Inr p3 \<and>
     conv1d K (conv4 m) p3 = Inr c4 \<and>
     BatchNorm1d_forward K (training m) c4 (bn4 m) = (Inr n4, b4) \<and>
     max_pool1d K (pool4 m) (relu K n4) = Inr p4 \<and>
     avg_pool1d K p4 (dim2 p4) = Inr a \<and>
     424 \<le> dim2 c1 \<and> 424 \<le> dim2 (relu K n1) \<and> 106 \<le> dim2 p1 \<and>
     104 \<le> dim2 c2 \<and> 104 \<le> dim2 (relu K n2) \<and> 26 \<le> dim2 p2 \<and>
     24 \<le> dim2 c3 \<and> 24 \<le> dim2 (relu K n3) \<and> 6 \<le> dim2 p3 \<and>
     4 \<le> dim2 c4 \<and> 4 \<le> dim2 (relu K n4) \<and> 1 \<le> dim2 p4"
proof -
  from forward_chain[OF run] obtain c1 n1 b1 p1 c2 n2 b2 p2 c3 n3 b3 p3 c4 n4 b4 p4 a l where
    c1: "conv1d K (conv1 m) x = Inr c1" and
    n1: "BatchNorm1d_forward K (training m) c1 (bn1 m) = (Inr n1, b1)" and
    p1: "max_pool1d K (pool1 m) (relu K n1) = Inr p1" and
    c2: "conv1d K (conv2 m) p1 = Inr c2" and
    n2: "BatchNorm1d_forward K (training m) c2 (bn2 m) = (Inr n2, b2)" and
    p2: "max_pool1d K (pool2 m) (relu K n2) = Inr p2" and
    c3: "conv1d K (conv3 m) p2 = Inr c3" and
    n3: "BatchNorm1d_forward K (training m) c3 (bn3 m) = (Inr n3, b3)" and
    p3: "max_pool1d K (pool3 m) (relu K n3) = Inr p3" and
    c4: "conv1d K (conv4 m) p3 = Inr c4" and
    n4: "BatchNorm1d_forward K (training m) c4 (bn4 m) = (Inr n4, b4)" and
    p4: "max_pool1d K (pool4 m) (relu K n4) = Inr p4" and
    a: "avg_pool1d K p4 (dim2 p4) = Inr a"
    by blast
  from arch have sh: "pool1 m = 4" "dim2 (c_weight (conv2 m)) = 3" "c_stride (conv2 m) = 1"
    "pool2 m = 4" "dim2 (c_weight (conv3 m)) = 3" "c_stride (conv3 m) = 1" "pool3 m = 4"
    "dim2 (c_weight (conv4 m)) = 3" "c_stride (conv4 m) = 1" "pool4 m = 4"
    by (simp_all add: has_arch_def conv_shape_def)
  have q4: "1 \<le> dim2 p4" using avg_pool1d_Inr[OF a] by simp
  have r4: "4 \<le> dim2 (relu K n4)" using max_pool1d_Inr[OF p4] sh by simp
  then have k4: "4 \<le> dim2 c4" using BatchNorm1d_forward_Inr[OF n4] by simp
  then have q3: "6 \<le> dim2 p3" using conv1d_Inr[OF c4] sh by simp
  then have r3: "24 \<le> dim2 (relu K n3)" using max_pool1d_Inr[OF p3] sh by simp
  then have k3: "24 \<le> dim2 c3" using BatchNorm1d_forward_Inr[OF n3] by simp
  then have q2: "26 \<le> dim2 p2" using conv1d_Inr[OF c3] sh by simp
  then have r2: "104 \<le> dim2 (relu K n2)" using max_pool1d_Inr[OF p2] sh by simp
  then have k2: "104 \<le> dim2 c2" using BatchNorm1d_forward_Inr[OF n2] by simp
  then have q1: "106 \<le> dim2 p1" using conv1d_Inr[OF c2] sh by simp
  then have r1: "424 \<le> dim2 (relu K n1)" using max_pool1d_Inr[OF p1] sh by simp
  then have k1: "424 \<le> dim2 c1" using BatchNorm1d_forward_Inr[OF n1] by simp
  from c1 n1 p1 c2 n2 p2 c3 n3 p3 c4 n4 p4 a k1 r1 q1 k2 r2 q2 k3 r3 q3 k4 r4 q4
  show ?thesis by blast
qed

lemma stage_defined:
  assumes "dim1 x = dim1 (c_weight (cl m))" "0 < c_stride (cl m)" "0 < dim2 (c_weight (cl m))"
    and "dim2 (c_weight (cl m)) \<le> dim2 x"
    and "dim0 (c_weight (cl m)) = length (running_mean (bl m))"
    and "1 < pl m" "pl m \<le> (dim2 x - dim2 (c_weight (cl m))) div c_stride (cl m) + 1"
    and "0 < dim0 x"
    and frame: "\<And>b. pl (upd (\<lambda>_. b) m) = pl m"
  shows "\<exists>z b. bnd (self_conv K cl x) (\<lambda>x. bnd (self_bn K bl upd x) (\<lambda>x.
                  bnd (self_pool K pl (relu K x)) cont)) m = cont z (upd (\<lambda>_. b) m) \<and>
           length (running_mean b) = length (running_mean (bl m)) \<and>
           dim0 z = dim0 x \<and> dim1 z = dim0 (c_weight (cl m)) \<and>
           dim2 z = ((dim2 x - dim2 (c_weight (cl m))) div c_stride (cl m) + 1) div pl m"
proof -
  from conv1d_defined[OF assms(1-4)] obtain x1 where c: "conv1d K (cl m) x = Inr x1" by blast
  note d1 = conv1d_Inr[OF c]
  have "dim0 x1 * dim2 x1 \<noteq> 1"
  proof
    assume "dim0 x1 * dim2 x1 = 1"
    then have "dim2 x1 = 1" by simp
    with d1 assms(6,7) show False by simp
  qed
  with d1 assms(5) obtain x2 b where b: "BatchNorm1d_forward K (training m) x1 (bl m) = (Inr x2, b)"
    using BatchNorm1d_forward_defined[of x1 "bl m" K "training m"] by auto
  note d2 = BatchNorm1d_forward_Inr[OF b]
  from d1 d2 assms(6,7) obtain z where p: "max_pool1d K (pl m) (relu K x2) = Inr z"
    using max_pool1d_defined[of "pl m" "relu K x2"] by auto
  note d3 = max_pool1d_Inr[OF p]
  have "bnd (self_conv K cl x) (\<lambda>x. bnd (self_bn K bl upd x) (\<lambda>x.
          bnd (self_pool K pl (relu K x)) cont)) m = cont z (upd (\<lambda>_. b) m)"
    by (simp add: bnd_def self_conv_def self_bn_def self_pool_def c b p frame)
  with d1 d2 d3 show ?thesis by auto
qed

lemma head_defined:
  assumes "0 < dim2 x" "dim1 x = cols (l_weight (fc1 m))"
  shows "\<exists>y. head K x m = (Inr y, m)"
proof -
  from assms obtain x1 where a: "avg_pool1d K x (dim2 x) = Inr x1"
    using avg_pool1d_defined[of "dim2 x" x] by auto
  from avg_pool1d_Inr[OF a] assms obtain x2 where l: "linear K (fc1 m) (permute_0_2_1 x1) = Inr x2"
    using linear_defined[of "permute_0_2_1 x1" "fc1 m"] by auto
  show ?thesis by (simp add: head_def bnd_def lift_def self_fc1_def ret_def a l)
qed

lemma has_arch_bn1: "length (running_mean b) = length (running_mean (bn1 m)) \<Longrightarrow>
    has_arch (m\<lparr>bn1 := b\<rparr>) i out s c = has_arch m i out s c"
  by (auto simp: has_arch_def)

lemma has_arch_bn2: "length (running_mean b) = length (running_mean (bn2 m)) \<Longrightarrow>
    has_arch (m\<lparr>bn2 := b\<rparr>) i out s c = has_arch m i out s c"
  by (auto simp: has_arch_def)

lemma has_arch_bn3: "length (running_mean b) = length (running_mean (bn3 m)) \<Longrightarrow>
    has_arch (m\<lparr>bn3 := b\<rparr>) i out s c = has_arch m i out s c"
  by (auto simp: has_arch_def)

lemma has_arch_bn4: "length (running_mean b) = length (running_mean (bn4 m)) \<Longrightarrow>
    has_arch (m\<lparr>bn4 := b\<rparr>) i out s c = has_arch m i out s c"
  by (auto simp: has_arch_def)

lemma forward_defined:
  assumes arch: "has_arch m n_in n_out s n_ch" and s: "0 < s"
    and x: "dim1 x = n_in" "0 < dim0 x" and len: "80 + 423 * s \<le> dim2 x"
  shows "\<exists>y m'. forward K x m = (Inr y, m')"
proof -
  from len s have "423 \<le> (dim2 x - 80) div s"
    by (simp add: less_eq_div_iff_mult_less_eq)
  then have l1: "424 \<le> (dim2 x - 80) div s + 1" by simp
  have "\<exists>z b. bnd (self_conv K conv1 x) (\<lambda>x. bnd (self_bn K bn1 bn1_update x) (\<lambda>x.
                 bnd (self_pool K pool1 (relu K x)) (from_stage2 K))) m
                 = from_stage2 K z (bn1_update (\<lambda>_. b) m) \<and>
           length (running_mean b) = length (running_mean (bn1 m)) \<and>
           dim0 z = dim0 x \<and> dim1 z = dim0 (c_weight (conv1 m)) \<and>
           dim2 z = ((dim2 x - dim2 (c_weight (conv1 m))) div c_stride (conv1 m) + 1) div pool1 m"
    using arch s x len l1 by (intro stage_defined) (simp_all add: has_arch_def conv_shape_def)
  then obtain z1 b1 where r1: "forward K x m = from_stage2 K z1 (m\<lparr>bn1 := b1\<rparr>)"
    and b1: "length (running_mean b1) = length (running_mean (bn1 m))"
    and d1: "dim0 z1 = dim0 x" "dim1 z1 = n_ch" "dim2 z1 = ((dim2 x - 80) div s + 1) div 4"
    using arch by (auto simp: forward_stages has_arch_def conv_shape_def)
  define m1 where "m1 = m\<lparr>bn1 := b1\<rparr>"
  have a1: "has_arch m1 n_in n_out s n_ch" using arch b1 by (simp add: m1_def has_arch_bn1)
  from d1 l1 have l2: "106 \<le> dim2 z1" by simp
  have "\<exists>z b. bnd (self_conv K conv2 z1) (\<lambda>x. bnd (self_bn K bn2 bn2_update x) (\<lambda>x.
                 bnd (self_pool K pool2 (relu K x)) (from_stage3 K))) m1
                 = from_stage3 K z (bn2_update (\<lambda>_. b) m1) \<and>
           length (running_mean b) = length (running_mean (bn2 m1)) \<and>
           dim0 z = dim0 z1 \<and> dim1 z = dim0 (c_weight (conv2 m1)) \<and>
           dim2 z = ((dim2 z1 - dim2 (c_weight (conv2 m1))) div c_stride (conv2 m1) + 1) div pool2 m1"
    using a1 x d1(1,2) l2 by (intro stage_defined) (simp_all add: has_arch_def conv_shape_def)
  then obtain z2 b2 where r2: "from_stage2 K z1 m1 = from_stage3 K z2 (m1\<lparr>bn2 := b2\<rparr>)"
    and b2: "length (running_mean b2) = length (running_mean (bn2 m1))"
    and d2: "dim0 z2 = dim0 z1" "dim1 z2 = n_ch" "dim2 z2 = (dim2 z1 - 3 + 1) div 4"
    using a1 by (auto simp: from_stage2_def has_arch_def conv_shape_def)
  define m2 where "m2 = m1\<lparr>bn2 := b2\<rparr>"
  have a2: "has_arch m2 n_in n_out s n_ch" using a1 b2 by (simp add: m2_def has_arch_bn2)
  from d2 l2 have l3: "26 \<le> dim2 z2" by simp
  have "\<exists>z b. bnd (self_conv K conv3 z2) (\<lambda>x. bnd (self_bn K bn3 bn3_update x) (\<lambda>x.
                 bnd (self_pool K pool3 (relu K x)) (from_stage4 K))) m2
                 = from_stage4 K z (bn3_update (\<lambda>_. b) m2) \<and>
           length (running_mean b) = length (running_mean (bn3 m2)) \<and>
           dim0 z = dim0 z2 \<and> dim1 z = dim0 (c_weight (conv3 m2)) \<and>
           dim2 z = ((dim2 z2 - dim2 (c_weight (conv3 m2))) div c_stride (conv3 m2) + 1) div pool3 m2"
    using a2 x d1(1) d2(1,2) l3 by (intro stage_defined) (simp_all add: has_arch_def conv_shape_def)
  then obtain z3 b3 where r3: "from_stage3 K z2 m2 = from_stage4 K z3 (m2\<lparr>bn3 := b3\<rparr>)"
    and b3: "length (running_mean b3) = length (running_mean (bn3 m2))"
    and d3: "dim0 z3 = dim0 z2" "dim1 z3 = 2 * n_ch" "dim2 z3 = (dim2 z2 - 3 + 1) div 4"
    using a2 by (auto simp: from_stage3_def has_arch_def conv_shape_def)
  define m3 where "m3 = m2\<lparr>bn3 := b3\<rparr>"
  have a3: "has_arch m3 n_in n_out s n_ch" using a2 b3 by (simp add: m3_def has_arch_bn3)
  from d3 l3 have l4: "6 \<le> dim2 z3" by simp
  have "\<exists>z b. bnd (self_conv K conv4 z3) (\<lambda>x. bnd (self_bn K bn4 bn4_update x) (\<lambda>x.
                 bnd (self_pool K pool4 (relu K x)) (head K))) m3
                 = head K z (bn4_update (\<lambda>_. b) m3) \<and>
           length (running_mean b) = length (running_mean (bn4 m3)) \<and>
           dim0 z = dim0 z3 \<and> dim1 z = dim0 (c_weight (conv4 m3)) \<and>
           dim2 z = ((dim2 z3 - dim2 (c_weight (conv4 m3))) div c_stride (conv4 m3) + 1) div pool4 m3"
    using a3 x d1(1) d2(1) d3(1,2) l4
    by (intro stage_defined) (simp_all add: has_arch_def conv_shape_def)
  then obtain z4 b4 where r4: "from_stage4 K z3 m3 = head K z4 (m3\<lparr>bn4 := b4\<rparr>)"
    and b4: "length (running_mean b4) = length (running_mean (bn4 m3))"
    and d4: "dim0 z4 = dim0 z3" "dim1 z4 = 2 * n_ch" "dim2 z4 = (dim2 z3 - 3 + 1) div 4"
    using a3 by (auto simp: from_stage4_def has_arch_def conv_shape_def)
  define m4 where "m4 = m3\<lparr>bn4 := b4\<rparr>"
  have a4: "has_arch m4 n_in n_out s n_ch" using a3 b4 by (simp add: m4_def has_arch_bn4)
  from d4 l4 have l5: "0 < dim2 z4" by simp
  from a4 d4(2) have "dim1 z4 = cols (l_weight (fc1 m4))" by (simp add: has_arch_def)
  from head_defined[OF l5 this] obtain y where "head K z4 m4 = (Inr y, m4)"
    by auto
  with r1 r2 r3 r4 have "forward K x m = (Inr y, m4)"
    by (simp add: m1_def m2_def m3_def m4_def)
  then show ?thesis by blast
qed

lemma forward_eval_unchanged:
  assumes "\<not> training m"
  shows "snd (forward K x m) = m"
  unfolding forward_def
  using assms
  by (intro bnd_unchanged)
    (simp_all add: self_conv_def self_bn_def self_pool_def self_fc1_def lift_def ret_def
      BatchNorm1d_forward_def split: prod.splits)

lemma zero_model_arch: "has_arch (zero_model n_out) 1 n_out 16 32"
  by (simp add: zero_model_def has_arch_M5_init)

text \<open>
  C8 (amended).  For a model with the shapes of \<^verbatim>\<open>M5(n_input, n_output)\<close> (stride 16,
  kernels 80 and 3, pools of 4) and a batch of at least one clip with \<open>n_input\<close>
  channels (one channel, for the model of the notebook), the forward pass returns
  exactly when the clips have at least 6848 samples.  From 6848 samples on, the four
  pooling layers receive at least 424, 104, 24 and 4 samples, the second to fourth
  convolution at least 106, 26 and 6, and the global average pool at least one; with
  fewer than 6848 samples some layer raises.  A second at the target rate has 8000
  samples.
\<close>

theorem forward_defined_iff_6848:
  assumes "has_arch m n_input n_output 16 n_channel" and "dim1 x = n_input" and "0 < dim0 x"
  shows "(6848 \<le> dim2 x \<longrightarrow>
            (\<exists>y m' c1 n1 b1 p1 c2 n2 b2 p2 c3 n3 b3 p3 c4 n4 b4 p4 a.
               forward K x m = (Inr y, m') \<and> dim0 y = dim0 x \<and> dim1 y = 1 \<and> dim2 y = n_output \<and>
               conv1d K (conv1 m) x = Inr c1 \<and>
               BatchNorm1d_forward K (training m) c1 (bn1 m) = (Inr n1, b1) \<and>
               max_pool1d K (pool1 m) (relu K n1) = Inr p1 \<and>
               conv1d K (conv2 m) p1 = Inr c2 \<and>
               BatchNorm1d_forward K (training m) c2 (bn2 m) = (Inr n2, b2) \<and>
               max_pool1d K (pool2 m) (relu K n2) = Inr p2 \<and>
               conv1d K (conv3 m) p2 = Inr c3 \<and>
               BatchNorm1d_forward K (training m) c3 (bn3 m) = (Inr n3, b3) \<and>
               max_pool1d K (pool3 m) (relu K n3) = Inr p3 \<and>
               conv1d K (conv4 m) p3 = Inr c4 \<and>
               BatchNorm1d_forward K (training m) c4 (bn4 m) = (Inr n4, b4) \<and>
               max_pool1d K (pool4 m) (relu K n4) = Inr p4 \<and>
               avg_pool1d K p4 (dim2 p4) = Inr a \<and>
               424 \<le> dim2 c1 \<and> 424 \<le> dim2 (relu K n1) \<and> 106 \<le> dim2 p1 \<and>
               104 \<le> dim2 c2 \<and> 104 \<le> dim2 (relu K n2) \<and> 26 \<le> dim2 p2 \<and>
               24 \<le> dim2 c3 \<and> 24 \<le> dim2 (relu K n3) \<and> 6 \<le> dim2 p3 \<and>
               4 \<le> dim2 c4 \<and> 4 \<le> dim2 (relu K n4) \<and> 1 \<le> dim2 p4)) \<and>
         (dim2 x < 6848 \<longrightarrow> (\<exists>e m'. forward K x m = (Inl e, m'))) \<and>
         6848 \<le> new_sample_rate"
proof (intro conjI impI)
  assume "6848 \<le> dim2 x"
  then have "80 + 423 * 16 \<le> dim2 x" by simp
  from forward_defined[where K = K, OF assms(1) _ assms(2,3) this]
  obtain y m' where r: "forward K x m = (Inr y, m')" by auto
  from forward_Inr_lengths[OF r assms(1)]
  have d: "dim0 y = dim0 x" "dim1 y = 1" "dim2 y = n_output" by simp_all
  from forward_stage_inputs[OF r assms(1)] r d
  show "\<exists>y m' c1 n1 b1 p1 c2 n2 b2 p2 c3 n3 b3 p3 c4 n4 b4 p4 a.
               forward K x m = (Inr y, m') \<and> dim0 y = dim0 x \<and> dim1 y = 1 \<and> dim2 y = n_output \<and>
               conv1d K (conv1 m) x = Inr c1 \<and>
               BatchNorm1d_forward K (training m) c1 (bn1 m) = (Inr n1, b1) \<and>
               max_pool1d K (pool1 m) (relu K n1) = Inr p1 \<and>
               conv1d K (conv2 m) p1 = Inr c2 \<and>
               BatchNorm1d_forward K (training m) c2 (bn2 m) = (Inr n2, b2) \<and>
               max_pool1d K (pool2 m) (relu K n2) = Inr p2 \<and>
               conv1d K (conv3 m) p2 = Inr c3 \<and>
               BatchNorm1d_forward K (training m) c3 (bn3 m) = (Inr n3, b3) \<and>
               max_pool1d K (pool3 m) (relu K n3) = Inr p3 \<and>
               conv1d K (conv4 m) p3 = Inr c4 \<and>
               BatchNorm1d_forward K (training m) c4 (bn4 m) = (Inr n4, b4) \<and>
               max_pool1d K (pool4 m) (relu K n4) = Inr p4 \<and>
               avg_pool1d K p4 (dim2 p4) = Inr a \<and>
               424 \<le> dim2 c1 \<and> 424 \<le> dim2 (relu K n1) \<and> 106 \<le> dim2 p1 \<and>
               104 \<le> dim2 c2 \<and> 104 \<le> dim2 (relu K n2) \<and> 26 \<le> dim2 p2 \<and>
               24 \<le> dim2 c3 \<and> 24 \<le> dim2 (relu K n3) \<and> 6 \<le> dim2 p3 \<and>
               4 \<le> dim2 c4 \<and> 4 \<le> dim2 (relu K n4) \<and> 1 \<le> dim2 p4"
    by (elim exE conjE) (intro exI conjI; assumption)
next
  assume short: "dim2 x < 6848"
  obtain r m' where r: "forward K x m = (r, m')" by (cases "forward K x m")
  show "\<exists>e m'. forward K x m = (Inl e, m')"
  proof (cases r)
    case (Inl e)
    with r show ?thesis by auto
  next
    case (Inr y)
    with r forward_Inr_lengths[OF _ assms(1), of K x y m'] short show ?thesis by simp
  qed
next
  show "6848 \<le> new_sample_rate" by (simp add: new_sample_rate_def)
qed

theorem forward_defined_iff_6848_witness:
  "has_arch (zero_model 35) 1 35 16 32 \<and> dim1 (zero_clip 1 6848) = 1 \<and>
   0 < dim0 (zero_clip 1 6848) \<and>
   (\<exists>y m'. forward demo_kernels (zero_clip 1 6848) (zero_model 35) = (Inr y, m') \<and>
      dim0 y = 1 \<and> dim1 y = 1 \<and> dim2 y = 35) \<and>
   (\<exists>e m'. forward demo_kernels (zero_clip 1 6847) (zero_model 35) = (Inl e, m'))"
proof -
  have a: "has_arch (zero_model 35) 1 35 16 32" by (rule zero_model_arch)
  have b: "dim1 (zero_clip 1 6848) = 1" "0 < dim0 (zero_clip 1 6848)"
    "dim2 (zero_clip 1 6848) = 6848" "dim0 (zero_clip 1 6848) = 1"
    "dim1 (zero_clip 1 6847) = 1" "0 < dim0 (zero_clip 1 6847)" "dim2 (zero_clip 1 6847) = 6847"
    by (simp_all add: zero_clip_def)
  from forward_defined_iff_6848[OF a b(1,2), of demo_kernels] b(3,4)
  have "\<exists>y m'. forward demo_kernels (zero_clip 1 6848) (zero_model 35) = (Inr y, m') \<and>
      dim0 y = 1 \<and> dim1 y = 1 \<and> dim2 y = 35"
    by (simp only: le_refl simp_thms) (elim exE conjE, intro exI conjI; assumption)
  moreover from forward_defined_iff_6848[OF a b(5,6), of demo_kernels] b(7)
  have "\<exists>e m'. forward demo_kernels (zero_clip 1 6847) (zero_model 35) = (Inl e, m')" by simp
  ultimately show ?thesis using a b(1,2) by simp
qed

text \<open>
  A clip of one second at the target rate with two channels: the first convolution of
  the model of the notebook, built for one channel, refuses it.
\<close>

theorem forward_refuses_stereo:
  "forward demo_kernels (zero_clip 2 8000) (zero_model 35) = (Inl RuntimeError, zero_model 35)"
  by (simp add: forward_def bnd_def self_conv_def conv1d_def zero_clip_def zero_model_def
      M5_init_def Conv1d_init_def Let_def)

subsection \<open>The layers of the model, in their order\<close>




subsection \<open>Collating a batch\<close>

lemma foldr_max_Max: "xs \<noteq> [] \<Longrightarrow> foldr max xs (0::nat) = Max (set xs)"
proof (induction xs)
  case Nil
  then show ?case by simp
next
  case (Cons x xs)
  show ?case
  proof (cases "xs = []")
    case True
    then show ?thesis by simp
  next
    case False
    with Cons.IH show ?thesis by simp
  qed
qed

declare excess_bits.simps [simp del]

lemma float32_of_int_exact: "\<bar>n\<bar> < 2 ^ 24 \<Longrightarrow> float32_of_int n = n"
proof -
  assume "\<bar>n\<bar> < 2 ^ 24"
  then have "nat \<bar>n\<bar> < 2 ^ 24" by simp
  then have "excess_bits (nat \<bar>n\<bar>) = 0" by (subst excess_bits.simps) simp
  then have "float32_of_int n = sgn n * \<bar>n\<bar>"
    by (simp add: float32_of_int_def Let_def)
  then show ?thesis by (simp add: mult_sgn_abs)
qed

lemma rnn_pad_sequence_same_channels:
  assumes "seqs \<noteq> []" "\<forall>s\<in>set seqs. cols s = C"
  shows "rnn_pad_sequence seqs v =
     Inr \<lparr>dim0 = length seqs, dim1 = Max (set (map rows seqs)), dim2 = C,
          at3 = (\<lambda>i t c. let s = seqs ! i in
                   if t < rows s then at2 s t (if cols s = 1 then 0 else c) else v)\<rparr>"
proof -
  from assms obtain s0 rest where seqs: "seqs = s0 # rest" by (cases seqs) auto
  with assms(2) have "cols s0 = C" by simp
  moreover from assms(2) this have "\<not> list_ex (\<lambda>s. cols s \<noteq> cols s0 \<and> cols s \<noteq> 1) seqs"
    by (auto simp: list_ex_iff)
  moreover have "foldr max (map rows seqs) 0 = Max (set (map rows seqs))"
    using assms(1) by (intro foldr_max_Max) simp
  ultimately show ?thesis
    unfolding rnn_pad_sequence_def seqs[symmetric] by (simp add: seqs)
qed

lemma to_long_of_int:
  assumes "- (2 ^ 63) \<le> i" "i < 2 ^ 63"
  shows "to_long K (Fin (real_of_int i)) = word_of_int i"
  using assms by (simp add: to_long_def Let_def)

lemma label_round_trip:
  assumes "\<bar>sint l\<bar> < 2 ^ 24"
  shows "to_long K (Fin (real_of_int (float32_of_int (sint l)))) = l"
proof -
  have "- (2 ^ 63) \<le> sint l" "sint l < 2 ^ 63" using assms by simp_all
  from to_long_of_int[OF this]
  have "to_long K (Fin (real_of_int (sint l))) = word_of_int (sint l)" .
  then show ?thesis by (simp only: float32_of_int_exact[OF assms] of_int_sint scast_id)
qed

text \<open>
  C4 (amended).  For a non-empty batch whose waveforms all have \<open>C\<close> channels,
  \<^verbatim>\<open>collate_fn\<close> returns a tensor of shape (batch, \<open>C\<close>, longest length) in which clip
  \<open>i\<close> holds the samples of waveform \<open>i\<close> followed by zeros, and the labels in the order
  of the batch, as 64-bit integers converted from the 32-bit floats that the labels
  were rounded to: the integer of that float when it is in the range of the 64-bit
  integers, and so the label itself when it is below \<open>2\<^sup>2\<^sup>4\<close> in absolute value.
\<close>

theorem collate_fn_pads:
  assumes "batch \<noteq> []" and "\<forall>p\<in>set batch. rows (fst p) = C"
  shows "\<exists>tensors targets. collate_fn K batch = Inr (tensors, targets) \<and>
     dim0 tensors = length batch \<and> dim1 tensors = C \<and>
     dim2 tensors = Max (set (map (\<lambda>p. cols (fst p)) batch)) \<and>
     (\<forall>i<length batch. \<forall>c<C.
          cols (fst (batch ! i)) \<le> dim2 tensors \<and>
          (\<forall>t<cols (fst (batch ! i)). at3 tensors i c t = at2 (fst (batch ! i)) c t) \<and>
          (\<forall>t\<ge>cols (fst (batch ! i)). at3 tensors i c t = Fin 0)) \<and>
     length targets = length batch \<and>
     (\<forall>i<length batch.
          targets ! i = to_long K (Fin (real_of_int (float32_of_int (sint (snd (batch ! i)))))) \<and>
          (- (2 ^ 63) \<le> float32_of_int (sint (snd (batch ! i))) \<and>
           float32_of_int (sint (snd (batch ! i))) < 2 ^ 63 \<longrightarrow>
             targets ! i = word_of_int (float32_of_int (sint (snd (batch ! i))))) \<and>
          (\<bar>sint (snd (batch ! i))\<bar> < 2 ^ 24 \<longrightarrow> targets ! i = snd (batch ! i)))"
proof -
  define seqs where "seqs = map tensor_t (map fst batch)"
  have ne: "seqs \<noteq> []" using assms(1) by (simp add: seqs_def)
  have ch: "\<forall>s\<in>set seqs. cols s = C" using assms(2) by (auto simp: seqs_def tensor_t_def)
  define T where "T = permute_0_2_1 \<lparr>dim0 = length seqs, dim1 = Max (set (map rows seqs)), dim2 = C,
          at3 = (\<lambda>i t c. let s = seqs ! i in
                   if t < rows s then at2 s t (if cols s = 1 then 0 else c) else Fin 0)\<rparr>"
  define L where "L = map (to_long K) (torch_Tensor (map snd batch))"
  have "pad_sequence (map fst batch) =
      (case rnn_pad_sequence seqs (Fin 0) of Inl e \<Rightarrow> Inl e | Inr b \<Rightarrow> Inr (permute_0_2_1 b))"
    by (simp only: pad_sequence_def Let_def seqs_def)
  then have pad: "pad_sequence (map fst batch) = Inr T"
    by (simp only: rnn_pad_sequence_same_channels[OF ne ch] T_def sum.case)
  have col: "collate_fn K batch = Inr (T, L)"
    using pad assms(1) by (simp add: collate_fn_def Let_def np_stack_def L_def)
  have d: "dim0 T = length batch" "dim1 T = C"
    "dim2 T = Max (set (map (\<lambda>p. cols (fst p)) batch))"
    by (simp_all add: T_def permute_0_2_1_def seqs_def tensor_t_def)
  have entries: "cols (fst (batch ! i)) \<le> dim2 T \<and>
          (\<forall>t<cols (fst (batch ! i)). at3 T i c t = at2 (fst (batch ! i)) c t) \<and>
          (\<forall>t\<ge>cols (fst (batch ! i)). at3 T i c t = Fin 0)"
    if i: "i < length batch" and c: "c < C" for i c
  proof -
    from i have mem: "batch ! i \<in> set batch" by simp
    with assms(2) have r: "rows (fst (batch ! i)) = C" by blast
    have si: "seqs ! i = tensor_t (fst (batch ! i))" using i by (simp add: seqs_def)
    have "cols (fst (batch ! i)) \<in> set (map (\<lambda>p. cols (fst p)) batch)"
      using mem by auto
    then have le: "cols (fst (batch ! i)) \<le> dim2 T"
      unfolding d(3) by (intro Max_ge) auto
    have at: "at3 T i c t = (if t < cols (fst (batch ! i))
        then at2 (fst (batch ! i)) (if C = 1 then 0 else c) t else Fin 0)" for t
      by (simp add: T_def permute_0_2_1_def si tensor_t_def Let_def r)
    have "(if C = 1 then 0 else c) = c" using c by simp
    with at le show ?thesis by simp
  qed
  have len: "length L = length batch" by (simp add: L_def torch_Tensor_def)
  have labels: "L ! i = to_long K (Fin (real_of_int (float32_of_int (sint (snd (batch ! i)))))) \<and>
          (- (2 ^ 63) \<le> float32_of_int (sint (snd (batch ! i))) \<and>
           float32_of_int (sint (snd (batch ! i))) < 2 ^ 63 \<longrightarrow>
             L ! i = word_of_int (float32_of_int (sint (snd (batch ! i))))) \<and>
          (\<bar>sint (snd (batch ! i))\<bar> < 2 ^ 24 \<longrightarrow> L ! i = snd (batch ! i))"
    if "i < length batch" for i
  proof -
    have "L ! i = to_long K (Fin (real_of_int (float32_of_int (sint (snd (batch ! i))))))"
      using that by (simp add: L_def torch_Tensor_def)
    then show ?thesis
      using to_long_of_int[of "float32_of_int (sint (snd (batch ! i)))" K]
        label_round_trip[of "snd (batch ! i)" K]
      by (simp only:) blast
  qed
  from entries have E: "\<forall>i<length batch. \<forall>c<C.
          cols (fst (batch ! i)) \<le> dim2 T \<and>
          (\<forall>t<cols (fst (batch ! i)). at3 T i c t = at2 (fst (batch ! i)) c t) \<and>
          (\<forall>t\<ge>cols (fst (batch ! i)). at3 T i c t = Fin 0)"
    by blast
  from labels have B: "\<forall>i<length batch.
          L ! i = to_long K (Fin (real_of_int (float32_of_int (sint (snd (batch ! i)))))) \<and>
          (- (2 ^ 63) \<le> float32_of_int (sint (snd (batch ! i))) \<and>
           float32_of_int (sint (snd (batch ! i))) < 2 ^ 63 \<longrightarrow>
             L ! i = word_of_int (float32_of_int (sint (snd (batch ! i))))) \<and>
          (\<bar>sint (snd (batch ! i))\<bar> < 2 ^ 24 \<longrightarrow> L ! i = snd (batch ! i))"
    by blast
  from col d E len B show ?thesis by blast
qed

theorem collate_fn_pads_witness:
  "[(\<lparr>rows = 1, cols = 1, at2 = (\<lambda>_ _. Fin 5)\<rparr>, 3::64 word),
    (\<lparr>rows = 1, cols = 2, at2 = (\<lambda>_ _. Fin 7)\<rparr>, 4)] \<noteq> [] \<and>
   (\<exists>tensors targets.
      collate_fn demo_kernels
        [(\<lparr>rows = 1, cols = 1, at2 = (\<lambda>_ _. Fin 5)\<rparr>, 3),
         (\<lparr>rows = 1, cols = 2, at2 = (\<lambda>_ _. Fin 7)\<rparr>, 4)]
        = Inr (tensors, targets) \<and>
      dim0 tensors = 2 \<and> dim1 tensors = 1 \<and> dim2 tensors = 2 \<and>
      at3 tensors 0 0 0 = Fin 5 \<and> at3 tensors 0 0 1 = Fin 0 \<and>
      at3 tensors 1 0 0 = Fin 7 \<and> at3 tensors 1 0 1 = Fin 7 \<and> targets = [3, 4])"
proof -
  let ?b = "[(\<lparr>rows = 1, cols = 1, at2 = (\<lambda>_ _. Fin 5)\<rparr>, 3::64 word),
             (\<lparr>rows = 1, cols = 2, at2 = (\<lambda>_ _. Fin 7)\<rparr>, 4)]"
  have h: "?b \<noteq> []" "\<forall>p\<in>set ?b. rows (fst p) = 1" by simp_all
  from collate_fn_pads[OF h, of demo_kernels] obtain tensors targets where
    c: "collate_fn demo_kernels ?b = Inr (tensors, targets)" and
    d: "dim0 tensors = length ?b" "dim1 tensors = 1"
       "dim2 tensors = Max (set (map (\<lambda>p. cols (fst p)) ?b))" and
    e: "\<forall>i<length ?b. \<forall>c<1.
          cols (fst (?b ! i)) \<le> dim2 tensors \<and>
          (\<forall>t<cols (fst (?b ! i)). at3 tensors i c t = at2 (fst (?b ! i)) c t) \<and>
          (\<forall>t\<ge>cols (fst (?b ! i)). at3 tensors i c t = Fin 0)" and
    l: "length targets = length ?b"
       "\<forall>i<length ?b. \<bar>sint (snd (?b ! i))\<bar> < 2 ^ 24 \<longrightarrow> targets ! i = snd (?b ! i)"
    by blast
  from e[rule_format, of 0 0] have e0: "at3 tensors 0 0 0 = Fin 5" "at3 tensors 0 0 1 = Fin 0"
    by simp_all
  from e[rule_format, of 1 0] have e1: "at3 tensors 1 0 0 = Fin 7" "at3 tensors 1 0 1 = Fin 7"
    by simp_all
  from l(2)[rule_format, of 0] l(2)[rule_format, of 1] have "targets ! 0 = 3" "targets ! 1 = 4"
    by simp_all
  with l(1) have t: "targets = [3, 4]"
    by (intro nth_equalityI) (auto simp: less_Suc_eq)
  from d have d': "dim0 tensors = 2" "dim2 tensors = 2" by simp_all
  from c d' d(2) e0 e1 t show ?thesis by blast
qed

text \<open>
  A clip with one channel followed by a clip with two, each of one sample: the batch is
  refused.  And the label \<open>2\<^sup>2\<^sup>4 + 1\<close>, which no 32-bit float holds, comes back as \<open>2\<^sup>2\<^sup>4\<close>.
\<close>

theorem collate_fn_mixed_channels:
  "collate_fn demo_kernels [(zero_wave 1 1, 0), (zero_wave 2 1, 1)] = Inl RuntimeError \<and>
   map_sum id snd (collate_fn demo_kernels [(zero_wave 1 1, 16777217)]) = Inr [16777216]"
proof -
  have "excess_bits 16777217 = 1"
    by (simp add: excess_bits.simps)
  then have "float32_of_int 16777217 = 16777216"
    by (simp add: float32_of_int_def)
  then have "to_long demo_kernels (Fin (real_of_int (float32_of_int 16777217))) = 16777216"
    by (simp add: to_long_def)
  then show ?thesis
    by (simp add: collate_fn_def pad_sequence_def rnn_pad_sequence_def tensor_t_def Let_def
        zero_wave_def np_stack_def torch_Tensor_def)
qed

subsection \<open>What the loops leave unchanged\<close>

lemma preservesD: "preserves I p \<Longrightarrow> I s \<Longrightarrow> I (snd (p s))"
  by (simp add: preserves_def)

lemma preserves_bnd:
  assumes "preserves I p" and "\<And>v. preserves I (q v)"
  shows "preserves I (bnd p q)"
  unfolding preserves_def
proof (intro allI impI)
  fix s assume "I s"
  obtain r s' where ps: "p s = (r, s')" by (cases "p s")
  with assms(1) \<open>I s\<close> have "I s'" by (auto dest: preservesD)
  with ps assms(2) show "I (snd (bnd p q s))"
    by (cases r) (simp_all add: bnd_def preserves_def)
qed

lemma preserves_case_prod:
  "(\<And>a b. preserves I (q a b)) \<Longrightarrow> preserves I (case v of (a, b) \<Rightarrow> q a b)"
  by (cases v) simp

lemma preserves_if: "preserves I p \<Longrightarrow> preserves I q \<Longrightarrow> preserves I (if c then p else q)"
  by simp

lemma preserves_lift: "preserves I (lift r)"
  by (simp add: preserves_def lift_def)

lemma preserves_ret: "preserves I (ret v)"
  by (simp add: preserves_def ret_def)

lemma preserves_throw: "preserves I (throw e)"
  by (simp add: preserves_def throw_def)

lemma preserves_modify: "(\<And>s. I s \<Longrightarrow> I (g s)) \<Longrightarrow> preserves I (modify g)"
  by (simp add: preserves_def modify_def)

lemma preserves_call_model:
  "(\<And>w m. I w \<Longrightarrow> I (w\<lparr>model := m\<rparr>)) \<Longrightarrow> preserves I (call_model G data)"
  by (simp add: preserves_def call_model_def split: prod.splits)

lemma preserves_optimizer_step:
  "(\<And>w m opt. I w \<Longrightarrow> I (w\<lparr>model := m, optimizer := opt\<rparr>)) \<Longrightarrow>
     preserves I (optimizer_step G data target)"
  by (simp add: preserves_def optimizer_step_def split: prod.splits)

lemma preserves_start_iter:
  "(\<And>w g. I w \<Longrightarrow> I (w\<lparr>torch_rng := g\<rparr>)) \<Longrightarrow> preserves I (start_iter G l)"
  by (simp add: preserves_def start_iter_def split: prod.splits)

lemmas preserves_intros =
  preserves_bnd preserves_case_prod preserves_if preserves_lift preserves_ret preserves_throw

lemma bnd_assoc: "bnd (bnd p q) r = bnd p (\<lambda>v. bnd (q v) r)"
  by (rule ext) (simp add: bnd_def split: prod.splits sum.splits)

lemma bnd_throw [simp]: "bnd (throw e) f = throw e"
  by (rule ext) (simp add: bnd_def throw_def)

lemma bnd_ret [simp]: "bnd (ret v) f = f v"
  by (rule ext) (simp add: bnd_def ret_def)

text \<open>The bookkeeping of the checkpoints: validation losses, \<^verbatim>\<open>best_loss\<close>, the file.\<close>

lemma train_batches_books:
  "preserves (\<lambda>w. val_losses w = vl \<and> best_loss w = bl \<and> saved w = sv) (train_batches G li bs acc)"
proof (induction bs arbitrary: acc)
  case Nil
  show ?case by (simp add: preserves_ret)
next
  case (Cons b bs)
  show ?case
    unfolding train_batches.simps
    by (intro preserves_intros preserves_call_model preserves_optimizer_step Cons.IH) simp_all
qed

lemma train_books:
  "preserves (\<lambda>w. val_losses w = vl \<and> best_loss w = bl \<and> saved w = sv)
     (train G epoch li TrainLosses)"
  unfolding train_def
  by (intro preserves_intros preserves_modify preserves_start_iter train_batches_books) simp_all

lemma val_batches_frame:
  assumes "\<And>d. preserves I (call_model G d)"
  shows "preserves I (val_batches G bs acc)"
proof (induction bs arbitrary: acc)
  case Nil
  show ?case by (simp add: preserves_ret)
next
  case (Cons b bs)
  show ?case
    unfolding val_batches.simps
    by (intro preserves_intros Cons.IH assms)
qed

lemma val_appends:
  assumes "val G epoch ValLosses w = (Inr c, w')"
  shows "\<exists>l. val_losses w' = val_losses w @ [l] \<and> best_loss w' = best_loss w \<and> saved w' = saved w"
proof -
  from assms obtain batches w1 acc w2 where
    it: "start_iter G (val_loader G) (w\<lparr>model := m_eval (nn_module G) (model w)\<rparr>) = (Inr batches, w1)"
    and vb: "val_batches G batches (Fin 0, 0) w1 = (Inr acc, w2)"
    and rest: "(case acc of (val_loss, correct) \<Rightarrow>
       bnd (if loader_len (train_loader G) = 0 then throw ZeroDivisionError
            else modify (losses_append ValLosses (fdiv_nat (py_round G) val_loss (loader_len (train_loader G)))))
         (\<lambda>_. if subset_len (ld_dataset (val_loader G)) = 0 then throw ZeroDivisionError
               else ret correct)) w2 = (Inr c, w')"
    by (auto simp: val_def bnd_Inr modify_def)
  from it have k1: "val_losses w1 = val_losses w \<and> best_loss w1 = best_loss w \<and> saved w1 = saved w"
    by (auto simp: start_iter_def split: prod.splits)
  have "preserves (\<lambda>w'. val_losses w' = val_losses w \<and> best_loss w' = best_loss w \<and> saved w' = saved w)
          (val_batches G batches (Fin 0, 0))"
    by (intro val_batches_frame preserves_call_model) simp
  from preservesD[OF this k1] vb
  have k2: "val_losses w2 = val_losses w" "best_loss w2 = best_loss w" "saved w2 = saved w"
    by simp_all
  obtain val_loss correct where acc: "acc = (val_loss, correct)" by (cases acc)
  from rest acc have "w' = losses_append ValLosses (fdiv_nat (py_round G) val_loss (loader_len (train_loader G))) w2"
    by (auto simp: bnd_Inr modify_def throw_def ret_def split: if_splits)
  with k2 show ?thesis by simp
qed

subsection \<open>Validation does not touch the model\<close>

lemma val_model:
  assumes pure: "\<And>x m. \<not> training m \<Longrightarrow> snd (m_call (nn_module G) x m) = m"
    and ev: "\<And>m. \<not> training (m_eval (nn_module G) m)"
  shows "model (snd (val G epoch losses w)) = m_eval (nn_module G) (model w)"
proof -
  define m0 where "m0 = m_eval (nn_module G) (model w)"
  have "model (snd (call_model G d s)) = snd (m_call (nn_module G) d (model s))" for d s
    by (simp add: call_model_def split: prod.splits)
  moreover have "snd (m_call (nn_module G) d m0) = m0" for d
    using pure[of m0] ev[of "model w"] by (simp add: m0_def)
  ultimately have call: "preserves (\<lambda>w'. model w' = m0) (call_model G d)" for d
    by (simp add: preserves_def)
  have rest: "preserves (\<lambda>w'. model w' = m0)
       (bnd (start_iter G (val_loader G)) (\<lambda>batches.
        bnd (val_batches G batches (Fin 0, 0)) (\<lambda>(val_loss, correct).
        bnd (if loader_len (train_loader G) = 0 then throw ZeroDivisionError
          else modify (losses_append losses (fdiv_nat (py_round G) val_loss (loader_len (train_loader G))))) (\<lambda>_.
        if subset_len (ld_dataset (val_loader G)) = 0 then throw ZeroDivisionError
        else ret correct))))"
    by (intro preserves_intros preserves_start_iter preserves_modify val_batches_frame call)
      (cases losses; simp)+
  have "val G epoch losses w =
       (bnd (start_iter G (val_loader G)) (\<lambda>batches.
        bnd (val_batches G batches (Fin 0, 0)) (\<lambda>(val_loss, correct).
        bnd (if loader_len (train_loader G) = 0 then throw ZeroDivisionError
          else modify (losses_append losses (fdiv_nat (py_round G) val_loss (loader_len (train_loader G))))) (\<lambda>_.
        if subset_len (ld_dataset (val_loader G)) = 0 then throw ZeroDivisionError
        else ret correct)))) (w\<lparr>model := m0\<rparr>)"
    by (simp add: val_def bnd_def modify_def m0_def)
  with preservesD[OF rest, of "w\<lparr>model := m0\<rparr>"] show ?thesis
    by (simp add: m0_def)
qed

text \<open>
  C6.  With the M5 module, \<^verbatim>\<open>val\<close> leaves the model as it was, but for the switch to
  evaluation mode: whatever it returns or raises, every tensor of the state dictionary
  (the parameters and the running statistics of the batch normalisations) is unchanged.
  The optimiser is not touched either, and the step that saves the checkpoint leaves
  the model alone: in the training loop only \<^verbatim>\<open>train\<close> updates it.
\<close>

theorem val_leaves_parameters:
  "model (snd (val (G\<lparr>nn_module := M5_module K\<rparr>) epoch losses w)) = (model w)\<lparr>training := False\<rparr> \<and>
   state_dict (model (snd (val (G\<lparr>nn_module := M5_module K\<rparr>) epoch losses w))) = state_dict (model w) \<and>
   optimizer (snd (val (G\<lparr>nn_module := M5_module K\<rparr>) epoch losses w)) = optimizer w \<and>
   model (snd (save_if_better G w)) = model w"
proof -
  let ?G = "G\<lparr>nn_module := M5_module K\<rparr>"
  have m: "model (snd (val ?G epoch losses w)) = m_eval (nn_module ?G) (model w)"
    by (rule val_model) (simp_all add: M5_module_def forward_eval_unchanged)
  have "preserves (\<lambda>w'. optimizer w' = optimizer w) (val ?G epoch losses)"
    unfolding val_def
    by (intro preserves_intros preserves_start_iter preserves_modify val_batches_frame
        preserves_call_model) (cases losses; simp)+
  from preservesD[OF this] have o: "optimizer (snd (val ?G epoch losses w)) = optimizer w"
    by simp
  have "model (snd (save_if_better G w)) = model w"
    by (simp add: save_if_better_def)
  with m o show ?thesis by (simp add: M5_module_def state_dict_def)
qed

subsection \<open>The order of the floats\<close>

lemma flt_NaN [simp]: "\<not> flt NaN a" "\<not> flt a NaN"
  by (cases a; simp)+

lemma flt_irrefl [simp]: "\<not> flt a a"
  by (cases a) simp_all

lemma flt_trans: "flt a b \<Longrightarrow> flt b c \<Longrightarrow> flt a c"
  by (cases a; cases b; cases c) simp_all

lemma flt_asym: "flt a b \<Longrightarrow> \<not> flt b a"
  by (cases a; cases b) simp_all

lemma flt_total: "a \<noteq> NaN \<Longrightarrow> b \<noteq> NaN \<Longrightarrow> flt a b \<or> a = b \<or> flt b a"
  by (cases a; cases b) auto

lemma not_flt_fle: "\<not> flt a b \<Longrightarrow> a \<noteq> NaN \<Longrightarrow> b \<noteq> NaN \<Longrightarrow> fle b a"
  using flt_total[of a b] by (auto simp: fle_def)

lemma flt_fle_trans: "flt a b \<Longrightarrow> fle b c \<Longrightarrow> flt a c"
  by (auto simp: fle_def intro: flt_trans)

lemma fle_flt_trans: "fle a b \<Longrightarrow> flt b c \<Longrightarrow> flt a c"
  by (auto simp: fle_def intro: flt_trans)

lemma fle_trans: "fle a b \<Longrightarrow> fle b c \<Longrightarrow> fle a c"
  by (auto simp: fle_def intro: flt_trans)

lemma fle_not_flt: "fle a b \<Longrightarrow> \<not> flt b a"
  by (auto simp: fle_def dest: flt_asym)

text \<open>
  \<^verbatim>\<open>least_loss\<close> is below 10000 or equal to it, is 10000 or one of the losses, is never
  NaN, and no loss is below it; a loss is below it exactly when it is below 10000 and
  below every loss that is a number.
\<close>

lemma least_loss_snoc:
  "least_loss (ls @ [l]) = (if flt l (least_loss ls) then l else least_loss ls)"
  by (simp add: least_loss_def)

lemma least_loss_number: "least_loss ls \<noteq> NaN"
proof (induction ls rule: rev_induct)
  case Nil
  show ?case by (simp add: least_loss_def)
next
  case (snoc l ls)
  then show ?case by (auto simp: least_loss_snoc)
qed

lemma below_least_loss:
  "flt l (least_loss ls) \<longleftrightarrow> flt l (Fin 10000) \<and> (\<forall>x\<in>set ls. x = NaN \<or> flt l x)"
proof (induction ls rule: rev_induct)
  case Nil
  show ?case by (simp add: least_loss_def)
next
  case (snoc x ls)
  define B where "B = least_loss ls"
  have B: "B \<noteq> NaN" by (simp add: B_def least_loss_number)
  have step: "flt l (if flt x B then x else B) \<longleftrightarrow> flt l B \<and> (x = NaN \<or> flt l x)"
  proof (cases "flt x B")
    case True
    then show ?thesis by (auto intro: flt_trans)
  next
    case False
    have "flt l x" if "flt l B" "x \<noteq> NaN"
      using not_flt_fle[OF False that(2) B] that(1) by (rule_tac flt_fle_trans)
    with False show ?thesis by auto
  qed
  with snoc show ?case by (auto simp: least_loss_snoc B_def)
qed

lemma least_loss_least:
  "\<not> flt (Fin 10000) (least_loss ls) \<and> (\<forall>x\<in>set ls. \<not> flt x (least_loss ls)) \<and>
   (least_loss ls = Fin 10000 \<or> least_loss ls \<in> set ls)"
proof (induction ls rule: rev_induct)
  case Nil
  show ?case by (simp add: least_loss_def)
next
  case (snoc l ls)
  show ?case
  proof (cases "flt l (least_loss ls)")
    case True
    have "\<not> flt (Fin 10000) l"
      using True snoc by (metis flt_trans)
    moreover have "\<forall>x\<in>set ls. \<not> flt x l"
      using True snoc by (metis flt_trans)
    ultimately show ?thesis using True by (simp add: least_loss_snoc)
  next
    case False
    with snoc show ?thesis by (auto simp: least_loss_snoc)
  qed
qed

subsection \<open>The training loop, epoch by epoch\<close>

lemma epochs_loop_append:
  "epochs_loop G li (xs @ ys) = bnd (epochs_loop G li xs) (\<lambda>_. epochs_loop G li ys)"
  by (induction xs) (simp_all add: bnd_assoc)

lemma bnd_ret_unit: "bnd p (\<lambda>_. ret ()) = (p :: ('s, unit) prog)"
  by (rule ext) (auto simp: bnd_def ret_def split: prod.splits sum.splits)

lemma training_loop_Suc:
  "training_loop G (Suc e) = bnd (training_loop G e) (\<lambda>_. epoch_body G 20 (Suc e))"
proof -
  have "[1..<Suc (Suc e)] = [1..<Suc e] @ [Suc e]" by simp
  moreover have "epochs_loop G 20 [Suc e] = epoch_body G 20 (Suc e)"
    by (simp only: epochs_loop.simps bnd_ret_unit)
  ultimately have "epochs_loop G 20 [1..<Suc (Suc e)]
      = bnd (epochs_loop G 20 [1..<Suc e]) (\<lambda>_. epoch_body G 20 (Suc e))"
    by (simp only: epochs_loop_append)
  then show ?thesis
    by (simp add: training_loop_def Let_def bnd_assoc del: upt_Suc)
qed

lemma training_loop_0:
  "training_loop G 0 w0 = (Inr (), w) \<Longrightarrow>
     val_losses w = [] \<and> best_loss w = Fin 10000 \<and> saved w = saved w0"
  by (auto simp: training_loop_def Let_def bnd_def modify_def ret_def throw_def split: if_splits)

text \<open>
  An epoch whose calls of \<^verbatim>\<open>train\<close> and \<^verbatim>\<open>val\<close> return has recorded one validation
  loss and left \<^verbatim>\<open>best_loss\<close> and the file alone; the comparison that follows always
  returns.
\<close>

lemma train_val_books:
  assumes "bnd (train G epoch li TrainLosses) (\<lambda>_. val G epoch ValLosses) w = (Inr c, w2)"
  shows "\<exists>l. val_losses w2 = val_losses w @ [l] \<and> best_loss w2 = best_loss w \<and>
           saved w2 = saved w"
proof -
  from assms obtain u1 w1 where
    t: "train G epoch li TrainLosses w = (Inr u1, w1)" and
    v: "val G epoch ValLosses w1 = (Inr c, w2)"
    by (auto simp: bnd_Inr)
  have "preserves (\<lambda>w'. val_losses w' = val_losses w \<and> best_loss w' = best_loss w \<and>
      saved w' = saved w) (train G epoch li TrainLosses)"
    by (rule train_books)
  from preservesD[OF this, of w] t
  have k1: "val_losses w1 = val_losses w" "best_loss w1 = best_loss w" "saved w1 = saved w"
    by simp_all
  from val_appends[OF v] k1 show ?thesis by auto
qed

lemma epoch_body_after:
  assumes tv: "bnd (train G epoch li TrainLosses) (\<lambda>_. val G epoch ValLosses) w = (Inr c, w2)"
    and l: "val_losses w2 = val_losses w @ [l]"
  shows "epoch_body G li epoch w =
     (Inr (), if flt l (best_loss w)
              then w2\<lparr>best_loss := l, saved := m_state_dict (nn_module G) (model w2) # saved w\<rparr>
              else w2)"
proof -
  from train_val_books[OF tv] l have k: "best_loss w2 = best_loss w" "saved w2 = saved w"
    by simp_all
  have "epoch_body G li epoch w =
      bnd (bnd (train G epoch li TrainLosses) (\<lambda>_. val G epoch ValLosses)) (\<lambda>_. save_if_better G) w"
    by (simp add: epoch_body_def bnd_assoc)
  also have "\<dots> = save_if_better G w2"
    using tv by (simp add: bnd_def)
  also have "\<dots> = (Inr (), if flt l (best_loss w)
              then w2\<lparr>best_loss := l, saved := m_state_dict (nn_module G) (model w2) # saved w\<rparr>
              else w2)"
    using l k by (simp add: save_if_better_def)
  finally show ?thesis .
qed

lemma epoch_body_Inr:
  assumes "epoch_body G li epoch w = (Inr (), w')"
  shows "\<exists>c w2. bnd (train G epoch li TrainLosses) (\<lambda>_. val G epoch ValLosses) w = (Inr c, w2)"
  using assms by (auto simp: epoch_body_def bnd_Inr)

lemma training_loop_step:
  assumes "training_loop G (Suc e) w0 = (Inr (), w')"
  shows "\<exists>w c w2 l. training_loop G e w0 = (Inr (), w) \<and>
           bnd (train G (Suc e) 20 TrainLosses) (\<lambda>_. val G (Suc e) ValLosses) w = (Inr c, w2) \<and>
           val_losses w2 = val_losses w @ [l] \<and>
           w' = (if flt l (best_loss w)
                 then w2\<lparr>best_loss := l,
                        saved := m_state_dict (nn_module G) (model w2) # saved w\<rparr>
                 else w2)"
proof -
  from assms obtain w where r: "training_loop G e w0 = (Inr (), w)"
    and b: "epoch_body G 20 (Suc e) w = (Inr (), w')"
    by (auto simp: training_loop_Suc bnd_Inr)
  from epoch_body_Inr[OF b] obtain c w2 where
    tv: "bnd (train G (Suc e) 20 TrainLosses) (\<lambda>_. val G (Suc e) ValLosses) w = (Inr c, w2)"
    by blast
  from train_val_books[OF tv] obtain l where l: "val_losses w2 = val_losses w @ [l]" by blast
  from epoch_body_after[OF tv l] b r tv l show ?thesis by auto
qed

lemma training_loop_completes:
  assumes r: "training_loop G e w0 = (Inr (), w)"
    and tv: "bnd (train G (Suc e) 20 TrainLosses) (\<lambda>_. val G (Suc e) ValLosses) w = (Inr c, w2)"
    and l: "val_losses w2 = val_losses w @ [l]"
  shows "training_loop G (Suc e) w0 =
     (Inr (), if flt l (best_loss w)
              then w2\<lparr>best_loss := l, saved := m_state_dict (nn_module G) (model w2) # saved w\<rparr>
              else w2)"
  using r epoch_body_after[OF tv l] by (simp add: training_loop_Suc bnd_def)

lemma training_loop_best:
  "training_loop G e w0 = (Inr (), w) \<Longrightarrow>
     length (val_losses w) = e \<and> best_loss w = least_loss (val_losses w)"
proof (induction e arbitrary: w)
  case 0
  from training_loop_0[OF 0] show ?case by (simp add: least_loss_def)
next
  case (Suc e)
  from training_loop_step[OF Suc.prems] obtain v c w2 l where
    r: "training_loop G e w0 = (Inr (), v)" and vl: "val_losses w2 = val_losses v @ [l]" and
    w: "w = (if flt l (best_loss v)
             then w2\<lparr>best_loss := l, saved := m_state_dict (nn_module G) (model w2) # saved v\<rparr>
             else w2)"
    and tv: "bnd (train G (Suc e) 20 TrainLosses) (\<lambda>_. val G (Suc e) ValLosses) v = (Inr c, w2)"
    by blast
  from train_val_books[OF tv] have b2: "best_loss w2 = best_loss v" by auto
  from Suc.IH[OF r] have ih: "length (val_losses v) = e"
    "best_loss v = least_loss (val_losses v)" by simp_all
  from w vl ih b2 show ?case by (simp add: least_loss_snoc)
qed

text \<open>
  What the file holds after \<open>e\<close> epochs: what it held before the loop, as long as no
  loss was below 10000; afterwards the state dictionary of the model at the end of the
  first epoch that recorded the least number so far.
\<close>

lemma saved_content:
  "training_loop G e w0 = (Inr (), w) \<Longrightarrow>
     (\<forall>x\<in>set (val_losses w). \<not> flt x (Fin 10000)) \<and> saved w = saved w0 \<or>
     (\<exists>j<e. \<exists>wj. training_loop G (Suc j) w0 = (Inr (), wj) \<and> saved w \<noteq> [] \<and>
        hd (saved w) = m_state_dict (nn_module G) (model wj) \<and>
        flt (val_losses w ! j) (Fin 10000) \<and>
        (\<forall>i<e. val_losses w ! i = NaN \<or> fle (val_losses w ! j) (val_losses w ! i)) \<and>
        (\<forall>i<j. val_losses w ! i = NaN \<or> flt (val_losses w ! j) (val_losses w ! i)))"
proof (induction e arbitrary: w)
  case 0
  from training_loop_0[OF 0] show ?case by simp
next
  case (Suc e)
  from training_loop_step[OF Suc.prems] obtain v c w2 l where
    r: "training_loop G e w0 = (Inr (), v)" and vl2: "val_losses w2 = val_losses v @ [l]" and
    w: "w = (if flt l (best_loss v)
             then w2\<lparr>best_loss := l, saved := m_state_dict (nn_module G) (model w2) # saved v\<rparr>
             else w2)"
    and tv: "bnd (train G (Suc e) 20 TrainLosses) (\<lambda>_. val G (Suc e) ValLosses) v = (Inr c, w2)"
    by blast
  from train_val_books[OF tv] have s2: "saved w2 = saved v" by auto
  from training_loop_best[OF r] have len: "length (val_losses v) = e"
    and best: "best_loss v = least_loss (val_losses v)" by simp_all
  have vl: "val_losses w = val_losses v @ [l]" using w vl2 by simp
  have nth_e: "val_losses w ! e = l" using len by (simp add: vl nth_append)
  have nth_lt: "val_losses w ! i = val_losses v ! i" if "i < e" for i
    using that len by (simp add: vl nth_append)
  show ?case
  proof (cases "flt l (best_loss v)")
    case True
    then have l: "flt l (Fin 10000)" "\<forall>x\<in>set (val_losses v). x = NaN \<or> flt l x"
      by (simp_all add: best below_least_loss)
    from l(1) have ln: "l \<noteq> NaN" by auto
    have sv: "saved w \<noteq> []" "hd (saved w) = m_state_dict (nn_module G) (model w)"
      using True w by simp_all
    have all: "\<forall>i<Suc e. val_losses w ! i = NaN \<or> fle (val_losses w ! e) (val_losses w ! i)"
    proof (intro allI impI)
      fix i assume "i < Suc e"
      then consider "i = e" | "i < e" by linarith
      then show "val_losses w ! i = NaN \<or> fle (val_losses w ! e) (val_losses w ! i)"
      proof cases
        case 1
        with nth_e ln show ?thesis by (simp add: fle_def)
      next
        case 2
        then have "val_losses v ! i \<in> set (val_losses v)" using len by simp
        with l(2) 2 show ?thesis by (auto simp: nth_e nth_lt fle_def)
      qed
    qed
    have first: "\<forall>i<e. val_losses w ! i = NaN \<or> flt (val_losses w ! e) (val_losses w ! i)"
    proof (intro allI impI)
      fix i assume i: "i < e"
      then have "val_losses v ! i \<in> set (val_losses v)" using len by simp
      with l(2) i show "val_losses w ! i = NaN \<or> flt (val_losses w ! e) (val_losses w ! i)"
        by (auto simp: nth_e nth_lt)
    qed
    have "\<exists>j<Suc e. \<exists>wj. training_loop G (Suc j) w0 = (Inr (), wj) \<and> saved w \<noteq> [] \<and>
        hd (saved w) = m_state_dict (nn_module G) (model wj) \<and>
        flt (val_losses w ! j) (Fin 10000) \<and>
        (\<forall>i<Suc e. val_losses w ! i = NaN \<or> fle (val_losses w ! j) (val_losses w ! i)) \<and>
        (\<forall>i<j. val_losses w ! i = NaN \<or> flt (val_losses w ! j) (val_losses w ! i))"
      using Suc.prems sv l(1) all first nth_e by (intro exI[of _ e] exI[of _ w]) simp
    then show ?thesis by blast
  next
    case False
    then have same: "saved w = saved v" using w s2 by simp
    from False have nb: "\<not> (flt l (Fin 10000) \<and> (\<forall>x\<in>set (val_losses v). x = NaN \<or> flt l x))"
      by (simp add: best below_least_loss)
    from Suc.IH[OF r] show ?thesis
    proof (elim disjE conjE exE)
      assume all: "\<forall>x\<in>set (val_losses v). \<not> flt x (Fin 10000)" and s0: "saved v = saved w0"
      have "\<not> flt l (Fin 10000)"
      proof
        assume b: "flt l (Fin 10000)"
        have "x = NaN \<or> flt l x" if "x \<in> set (val_losses v)" for x
        proof (cases "x = NaN")
          case True
          then show ?thesis by simp
        next
          case False
          from all that have "\<not> flt x (Fin 10000)" by blast
          from not_flt_fle[OF this False] have "fle (Fin 10000) x" by simp
          with b have "flt l x" by (rule flt_fle_trans)
          then show ?thesis by simp
        qed
        with b nb show False by blast
      qed
      with all have "\<forall>x\<in>set (val_losses w). \<not> flt x (Fin 10000)" by (auto simp: vl)
      with same s0 show ?thesis by simp
    next
      fix j wj
      assume j: "j < e" and rj: "training_loop G (Suc j) w0 = (Inr (), wj)"
        and ne: "saved v \<noteq> []" and h: "hd (saved v) = m_state_dict (nn_module G) (model wj)"
        and lt: "flt (val_losses v ! j) (Fin 10000)"
        and mn: "\<forall>i<e. val_losses v ! i = NaN \<or> fle (val_losses v ! j) (val_losses v ! i)"
        and first: "\<forall>i<j. val_losses v ! i = NaN \<or> flt (val_losses v ! j) (val_losses v ! i)"
      define b where "b = val_losses v ! j"
      from lt have bn: "b \<noteq> NaN" by (auto simp: b_def)
      have below: "flt b x \<or> b = x \<or> x = NaN" if "x \<in> set (val_losses v)" for x
      proof -
        from that obtain i where "i < e" "x = val_losses v ! i"
          using len by (auto simp: in_set_conv_nth)
        with mn show ?thesis by (auto simp: b_def fle_def)
      qed
      have lb: "l = NaN \<or> fle b l"
      proof (cases "l = NaN")
        case True
        then show ?thesis by simp
      next
        case ln: False
        have "\<not> flt l b"
        proof
          assume lb: "flt l b"
          from flt_trans[OF lb lt[folded b_def]] have "flt l (Fin 10000)" .
          moreover have "x = NaN \<or> flt l x" if "x \<in> set (val_losses v)" for x
            using below[OF that] lb by (auto intro: flt_trans)
          ultimately show False using nb by blast
        qed
        from not_flt_fle[OF this ln bn] show ?thesis by simp
      qed
      have nj: "val_losses w ! j = b" using j by (simp add: nth_lt b_def)
      have all': "\<forall>i<Suc e. val_losses w ! i = NaN \<or> fle (val_losses w ! j) (val_losses w ! i)"
      proof (intro allI impI)
        fix i assume "i < Suc e"
        then consider "i = e" | "i < e" by linarith
        then show "val_losses w ! i = NaN \<or> fle (val_losses w ! j) (val_losses w ! i)"
        proof cases
          case 1
          with lb show ?thesis by (simp add: nj nth_e)
        next
          case 2
          with mn show ?thesis by (simp add: nj nth_lt b_def)
        qed
      qed
      have first': "\<forall>i<j. val_losses w ! i = NaN \<or> flt (val_losses w ! j) (val_losses w ! i)"
        using first j by (simp add: nj nth_lt b_def)
      have "\<exists>j<Suc e. \<exists>wj. training_loop G (Suc j) w0 = (Inr (), wj) \<and> saved w \<noteq> [] \<and>
        hd (saved w) = m_state_dict (nn_module G) (model wj) \<and>
        flt (val_losses w ! j) (Fin 10000) \<and>
        (\<forall>i<Suc e. val_losses w ! i = NaN \<or> fle (val_losses w ! j) (val_losses w ! i)) \<and>
        (\<forall>i<j. val_losses w ! i = NaN \<or> flt (val_losses w ! j) (val_losses w ! i))"
        using rj ne h lt j same nj all' first' by (intro exI[of _ j] exI[of _ wj]) (simp add: b_def)
      then show ?thesis by blast
    qed
  qed
qed

subsection \<open>Runs of the small instance\<close>

lemma fadd_zero: "fadd Fin (Fin 0) v = v"
  by (cases v) simp_all

lemma fdiv_nat_one: "fdiv_nat Fin v (Suc 0) = v"
  by (cases v) simp_all

lemma demo_label: "to_long K (Fin (real_of_int (float32_of_int 0))) = 0"
  by (simp add: float32_of_int_exact to_long_def)

lemmas demo_defs =
  train_def val_def start_iter_def loader_iter_def loader_len_def subset_len_def
  demo_globals_def bnd_def modify_def ret_def throw_def lift_def call_model_def
  optimizer_step_def loader_fetch_def subset_getitem_def get_likely_index_def
  tensor_argmax_def steps_of_def number_of_correct_def count_where_def Let_def
  collate_fn_def pad_sequence_def rnn_pad_sequence_def np_stack_def tensor_t_def
  permute_0_2_1_def demo_clip_def zero_wave_def torch_Tensor_def

text \<open>
  An epoch of the instance with one training batch: one optimiser step, three draws
  from the generator, one clip counted as correct, and the two losses recorded.
\<close>

lemma demo_train_val:
  "bnd (train (demo_globals cs 1) e 20 TrainLosses) (\<lambda>_. val (demo_globals cs 1) e ValLosses) w =
     (Inr 1, w\<lparr>model := Suc (model w), torch_rng := Suc (Suc (Suc (torch_rng w))),
               train_losses := train_losses w @ [cs (model w)],
               val_losses := val_losses w @ [cs (Suc (model w))]\<rparr>)"
  by (simp add: demo_defs fadd_zero fdiv_nat_one demo_label)

lemma demo_start:
  "training_loop (demo_globals cs 1) 0 demo_world = (Inr (), demo_world\<lparr>best_loss := Fin 10000\<rparr>)"
  by (simp add: training_loop_def loader_len_def subset_len_def demo_globals_def bnd_def
      modify_def ret_def demo_world_def)

lemma demo_epoch:
  assumes "training_loop (demo_globals cs 1) e demo_world = (Inr (), w)"
  shows "training_loop (demo_globals cs 1) (Suc e) demo_world =
     (Inr (), if flt (cs (Suc (model w))) (best_loss w)
              then w\<lparr>model := Suc (model w), torch_rng := Suc (Suc (Suc (torch_rng w))),
                     train_losses := train_losses w @ [cs (model w)],
                     val_losses := val_losses w @ [cs (Suc (model w))],
                     best_loss := cs (Suc (model w)), saved := Suc (model w) # saved w\<rparr>
              else w\<lparr>model := Suc (model w), torch_rng := Suc (Suc (Suc (torch_rng w))),
                     train_losses := train_losses w @ [cs (model w)],
                     val_losses := val_losses w @ [cs (Suc (model w))]\<rparr>)"
  using training_loop_completes[OF assms demo_train_val, of "cs (Suc (model w))"]
  by (simp add: demo_globals_def)

text \<open>
  The instance whose validation losses are 5, 7, NaN and 3: the first and the fourth
  epoch write a checkpoint.
\<close>

lemma demo_run_1:
  "training_loop (demo_globals demo_losses 1) 1 demo_world =
     (Inr (), \<lparr>model = 1, optimizer = (), torch_rng = 3, train_losses = [Fin 9],
               val_losses = [Fin 5], best_loss = Fin 5, saved = [1]\<rparr>)"
  using demo_epoch[OF demo_start, of demo_losses]
  by (simp add: demo_world_def demo_losses_def)

lemma demo_run_2:
  "training_loop (demo_globals demo_losses 1) 2 demo_world =
     (Inr (), \<lparr>model = 2, optimizer = (), torch_rng = 6, train_losses = [Fin 9, Fin 5],
               val_losses = [Fin 5, Fin 7], best_loss = Fin 5, saved = [1]\<rparr>)"
  using demo_epoch[OF demo_run_1]
  by (simp add: demo_losses_def numeral_2_eq_2)

lemma demo_run_3:
  "training_loop (demo_globals demo_losses 1) 3 demo_world =
     (Inr (), \<lparr>model = 3, optimizer = (), torch_rng = 9,
               train_losses = [Fin 9, Fin 5, Fin 7], val_losses = [Fin 5, Fin 7, NaN],
               best_loss = Fin 5, saved = [1]\<rparr>)"
  using demo_epoch[OF demo_run_2]
  by (simp add: demo_losses_def numeral_3_eq_3)

lemma demo_run_nan:
  "training_loop (demo_globals (\<lambda>i. [Fin 9, NaN, c] ! i) 1) 2 demo_world =
     (Inr (), if flt c (Fin 10000)
              then \<lparr>model = 2, optimizer = (), torch_rng = 6, train_losses = [Fin 9, NaN],
                    val_losses = [NaN, c], best_loss = c, saved = [2]\<rparr>
              else \<lparr>model = 2, optimizer = (), torch_rng = 6, train_losses = [Fin 9, NaN],
                    val_losses = [NaN, c], best_loss = Fin 10000, saved = []\<rparr>)"
proof -
  have "training_loop (demo_globals (\<lambda>i. [Fin 9, NaN, c] ! i) 1) 1 demo_world =
     (Inr (), \<lparr>model = 1, optimizer = (), torch_rng = 3, train_losses = [Fin 9],
               val_losses = [NaN], best_loss = Fin 10000, saved = []\<rparr>)"
    using demo_epoch[OF demo_start, of "\<lambda>i. [Fin 9, NaN, c] ! i"]
    by (simp add: demo_world_def)
  from demo_epoch[OF this] show ?thesis
    by (simp add: numeral_2_eq_2)
qed

text \<open>
  The instance with two training batches and one validation batch, all of loss 15000:
  the number recorded for the validation is 7500.
\<close>

lemma demo_run_two_batches:
  "training_loop (demo_globals (\<lambda>i. Fin 15000) 2) 1 demo_world =
     (Inr (), \<lparr>model = 2, optimizer = (), torch_rng = 3, train_losses = [Fin 15000],
               val_losses = [Fin 7500], best_loss = Fin 7500, saved = [2]\<rparr>)"
proof -
  have "[0..<2] = [0, Suc 0]" "replicate 2 (0::nat) = [0, 0]"
    by (simp_all add: upt_rec numeral_2_eq_2)
  then show ?thesis
    by (simp add: training_loop_def epoch_body_def save_if_better_def demo_defs fadd_zero
        demo_label demo_world_def)
qed

text \<open>
  C1 (amended).  Let the loop have completed \<open>e\<close> epochs and let \<^verbatim>\<open>train\<close> and \<^verbatim>\<open>val\<close>
  return in epoch \<open>e + 1\<close>, \<^verbatim>\<open>val\<close> recording the number \<open>l\<close>.  Then the epoch completes,
  and it writes a checkpoint if and only if \<open>l\<close> is below 10000 and strictly below the
  number recorded by every earlier epoch that recorded a number and not NaN; the
  checkpoint written is the state dictionary of the model at the end of the epoch.  So
  either no epoch so far has recorded a number below 10000 and the file is as it was
  before the loop, or the file holds the parameters of the first epoch that recorded
  the lowest number so far.  (What \<^verbatim>\<open>val\<close> records as the loss of an epoch is examined
  with \<^verbatim>\<open>val\<close> itself.)
\<close>

theorem best_checkpoint:
  assumes "training_loop G e w0 = (Inr (), w)"
    and "bnd (train G (Suc e) 20 TrainLosses) (\<lambda>_. val G (Suc e) ValLosses) w = (Inr c, w2)"
  shows "\<exists>l w'. training_loop G (Suc e) w0 = (Inr (), w') \<and>
     val_losses w2 = val_losses w @ [l] \<and> val_losses w' = val_losses w @ [l] \<and>
     model w' = model w2 \<and>
     ((length (saved w') = Suc (length (saved w))) =
        (flt l (Fin 10000) \<and> (\<forall>x\<in>set (val_losses w). x = NaN \<or> flt l x))) \<and>
     saved w' = (if flt l (Fin 10000) \<and> (\<forall>x\<in>set (val_losses w). x = NaN \<or> flt l x)
                 then m_state_dict (nn_module G) (model w') # saved w else saved w) \<and>
     ((\<forall>x\<in>set (val_losses w'). \<not> flt x (Fin 10000)) \<and> saved w' = saved w0 \<or>
      (\<exists>j<Suc e. \<exists>wj. training_loop G (Suc j) w0 = (Inr (), wj) \<and> saved w' \<noteq> [] \<and>
         hd (saved w') = m_state_dict (nn_module G) (model wj) \<and>
         flt (val_losses w' ! j) (Fin 10000) \<and>
         (\<forall>i<Suc e. val_losses w' ! i = NaN \<or> fle (val_losses w' ! j) (val_losses w' ! i)) \<and>
         (\<forall>i<j. val_losses w' ! i = NaN \<or> flt (val_losses w' ! j) (val_losses w' ! i))))"
proof -
  from train_val_books[OF assms(2)] obtain l where
    l: "val_losses w2 = val_losses w @ [l]" and s2: "saved w2 = saved w" by blast
  define cond where "cond \<longleftrightarrow> flt l (Fin 10000) \<and> (\<forall>x\<in>set (val_losses w). x = NaN \<or> flt l x)"
  define w' where "w' = (if cond
      then w2\<lparr>best_loss := l, saved := m_state_dict (nn_module G) (model w2) # saved w\<rparr>
      else w2)"
  from training_loop_best[OF assms(1)]
  have c: "flt l (best_loss w) = cond"
    by (simp add: below_least_loss cond_def)
  from training_loop_completes[OF assms l]
  have run: "training_loop G (Suc e) w0 = (Inr (), w')"
    by (simp add: c w'_def)
  have vl: "val_losses w' = val_losses w @ [l]" and m: "model w' = model w2"
    by (simp_all add: w'_def l)
  have sv: "saved w' = (if cond then m_state_dict (nn_module G) (model w') # saved w
                        else saved w)"
    by (simp add: w'_def s2)
  then have len: "(length (saved w') = Suc (length (saved w))) = cond"
    by (simp split: if_splits)
  from run l vl m len sv saved_content[OF run] show ?thesis
    unfolding cond_def by blast
qed

text \<open>
  The third epoch of the small instance records NaN after 5 and 7: it writes nothing,
  and the file still holds the model of the end of the first epoch.  The fourth epoch
  records 3 and writes the model of its end.
\<close>

theorem best_checkpoint_witness:
  "training_loop (demo_globals demo_losses 1) 2 demo_world =
     (Inr (), \<lparr>model = 2, optimizer = (), torch_rng = 6, train_losses = [Fin 9, Fin 5],
               val_losses = [Fin 5, Fin 7], best_loss = Fin 5, saved = [1]\<rparr>) \<and>
   (\<exists>w2. bnd (train (demo_globals demo_losses 1) 3 20 TrainLosses)
            (\<lambda>_. val (demo_globals demo_losses 1) 3 ValLosses)
            \<lparr>model = 2, optimizer = (), torch_rng = 6, train_losses = [Fin 9, Fin 5],
             val_losses = [Fin 5, Fin 7], best_loss = Fin 5, saved = [1]\<rparr> = (Inr 1, w2) \<and>
      val_losses w2 = [Fin 5, Fin 7, NaN]) \<and>
   (\<exists>w'. training_loop (demo_globals demo_losses 1) 3 demo_world = (Inr (), w') \<and>
      val_losses w' = [Fin 5, Fin 7, NaN] \<and> saved w' = [1] \<and>
      (\<exists>wj. training_loop (demo_globals demo_losses 1) 1 demo_world = (Inr (), wj) \<and>
         hd (saved w') = model wj)) \<and>
   (\<exists>w'. training_loop (demo_globals demo_losses 1) 4 demo_world = (Inr (), w') \<and>
      val_losses w' = [Fin 5, Fin 7, NaN, Fin 3] \<and> model w' = 4 \<and> saved w' = [4, 1])"
proof -
  let ?G = "demo_globals demo_losses 1"
  let ?w = "\<lparr>model = 2, optimizer = (), torch_rng = 6, train_losses = [Fin 9, Fin 5],
             val_losses = [Fin 5, Fin 7], best_loss = Fin 5, saved = [1]\<rparr>
            :: (nat, nat, unit, nat) world"
  let ?w2 = "?w\<lparr>model := Suc (model ?w), torch_rng := Suc (Suc (Suc (torch_rng ?w))),
               train_losses := train_losses ?w @ [demo_losses (model ?w)],
               val_losses := val_losses ?w @ [demo_losses (Suc (model ?w))]\<rparr>"
  have tv: "bnd (train ?G (Suc 2) 20 TrainLosses) (\<lambda>_. val ?G (Suc 2) ValLosses) ?w = (Inr 1, ?w2)"
    by (rule demo_train_val)
  have v2: "val_losses ?w2 = [Fin 5, Fin 7, NaN]" by (simp add: demo_losses_def numeral_2_eq_2)
  from best_checkpoint[OF demo_run_2 tv] obtain l w' where
    run: "training_loop ?G (Suc 2) demo_world = (Inr (), w')" and
    l: "val_losses ?w2 = val_losses ?w @ [l]" "val_losses w' = val_losses ?w @ [l]" and
    sv: "saved w' = (if flt l (Fin 10000) \<and> (\<forall>x\<in>set (val_losses ?w). x = NaN \<or> flt l x)
                 then m_state_dict (nn_module ?G) (model w') # saved ?w else saved ?w)"
    by blast
  from l(1) v2 have "l = NaN" by simp
  with l(2) sv have k: "val_losses w' = [Fin 5, Fin 7, NaN]" "saved w' = [1]" by simp_all
  have "\<exists>wj. training_loop ?G 1 demo_world = (Inr (), wj) \<and> hd (saved w') = model wj"
    using demo_run_1 k(2) by simp
  with run k have "\<exists>w'. training_loop ?G 3 demo_world = (Inr (), w') \<and>
      val_losses w' = [Fin 5, Fin 7, NaN] \<and> saved w' = [1] \<and>
      (\<exists>wj. training_loop ?G 1 demo_world = (Inr (), wj) \<and> hd (saved w') = model wj)"
    by (auto simp: numeral_3_eq_3 numeral_2_eq_2)
  moreover from tv v2 have "\<exists>w2. bnd (train ?G 3 20 TrainLosses) (\<lambda>_. val ?G 3 ValLosses) ?w
      = (Inr 1, w2) \<and> val_losses w2 = [Fin 5, Fin 7, NaN]"
    by (auto simp: numeral_3_eq_3 numeral_2_eq_2)
  moreover have "\<exists>w'. training_loop ?G 4 demo_world = (Inr (), w') \<and>
      val_losses w' = [Fin 5, Fin 7, NaN, Fin 3] \<and> model w' = 4 \<and> saved w' = [4, 1]"
  proof -
    let ?w3 = "\<lparr>model = 3, optimizer = (), torch_rng = 9,
                 train_losses = [Fin 9, Fin 5, Fin 7], val_losses = [Fin 5, Fin 7, NaN],
                 best_loss = Fin 5, saved = [1]\<rparr> :: (nat, nat, unit, nat) world"
    let ?w4 = "?w3\<lparr>model := Suc (model ?w3), torch_rng := Suc (Suc (Suc (torch_rng ?w3))),
                 train_losses := train_losses ?w3 @ [demo_losses (model ?w3)],
                 val_losses := val_losses ?w3 @ [demo_losses (Suc (model ?w3))]\<rparr>"
    have tv3: "bnd (train ?G (Suc 3) 20 TrainLosses) (\<lambda>_. val ?G (Suc 3) ValLosses) ?w3
        = (Inr 1, ?w4)"
      by (rule demo_train_val)
    from best_checkpoint[OF demo_run_3 tv3] obtain l4 w4 where
      run4: "training_loop ?G (Suc 3) demo_world = (Inr (), w4)" and
      l4: "val_losses ?w4 = val_losses ?w3 @ [l4]" "val_losses w4 = val_losses ?w3 @ [l4]" and
      m4: "model w4 = model ?w4" and
      sv4: "saved w4 = (if flt l4 (Fin 10000) \<and> (\<forall>x\<in>set (val_losses ?w3). x = NaN \<or> flt l4 x)
                 then m_state_dict (nn_module ?G) (model w4) # saved ?w3 else saved ?w3)"
      by blast
    from l4(1) have "l4 = Fin 3" by (simp add: demo_losses_def numeral_3_eq_3)
    with l4(2) sv4 m4 have "val_losses w4 = [Fin 5, Fin 7, NaN, Fin 3]" "model w4 = 4"
      "saved w4 = [4, 1]"
      by (simp_all add: demo_globals_def)
    with run4 show ?thesis by (auto simp: eval_nat_numeral)
  qed
  ultimately show ?thesis using demo_run_2 by blast
qed

text \<open>
  A first epoch that records 20000: the number is below that of every earlier epoch,
  there being none, and the epoch writes no checkpoint.  And an epoch that records 5
  after an epoch that recorded NaN: 5 is not below NaN, and the epoch writes a
  checkpoint.
\<close>

theorem best_checkpoint_counterexample:
  "training_loop (demo_globals (\<lambda>i. Fin 20000) 1) 1 demo_world =
     (Inr (), \<lparr>model = 1, optimizer = (), torch_rng = 3, train_losses = [Fin 20000],
               val_losses = [Fin 20000], best_loss = Fin 10000, saved = []\<rparr>) \<and>
   training_loop (demo_globals (\<lambda>i. [Fin 9, NaN, Fin 5] ! i) 1) 2 demo_world =
     (Inr (), \<lparr>model = 2, optimizer = (), torch_rng = 6, train_losses = [Fin 9, NaN],
               val_losses = [NaN, Fin 5], best_loss = Fin 5, saved = [2]\<rparr>) \<and>
   \<not> flt (Fin 5) NaN"
  using demo_epoch[OF demo_start, of "\<lambda>i. Fin 20000"] demo_run_nan[of "Fin 5"]
  by (simp add: demo_world_def)

text \<open>
  C10 (amended).  \<^verbatim>\<open>best_loss\<close> starts at 10000 and is, after every completed epoch,
  the least of 10000 and the numbers recorded so far, as the comparison of the loop
  finds it: it is never NaN, nothing recorded is below it, and a number is below it
  exactly when it is below 10000 and below every number recorded, the recorded NaN
  left aside.  When \<^verbatim>\<open>train\<close> and \<^verbatim>\<open>val\<close> return in epoch \<open>e + 1\<close>, the epoch completes,
  and it writes a checkpoint if and only if the number it recorded is strictly below
  that least; an epoch that records 10000 or more, or NaN, never writes one.  (What
  \<^verbatim>\<open>val\<close> records as the loss of an epoch is examined with \<^verbatim>\<open>val\<close> itself.)
\<close>

theorem checkpoint_threshold:
  assumes "training_loop G e w0 = (Inr (), w)"
    and "bnd (train G (Suc e) 20 TrainLosses) (\<lambda>_. val G (Suc e) ValLosses) w = (Inr c, w2)"
  shows "\<exists>l. val_losses w2 = val_losses w @ [l] \<and> length (val_losses w) = e \<and>
     saved w2 = saved w \<and> best_loss w = least_loss (val_losses w) \<and>
     least_loss (val_losses w) \<noteq> NaN \<and>
     \<not> flt (Fin 10000) (least_loss (val_losses w)) \<and>
     (\<forall>x\<in>set (val_losses w). \<not> flt x (least_loss (val_losses w))) \<and>
     (least_loss (val_losses w) = Fin 10000 \<or> least_loss (val_losses w) \<in> set (val_losses w)) \<and>
     (flt l (least_loss (val_losses w)) \<longleftrightarrow>
        flt l (Fin 10000) \<and> (\<forall>x\<in>set (val_losses w). x = NaN \<or> flt l x)) \<and>
     training_loop G (Suc e) w0 =
       (Inr (), if flt l (least_loss (val_losses w))
                then w2\<lparr>best_loss := l,
                       saved := m_state_dict (nn_module G) (model w2) # saved w\<rparr>
                else w2) \<and>
     (fle (Fin 10000) l \<or> l = NaN \<longrightarrow> saved (snd (training_loop G (Suc e) w0)) = saved w)"
proof -
  from train_val_books[OF assms(2)] obtain l where
    l: "val_losses w2 = val_losses w @ [l]" and s2: "saved w2 = saved w" by blast
  from training_loop_best[OF assms(1)] have b: "length (val_losses w) = e"
    "best_loss w = least_loss (val_losses w)" by simp_all
  from training_loop_completes[OF assms l] b(2)
  have run: "training_loop G (Suc e) w0 =
       (Inr (), if flt l (least_loss (val_losses w))
                then w2\<lparr>best_loss := l,
                       saved := m_state_dict (nn_module G) (model w2) # saved w\<rparr>
                else w2)"
    by simp
  have "\<not> flt l (least_loss (val_losses w))" if "fle (Fin 10000) l \<or> l = NaN"
    using that by (auto simp: below_least_loss dest: fle_not_flt)
  with run s2 have "fle (Fin 10000) l \<or> l = NaN \<longrightarrow>
      saved (snd (training_loop G (Suc e) w0)) = saved w"
    by simp
  with l b s2 run least_loss_number[of "val_losses w"] least_loss_least[of "val_losses w"]
    below_least_loss[of l "val_losses w"]
  show ?thesis by blast
qed

text \<open>
  The fourth epoch of the small instance records 3 after 5, 7 and NaN: it writes the
  second checkpoint.  The second epoch, recording 7 after 5, wrote none.
\<close>

theorem checkpoint_threshold_witness:
  "training_loop (demo_globals demo_losses 1) 3 demo_world =
     (Inr (), \<lparr>model = 3, optimizer = (), torch_rng = 9,
               train_losses = [Fin 9, Fin 5, Fin 7], val_losses = [Fin 5, Fin 7, NaN],
               best_loss = Fin 5, saved = [1]\<rparr>) \<and>
   training_loop (demo_globals demo_losses 1) 4 demo_world =
     (Inr (), \<lparr>model = 4, optimizer = (), torch_rng = 12,
               train_losses = [Fin 9, Fin 5, Fin 7, NaN],
               val_losses = [Fin 5, Fin 7, NaN, Fin 3], best_loss = Fin 3, saved = [4, 1]\<rparr>) \<and>
   training_loop (demo_globals demo_losses 1) 1 demo_world =
     (Inr (), \<lparr>model = 1, optimizer = (), torch_rng = 3, train_losses = [Fin 9],
               val_losses = [Fin 5], best_loss = Fin 5, saved = [1]\<rparr>) \<and>
   training_loop (demo_globals demo_losses 1) 2 demo_world =
     (Inr (), \<lparr>model = 2, optimizer = (), torch_rng = 6, train_losses = [Fin 9, Fin 5],
               val_losses = [Fin 5, Fin 7], best_loss = Fin 5, saved = [1]\<rparr>)"
proof -
  let ?G = "demo_globals demo_losses 1"
  let ?w3 = "\<lparr>model = 3, optimizer = (), torch_rng = 9,
               train_losses = [Fin 9, Fin 5, Fin 7], val_losses = [Fin 5, Fin 7, NaN],
               best_loss = Fin 5, saved = [1]\<rparr> :: (nat, nat, unit, nat) world"
  let ?w1 = "\<lparr>model = 1, optimizer = (), torch_rng = 3, train_losses = [Fin 9],
               val_losses = [Fin 5], best_loss = Fin 5, saved = [1]\<rparr>
             :: (nat, nat, unit, nat) world"
  have least3: "least_loss [Fin 5, Fin 7, NaN] = Fin 5" and least1: "least_loss [Fin 5] = Fin 5"
    by (simp_all add: least_loss_def)
  from checkpoint_threshold[OF demo_run_3 demo_train_val]
  have "training_loop ?G (Suc 3) demo_world =
     (Inr (), \<lparr>model = 4, optimizer = (), torch_rng = 12,
               train_losses = [Fin 9, Fin 5, Fin 7, NaN],
               val_losses = [Fin 5, Fin 7, NaN, Fin 3], best_loss = Fin 3, saved = [4, 1]\<rparr>)"
    by (simp add: demo_losses_def demo_globals_def numeral_3_eq_3 least3)
  then have r4: "training_loop ?G 4 demo_world =
     (Inr (), \<lparr>model = 4, optimizer = (), torch_rng = 12,
               train_losses = [Fin 9, Fin 5, Fin 7, NaN],
               val_losses = [Fin 5, Fin 7, NaN, Fin 3], best_loss = Fin 3, saved = [4, 1]\<rparr>)"
    by (simp add: eval_nat_numeral)
  from checkpoint_threshold[OF demo_run_1 demo_train_val]
  have "training_loop ?G (Suc 1) demo_world =
     (Inr (), \<lparr>model = 2, optimizer = (), torch_rng = 6, train_losses = [Fin 9, Fin 5],
               val_losses = [Fin 5, Fin 7], best_loss = Fin 5, saved = [1]\<rparr>)"
    by (simp add: demo_losses_def demo_globals_def least1)
  then have r2: "training_loop ?G 2 demo_world =
     (Inr (), \<lparr>model = 2, optimizer = (), torch_rng = 6, train_losses = [Fin 9, Fin 5],
               val_losses = [Fin 5, Fin 7], best_loss = Fin 5, saved = [1]\<rparr>)"
    by (simp add: eval_nat_numeral)
  from demo_run_3 r4 demo_run_1 r2 show ?thesis by blast
qed

text \<open>
  An epoch that records 7 after an epoch that recorded NaN writes a checkpoint, and 7
  is not below NaN: it is not below every number recorded before.  And an epoch whose
  only validation batch has the loss 15000 writes a checkpoint when there are two
  training batches: the number compared with 10000 is the one recorded, 7500.
\<close>

theorem checkpoint_threshold_counterexample:
  "training_loop (demo_globals (\<lambda>i. [Fin 9, NaN, Fin 7] ! i) 1) 2 demo_world =
     (Inr (), \<lparr>model = 2, optimizer = (), torch_rng = 6, train_losses = [Fin 9, NaN],
               val_losses = [NaN, Fin 7], best_loss = Fin 7, saved = [2]\<rparr>) \<and>
   \<not> flt (Fin 7) NaN \<and> \<not> fle (Fin 7) NaN \<and>
   training_loop (demo_globals (\<lambda>i. Fin 15000) 2) 1 demo_world =
     (Inr (), \<lparr>model = 2, optimizer = (), torch_rng = 3, train_losses = [Fin 15000],
               val_losses = [Fin 7500], best_loss = Fin 7500, saved = [2]\<rparr>) \<and>
   loader_len (val_loader (demo_globals (\<lambda>i. Fin 15000) 2)) = 1 \<and>
   loader_len (train_loader (demo_globals (\<lambda>i. Fin 15000) 2)) = 2"
  using demo_run_nan[of "Fin 7"] demo_run_two_batches
  by (simp add: fle_def loader_len_def subset_len_def demo_globals_def)

subsection \<open>The validation loss that \<^verbatim>\<open>val\<close> records\<close>

lemma val_batches_sum:
  "val_batches G bs acc w = (Inr acc', w') \<Longrightarrow>
     \<exists>ls ks. length ls = length bs \<and> length ks = length bs \<and>
       fst acc' = foldl (fadd (py_round G)) (fst acc) ls \<and> snd acc' = snd acc + sum_list ks"
proof (induction bs arbitrary: acc w)
  case Nil
  then show ?case by (simp add: ret_def)
next
  case (Cons b bs)
  from Cons.prems obtain loss k w1 where
    "val_batches G bs (fadd (py_round G) (fst acc) loss, snd acc + k) w1 = (Inr acc', w')"
    by (auto simp: bnd_Inr split: prod.splits)
  from Cons.IH[OF this] obtain ls ks where
    "length ls = length bs" "length ks = length bs"
    "fst acc' = foldl (fadd (py_round G)) (fadd (py_round G) (fst acc) loss) ls"
    "snd acc' = snd acc + k + sum_list ks"
    by auto
  then have "length (loss # ls) = length (b # bs) \<and> length (k # ks) = length (b # bs) \<and>
       fst acc' = foldl (fadd (py_round G)) (fst acc) (loss # ls) \<and>
       snd acc' = snd acc + sum_list (k # ks)"
    by simp
  then show ?case by blast
qed

text \<open>
  What \<^verbatim>\<open>val\<close> appends is the sum of the losses of the validation batches divided by
  the number of batches of the training loader.
\<close>

lemma val_records:
  assumes "val G epoch ValLosses w = (Inr c, w')"
  shows "\<exists>ls. length ls = length (fst (loader_iter (torch_generator G) (val_loader G) (torch_rng w))) \<and>
           val_losses w' = val_losses w @
             [fdiv_nat (py_round G) (foldl (fadd (py_round G)) (Fin 0) ls)
                (loader_len (train_loader G))]"
proof -
  from assms obtain batches w1 acc w2 where
    it: "start_iter G (val_loader G) (w\<lparr>model := m_eval (nn_module G) (model w)\<rparr>) = (Inr batches, w1)"
    and vb: "val_batches G batches (Fin 0, 0) w1 = (Inr acc, w2)"
    and rest: "(case acc of (val_loss, correct) \<Rightarrow>
       bnd (if loader_len (train_loader G) = 0 then throw ZeroDivisionError
            else modify (losses_append ValLosses (fdiv_nat (py_round G) val_loss (loader_len (train_loader G)))))
         (\<lambda>_. if subset_len (ld_dataset (val_loader G)) = 0 then throw ZeroDivisionError
               else ret correct)) w2 = (Inr c, w')"
    by (auto simp: val_def bnd_Inr modify_def)
  from it have b: "batches = fst (loader_iter (torch_generator G) (val_loader G) (torch_rng w))"
    and k1: "val_losses w1 = val_losses w"
    by (auto simp: start_iter_def split: prod.splits)
  have "preserves (\<lambda>w'. val_losses w' = val_losses w) (val_batches G batches (Fin 0, 0))"
    by (intro val_batches_frame preserves_call_model) simp
  from preservesD[OF this k1] vb have k2: "val_losses w2 = val_losses w" by simp
  from val_batches_sum[OF vb] obtain ls where
    ls: "length ls = length batches" "fst acc = foldl (fadd (py_round G)) (Fin 0) ls" by auto
  from rest have "w' = losses_append ValLosses (fdiv_nat (py_round G) (fst acc) (loader_len (train_loader G))) w2"
    by (cases acc) (auto simp: bnd_Inr modify_def throw_def ret_def split: if_splits)
  with k2 ls b show ?thesis by auto
qed

text \<open>
  The count of a batch: with one prediction per clip, the clips whose predicted index
  is their label.
\<close>

lemma count_where_card: "count_where n P = card {i. i < n \<and> P i}"
proof -
  have "{i. i < length [0..<n] \<and> P ([0..<n] ! i)} = {i. i < n \<and> P i}" by auto
  then show ?thesis by (simp add: count_where_def length_filter_conv_card del: length_upt)
qed

lemma number_of_correct_batch:
  assumes "rows pred = length target" "cols pred = 1"
  shows "number_of_correct pred target
           = Inr (card {i. i < length target \<and> int (at2 pred i 0) = sint (target ! i)})"
proof (cases "length target = 1")
  case True
  have "{i. i < Suc 0 \<and> int (at2 pred 0 0) = sint (target ! i)} = {i. i < Suc 0 \<and> int (at2 pred i 0) = sint (target ! i)}"
    by auto
  with True assms show ?thesis
    by (simp add: number_of_correct_def count_where_card Let_def)
next
  case False
  with assms show ?thesis
    by (simp add: number_of_correct_def count_where_card Let_def)
qed

lemma get_likely_index_batch:
  assumes "0 < dim2 output"
  shows "\<exists>pred. get_likely_index output = Inr pred \<and> rows pred = dim0 output \<and>
           cols pred = dim1 output \<and>
           (\<forall>n s. at2 pred n s = argmax_upto (at3 output n s) (dim2 output - 1))"
  using assms by (simp add: get_likely_index_def tensor_argmax_def)

text \<open>
  C3, the code at a failing input: two training batches, one validation batch of loss
  1.  The mean loss per validation batch is 1; \<^verbatim>\<open>val\<close> appends 1/2.  The one clip of
  the batch is counted as correct.
\<close>

theorem val_divides_by_train_batches:
  "val (demo_globals (\<lambda>i. Fin 1) 2) 1 ValLosses demo_world =
     (Inr 1, demo_world\<lparr>torch_rng := 1, val_losses := [Fin (1 / 2)]\<rparr>) \<and>
   loader_len (val_loader (demo_globals (\<lambda>i. Fin 1) 2)) = 1 \<and>
   loader_len (train_loader (demo_globals (\<lambda>i. Fin 1) 2)) = 2"
  by (simp add: demo_defs fadd_zero demo_label demo_world_def)

subsection \<open>The split and the order of the loaders\<close>

text \<open>Shuffling changes the places of the entries and nothing else.\<close>

lemma shuffle_perm:
  "i < length x \<Longrightarrow>
     length (fst (shuffle np i x g)) = length x \<and> set (fst (shuffle np i x g)) = set x \<and>
     distinct (fst (shuffle np i x g)) = distinct x"
proof (induction i arbitrary: x g)
  case 0
  show ?case by simp
next
  case (Suc i)
  obtain r g' where d: "rk_interval np (Suc i) g = (r, g')" by (cases "rk_interval np (Suc i) g")
  define j where "j = r mod Suc (Suc i)"
  define x' where "x' = x[Suc i := x ! j, j := x ! Suc i]"
  have "j < Suc (Suc i)" unfolding j_def by (rule mod_less_divisor) simp
  with Suc.prems have j: "j < length x" by simp
  have s: "shuffle np (Suc i) x g = shuffle np i x' g'"
    by (simp add: d j_def x'_def Let_def)
  have "i < length x'" using Suc.prems by (simp add: x'_def)
  from Suc.IH[OF this, of g']
  have "length (fst (shuffle np i x' g')) = length x' \<and>
     set (fst (shuffle np i x' g')) = set x' \<and>
     distinct (fst (shuffle np i x' g')) = distinct x'" .
  moreover have "length x' = length x" by (simp add: x'_def)
  moreover have "set x' = set x"
    unfolding x'_def using Suc.prems j by (intro set_swap)
  moreover have "distinct x' = distinct x"
    unfolding x'_def using Suc.prems j by (intro distinct_swap)
  ultimately show ?case by (simp only: s)
qed

lemma permutation_perm:
  "length (fst (permutation np g n)) = n \<and> set (fst (permutation np g n)) = {0..<n} \<and>
   distinct (fst (permutation np g n))"
proof (cases n)
  case 0
  then show ?thesis by (simp add: permutation_def)
next
  case (Suc k)
  then have "n - 1 < length [0..<n]" by simp
  from shuffle_perm[OF this, of np g] show ?thesis by (simp add: permutation_def)
qed

lemma map_nth_upt: "\<forall>i\<in>set xs. i < n \<Longrightarrow> map (\<lambda>i. [0..<n] ! i) xs = xs"
  by (induction xs) simp_all

lemma test_part_smaller:
  assumes "2 \<le> n"
  shows "nat \<lceil>val_size * real n\<rceil> < n" and "0 < nat \<lceil>val_size * real n\<rceil>"
proof -
  have "0 < val_size * real n" using assms by (simp add: val_size_def)
  then have pos: "0 < \<lceil>val_size * real n\<rceil>" by simp
  then show "0 < nat \<lceil>val_size * real n\<rceil>" by simp
  have "val_size * real n \<le> real n - 1"
    using assms by (simp add: val_size_def)
  then have "\<lceil>val_size * real n\<rceil> < int n"
    by (simp add: ceiling_less_iff)
  with pos show "nat \<lceil>val_size * real n\<rceil> < n" by (simp add: nat_less_iff)
qed

lemma split_ok:
  assumes n: "2 \<le> n"
  shows "train_test_split np [0..<n] val_size (Some seed) g =
     (Inr (drop (nat \<lceil>val_size * real n\<rceil>) (fst (permutation np (seeded np seed) n)),
           take (nat \<lceil>val_size * real n\<rceil>) (fst (permutation np (seeded np seed) n))), g)"
proof -
  define p where "p = fst (permutation np (seeded np seed) n)"
  define k where "k = nat \<lceil>val_size * real n\<rceil>"
  from permutation_perm[of np "seeded np seed" n]
  have lp: "length p = n" and sp: "set p = {0..<n}" and dp: "distinct p"
    by (simp_all add: p_def)
  from test_part_smaller[OF n] have k: "k < n" by (simp add: k_def)
  have "\<forall>i\<in>set (take k p). i < n" "\<forall>i\<in>set (drop k p). i < n"
    using sp by (auto dest: in_set_takeD in_set_dropD)
  then have m: "map (\<lambda>i. [0..<n] ! i) (take k p) = take k p"
    "map (\<lambda>i. [0..<n] ! i) (drop k p) = drop k p"
    by (simp_all add: map_nth_upt)
  have t: "take (n - k) (drop k p) = drop k p" using lp by simp
  have v: "\<not> (val_size \<le> 0 \<or> 1 \<le> val_size)" by (simp add: val_size_def)
  show ?thesis
    using k v
    by (simp add: train_test_split_def Let_def p_def[symmetric] k_def[symmetric] m t)
qed

text \<open>
  C5 (amended).  For a dataset of at least two items the cell returns the same two
  loaders whatever the state of the process-wide generator of numpy, and leaves that
  state alone: the indices are those of the permutation that the generator made from
  the seed 42 gives, the first \<open>\<lceil>0.3 \<sdot> n\<rceil>\<close> of them for validation and the rest for
  training.  The training and validation indices are disjoint, without repetition,
  and cover all indices.  On every pass, whatever the state of the generator of torch,
  the validation loader goes through its part in the order \<open>0, 1, 2, \<dots>\<close>, while the
  training loader follows the permutation drawn for the pass.
\<close>

theorem split_partition_deterministic:
  assumes "2 \<le> length dataset"
  shows "\<exists>train_indices val_indices train_loader val_loader.
     train_loader = \<lparr>ld_dataset = \<lparr>sub_dataset = dataset, sub_indices = train_indices\<rparr>,
                     ld_batch_size = 256, ld_collate_fn = collate_fn K, ld_shuffle = True\<rparr> \<and>
     val_loader = \<lparr>ld_dataset = \<lparr>sub_dataset = dataset, sub_indices = val_indices\<rparr>,
                   ld_batch_size = 256, ld_collate_fn = collate_fn K, ld_shuffle = False\<rparr> \<and>
     (\<forall>g. make_loaders np K dataset g = (Inr (train_loader, val_loader), g)) \<and>
     val_indices = take (nat \<lceil>3 / 10 * real (length dataset)\<rceil>)
                     (fst (permutation np (seeded np 42) (length dataset))) \<and>
     train_indices = drop (nat \<lceil>3 / 10 * real (length dataset)\<rceil>)
                       (fst (permutation np (seeded np 42) (length dataset))) \<and>
     set train_indices \<inter> set val_indices = {} \<and>
     set train_indices \<union> set val_indices = {0..<length dataset} \<and>
     distinct train_indices \<and> distinct val_indices \<and>
     length val_indices = nat \<lceil>3 / 10 * real (length dataset)\<rceil> \<and>
     length train_indices + length val_indices = length dataset \<and>
     (\<forall>R g. fst (loader_iter R val_loader g) = batched 256 [0..<length val_indices]) \<and>
     (\<forall>R g. fst (loader_iter R train_loader g)
              = batched 256 (randperm R (fst (draw_seed R (snd (draw_seed R g))))
                               (length train_indices)))"
proof -
  define n where "n = length dataset"
  define p where "p = fst (permutation np (seeded np 42) n)"
  define k where "k = nat \<lceil>val_size * real n\<rceil>"
  from permutation_perm[of np "seeded np 42" n]
  have lp: "length p = n" and sp: "set p = {0..<n}" and dp: "distinct p"
    by (simp_all add: p_def)
  from assms have n2: "2 \<le> n" by (simp add: n_def)
  from test_part_smaller[OF n2] have k: "k < n" by (simp add: k_def)
  have k': "k = nat \<lceil>3 / 10 * real (length dataset)\<rceil>" by (simp add: k_def val_size_def n_def)
  have split: "train_test_split np [0..<n] val_size (Some 42) g = (Inr (drop k p, take k p), g)"
    for g
    using split_ok[of n np 42 g] n2 by (simp add: p_def k_def)
  let ?tl = "\<lparr>ld_dataset = \<lparr>sub_dataset = dataset, sub_indices = drop k p\<rparr>,
                     ld_batch_size = 256, ld_collate_fn = collate_fn K, ld_shuffle = True\<rparr>"
  let ?vl = "\<lparr>ld_dataset = \<lparr>sub_dataset = dataset, sub_indices = take k p\<rparr>,
                   ld_batch_size = 256, ld_collate_fn = collate_fn K, ld_shuffle = False\<rparr>"
  have run: "\<forall>g. make_loaders np K dataset g = (Inr (?tl, ?vl), g)"
    by (simp add: make_loaders_def Let_def n_def[symmetric] split bnd_def ret_def batch_size_def)
  have "take k p = take (nat \<lceil>3 / 10 * real (length dataset)\<rceil>)
                     (fst (permutation np (seeded np 42) (length dataset)))"
    "drop k p = drop (nat \<lceil>3 / 10 * real (length dataset)\<rceil>)
                     (fst (permutation np (seeded np 42) (length dataset)))"
    by (simp_all add: k' p_def n_def)
  moreover have "set (drop k p) \<inter> set (take k p) = {}"
    using dp set_take_disj_set_drop_if_distinct[of p k k] by auto
  moreover have "set (drop k p) \<union> set (take k p) = {0..<length dataset}"
    using sp set_append[of "take k p" "drop k p"] by (auto simp: n_def)
  moreover have "distinct (drop k p)" "distinct (take k p)" using dp by simp_all
  moreover have "length (take k p) = nat \<lceil>3 / 10 * real (length dataset)\<rceil>"
    using k lp by (simp add: k')
  moreover have "length (drop k p) + length (take k p) = length dataset"
    using k lp by (simp add: n_def)
  moreover have "\<forall>R g. fst (loader_iter R ?vl g) = batched 256 [0..<length (take k p)]"
    by (simp add: loader_iter_def subset_len_def Let_def split: prod.splits)
  moreover have "\<forall>R g. fst (loader_iter R ?tl g)
              = batched 256 (randperm R (fst (draw_seed R (snd (draw_seed R g))))
                               (length (drop k p)))"
    by (simp add: loader_iter_def subset_len_def Let_def split: prod.splits)
  ultimately show ?thesis using run by blast
qed

text \<open>
  Five clips, with a generator of numpy that draws 42, 43, \<dots> after the seed 42: the
  permutation is 0, 1, 4, 3, 2, the validation part 0, 1 and the training part 4, 3, 2,
  whether the process-wide generator is in state 0 or 7.
\<close>

theorem split_partition_deterministic_witness:
  "2 \<le> length (replicate 5 demo_clip) \<and>
   make_loaders demo_random demo_kernels (replicate 5 demo_clip) 0 =
     (Inr (\<lparr>ld_dataset = \<lparr>sub_dataset = replicate 5 demo_clip, sub_indices = [4, 3, 2]\<rparr>,
           ld_batch_size = 256, ld_collate_fn = collate_fn demo_kernels, ld_shuffle = True\<rparr>,
          \<lparr>ld_dataset = \<lparr>sub_dataset = replicate 5 demo_clip, sub_indices = [0, 1]\<rparr>,
           ld_batch_size = 256, ld_collate_fn = collate_fn demo_kernels, ld_shuffle = False\<rparr>),
      0) \<and>
   fst (make_loaders demo_random demo_kernels (replicate 5 demo_clip) 7) =
     fst (make_loaders demo_random demo_kernels (replicate 5 demo_clip) 0)"
proof -
  let ?d = "replicate 5 demo_clip"
  have h: "2 \<le> length ?d" by simp
  have p: "permutation demo_random (seeded demo_random 42) (length ?d) = ([0, 1, 4, 3, 2], 46)"
  proof -
    have "permutation demo_random 42 5 = ([0, 1, 4, 3, 2], 46)" by code_simp
    then show ?thesis by (simp add: demo_random_def)
  qed
  have c: "nat \<lceil>3 / 10 * real (length ?d)\<rceil> = 2" by simp
  from split_partition_deterministic[OF h, of demo_kernels demo_random] obtain tr va where
    run: "\<forall>g. make_loaders demo_random demo_kernels ?d g =
       (Inr (\<lparr>ld_dataset = \<lparr>sub_dataset = ?d, sub_indices = tr\<rparr>,
               ld_batch_size = 256, ld_collate_fn = collate_fn demo_kernels, ld_shuffle = True\<rparr>,
             \<lparr>ld_dataset = \<lparr>sub_dataset = ?d, sub_indices = va\<rparr>,
               ld_batch_size = 256, ld_collate_fn = collate_fn demo_kernels, ld_shuffle = False\<rparr>),
        g)"
    and va: "va = take (nat \<lceil>3 / 10 * real (length ?d)\<rceil>)
                    (fst (permutation demo_random (seeded demo_random 42) (length ?d)))"
    and tr: "tr = drop (nat \<lceil>3 / 10 * real (length ?d)\<rceil>)
                    (fst (permutation demo_random (seeded demo_random 42) (length ?d)))"
    by blast
  from va tr have "va = [0, 1]" "tr = [4, 3, 2]" unfolding p c by simp_all
  with run h show ?thesis by simp
qed

text \<open>A dataset of a single item: the split raises, there is no partition.\<close>

theorem split_single_item:
  "make_loaders demo_random demo_kernels [demo_clip] 0 = (Inl ValueError, 0)"
  by (simp add: make_loaders_def train_test_split_def val_size_def bnd_def Let_def)

subsection \<open>Inference\<close>







lemma load_state_dict_same: "load_state_dict (state_dict m) m = Inr m"
  by (simp add: load_state_dict_def state_dict_def conv_fits_def bn_fits_def linear_fits_def
      load_conv_def)


text \<open>The cell of the prediction, when the model returns one row.\<close>

lemma predict_cell_run:
  assumes x: "input_data s = Some x" and fw: "forward K x (i_model s) = (Inr y, m')"
    and d: "dim0 y = 1" "dim1 y = 1" "0 < dim2 y"
    and i: "argmax_upto (at3 y 0 0) (dim2 y - 1) = i" "i < length classes"
  shows "predict_cell K classes s =
     (Inr (classes ! i),
      s\<lparr>i_model := m',
        events := events s @ [Forwarded, Printed (''Predicted label: '' @ classes ! i)]\<rparr>)"
  using x fw d i
  by (simp add: predict_cell_def bnd_def call_i_model_def emit_def lift_def ret_def
      tensor_argmax_def item_def getitem_def)

lemma predict_cell_events:
  assumes "input_data s = Some x"
  shows "\<exists>rest. events (snd (predict_cell K classes s)) = events s @ Forwarded # rest \<and>
           Forwarded \<notin> set rest \<and> (\<forall>a b. Resampled a b \<notin> set rest)"
proof -
  obtain r m' where f: "forward K x (i_model s) = (r, m')" by (cases "forward K x (i_model s)")
  show ?thesis
    using assms f
    by (cases r)
      (auto simp: predict_cell_def bnd_def call_i_model_def emit_def lift_def ret_def
        split: sum.splits prod.splits)
qed

text \<open>The two cells, by the outcome of the checks.\<close>

lemma guards_missing:
  assumes "fs test_wav = None"
  shows "bnd (prepare_cell K fs test_wav) (\<lambda>_. predict_cell K classes) s
           = predict_cell K classes
               (s\<lparr>events := events s @ [Printed ''Error: Audio file does not exist.'']\<rparr>)"
  using assms by (simp add: prepare_cell_def bnd_def emit_def)

lemma guards_short:
  assumes "fs test_wav = Some (Audio w sr)" "0 < sr" "real (cols w) / real sr < 1"
  shows "bnd (prepare_cell K fs test_wav) (\<lambda>_. predict_cell K classes) s
           = predict_cell K classes
               (s\<lparr>events := events s @ [Printed ''Error: Audio duration is too short.'']\<rparr>)"
  using assms by (simp add: prepare_cell_def bnd_def emit_def Let_def)

lemma guards_passed:
  assumes "fs test_wav = Some (Audio w sr)" "0 < sr" "1 \<le> real (cols w) / real sr"
  shows "bnd (prepare_cell K fs test_wav) (\<lambda>_. predict_cell K classes) s
           = predict_cell K classes
               (s\<lparr>events := events s @ [Resampled sr new_sample_rate],
                  input_data := Some (unsqueeze_0 (Resample K sr new_sample_rate w))\<rparr>)"
  using assms
  by (simp add: prepare_cell_def bnd_def emit_def modify_def Let_def not_less[symmetric])

lemma predict_cell_unbound:
  "input_data s = None \<Longrightarrow> predict_cell K classes s = (Inl NameError, s)"
  by (simp add: predict_cell_def bnd_def)

text \<open>
  From a state in which \<^verbatim>\<open>input_data\<close> is not bound, the model is called if and only
  if the checks pass; otherwise the second cell stops at the unbound name.
\<close>

lemma guards_unbound:
  assumes "input_data s = None"
  shows "Forwarded \<in> set (drop (length (events s))
            (events (snd (bnd (prepare_cell K fs test_wav) (\<lambda>_. predict_cell K classes) s))))
         \<longleftrightarrow> (\<exists>w sr. fs test_wav = Some (Audio w sr) \<and> 0 < sr \<and> 1 \<le> real (cols w) / real sr)"
proof (cases "fs test_wav")
  case None
  with guards_missing[of fs test_wav K classes s] assms show ?thesis
    by (simp add: predict_cell_unbound)
next
  case (Some f)
  show ?thesis
  proof (cases f)
    case Other
    with Some show ?thesis
      by (simp add: prepare_cell_def bnd_def throw_def)
  next
    case (Audio w sr)
    consider "sr = 0" | "0 < sr" "real (cols w) / real sr < 1"
      | "0 < sr" "1 \<le> real (cols w) / real sr"
      by fastforce
    then show ?thesis
    proof cases
      case 1
      with Some Audio show ?thesis by (simp add: prepare_cell_def bnd_def throw_def)
    next
      case 2
      with guards_short[of fs test_wav w sr K classes s] assms Some Audio show ?thesis
        by (simp add: predict_cell_unbound)
    next
      case 3
      let ?s1 = "s\<lparr>events := events s @ [Resampled sr new_sample_rate],
                  input_data := Some (unsqueeze_0 (Resample K sr new_sample_rate w))\<rparr>"
      from predict_cell_events[of ?s1 _ K classes] obtain rest where
        "events (snd (predict_cell K classes ?s1)) = events ?s1 @ Forwarded # rest" by auto
      with guards_passed[of fs test_wav w sr K classes s] 3 Some Audio show ?thesis by auto
    qed
  qed
qed

text \<open>
  With the kernels of the concrete runs, the output of the model is the bias of its
  classifier.
\<close>

lemma demo_forward:
  assumes "forward demo_kernels x m = (Inr y, m')"
  shows "at3 y n s out = l_bias (fc1 m) ! out"
proof -
  from forward_chain[OF assms] obtain a l where
    l: "linear demo_kernels (fc1 m) (permute_0_2_1 a) = Inr l"
    and y: "y = log_softmax demo_kernels l"
    by blast
  from l have "at3 l n s out = l_bias (fc1 m) ! out"
    by (auto simp: linear_def Let_def demo_kernels_def split: if_splits)
  with y show ?thesis by (simp add: log_softmax_def demo_kernels_def)
qed

lemma demo_forward_eval:
  assumes arch: "has_arch m 1 n_out 16 32" and ev: "\<not> training m"
    and x: "dim0 x = 1" "dim1 x = 1" "6848 \<le> dim2 x"
  shows "\<exists>y. forward demo_kernels x m = (Inr y, m) \<and> dim0 y = 1 \<and> dim1 y = 1 \<and>
           dim2 y = n_out \<and> (\<forall>out. at3 y 0 0 out = l_bias (fc1 m) ! out)"
proof -
  from x have "0 < dim0 x" "80 + 423 * 16 \<le> dim2 x" by simp_all
  from forward_defined[where K = demo_kernels, OF arch _ x(2) this]
  obtain y m' where fw: "forward demo_kernels x m = (Inr y, m')" by auto
  from forward_Inr_lengths[OF fw arch] ev x
  have "dim0 y = 1" "dim1 y = 1" "dim2 y = n_out" "m' = m" by simp_all
  with fw demo_forward[OF fw] show ?thesis by simp
qed

text \<open>
  C9.  The check of the file and the call of the model are in two cells, and the second
  is not under the check.  Run again after an earlier run has bound \<^verbatim>\<open>input_data\<close>,
  with a path at which there is no file, or a file of half a second: the first cell
  prints its error message and resamples nothing, and the second cell calls the model
  on the clip of the earlier run and prints a label for it.
\<close>

theorem inference_guards_stale_input:
  "bnd (prepare_cell demo_kernels (\<lambda>_. None) ''./PATH/TO/AUDIO-SAMPLE.wav'')
       (\<lambda>_. predict_cell demo_kernels [''yes'', ''no''])
       (stale_state ((zero_model 2)\<lparr>training := False\<rparr>) (zero_clip 1 8000))
     = (Inr ''yes'',
        (stale_state ((zero_model 2)\<lparr>training := False\<rparr>) (zero_clip 1 8000))
          \<lparr>events := [Printed ''Error: Audio file does not exist.'', Forwarded,
                      Printed ''Predicted label: yes'']\<rparr>) \<and>
   bnd (prepare_cell demo_kernels (\<lambda>_. Some (Audio (zero_wave 1 8000) 16000))
          ''./PATH/TO/AUDIO-SAMPLE.wav'')
       (\<lambda>_. predict_cell demo_kernels [''yes'', ''no''])
       (stale_state ((zero_model 2)\<lparr>training := False\<rparr>) (zero_clip 1 8000))
     = (Inr ''yes'',
        (stale_state ((zero_model 2)\<lparr>training := False\<rparr>) (zero_clip 1 8000))
          \<lparr>events := [Printed ''Error: Audio duration is too short.'', Forwarded,
                      Printed ''Predicted label: yes'']\<rparr>)"
proof -
  define m where "m = (zero_model 2)\<lparr>training := False\<rparr>"
  define s where "s = stale_state m (zero_clip 1 8000)"
  have arch: "has_arch m 1 2 16 32" using zero_model_arch[of 2] by (simp add: m_def has_arch_def)
  have "\<not> training m" by (simp add: m_def)
  from demo_forward_eval[OF arch this, of "zero_clip 1 8000"] obtain y where
    fw: "forward demo_kernels (zero_clip 1 8000) m = (Inr y, m)"
    and d: "dim0 y = 1" "dim1 y = 1" "dim2 y = 2"
    and out: "\<forall>out. at3 y 0 0 out = l_bias (fc1 m) ! out"
    by (auto simp: zero_clip_def)
  have b: "l_bias (fc1 m) = [Fin 0, Fin 0]"
    by (simp add: m_def zero_model_def M5_init_def Linear_init_def upt_rec)
  have i: "argmax_upto (at3 y 0 0) (dim2 y - 1) = 0"
    by (simp add: d out b beats_def)
  have run: "predict_cell demo_kernels [''yes'', ''no''] (s\<lparr>events := [e]\<rparr>)
      = (Inr ''yes'', s\<lparr>events := [e, Forwarded, Printed ''Predicted label: yes'']\<rparr>)" for e
    using predict_cell_run[of "s\<lparr>events := [e]\<rparr>" "zero_clip 1 8000" demo_kernels y m 0
        "[''yes'', ''no'']"] fw d i
    by (simp add: s_def stale_state_def)
  have e: "events s = []" by (simp add: s_def stale_state_def)
  have "bnd (prepare_cell demo_kernels (\<lambda>_. None) ''./PATH/TO/AUDIO-SAMPLE.wav'')
       (\<lambda>_. predict_cell demo_kernels [''yes'', ''no'']) s
     = (Inr ''yes'', s\<lparr>events := [Printed ''Error: Audio file does not exist.'', Forwarded,
                      Printed ''Predicted label: yes'']\<rparr>)"
    by (simp add: guards_missing e run)
  moreover have "bnd (prepare_cell demo_kernels (\<lambda>_. Some (Audio (zero_wave 1 8000) 16000))
          ''./PATH/TO/AUDIO-SAMPLE.wav'')
       (\<lambda>_. predict_cell demo_kernels [''yes'', ''no'']) s
     = (Inr ''yes'', s\<lparr>events := [Printed ''Error: Audio duration is too short.'', Forwarded,
                      Printed ''Predicted label: yes'']\<rparr>)"
    using guards_short[of "\<lambda>_. Some (Audio (zero_wave 1 8000) 16000)" _ "zero_wave 1 8000" 16000
        demo_kernels "[''yes'', ''no'']" s]
    by (simp add: e run zero_wave_def)
  ultimately show ?thesis unfolding s_def m_def by simp
qed

subsection \<open>Decoding the prediction\<close>







end
